theory Spec2Isabelle
  imports Complex_Main
begin

section \<open>The variable store and the function registry\<close>

text \<open>
  An \<open>EqVar\<close> holds the fields of a variable that the computation nodes and the
  reconfiguration procedures of \<^verbatim>\<open>xeqcalc.cpp\<close> and \<^verbatim>\<open>xeqcalcreconfig.cpp\<close> read and
  write: the native value, the active item of a discrete variable, the three masking
  flags and the raw text of a text or list variable. C++ \<^verbatim>\<open>double\<close> values are modelled
  as real numbers; infinities and NaN are outside the model. Every node is given in exact
  arithmetic, and the nodes of which a property depends on rounding are given a second
  time with the rounding of double arithmetic made explicit. Display values, units and decimals are derived data kept by
  \<^verbatim>\<open>EqVar::update\<close> and are not modelled.
\<close>

record EqVar =
  m_nativeValue :: real
  m_activeItem :: int
  m_isUserInput :: bool
  m_isUserOutput :: bool
  m_isConstant :: bool
  m_store :: string

text \<open>
  The \<open>EqTree\<close> owns the variables and the functions, both addressed by name
  (\<^verbatim>\<open>getVarPtr\<close>, \<^verbatim>\<open>getFunPtr\<close>); a function carries its \<^verbatim>\<open>m_active\<close> flag, and the tree
  keeps the label suffix set by \<^verbatim>\<open>setLabel\<close>.
\<close>

record EqTree =
  var :: "string \<Rightarrow> EqVar"
  m_active :: "string \<Rightarrow> bool"
  label :: "string \<Rightarrow> string"

definition nativeValue :: "EqTree \<Rightarrow> string \<Rightarrow> real" where
  "nativeValue t v = m_nativeValue (var t v)"

definition activeItemDataIndex :: "EqTree \<Rightarrow> string \<Rightarrow> int" where
  "activeItemDataIndex t v = m_activeItem (var t v)"

definition isUserOutput :: "EqTree \<Rightarrow> string \<Rightarrow> bool" where
  "isUserOutput t v = m_isUserOutput (var t v)"

definition isUserInput :: "EqTree \<Rightarrow> string \<Rightarrow> bool" where
  "isUserInput t v = m_isUserInput (var t v)"

definition isConstant :: "EqTree \<Rightarrow> string \<Rightarrow> bool" where
  "isConstant t v = m_isConstant (var t v)"

text \<open>
  \<^verbatim>\<open>v->update( x )\<close> stores the native value \<open>x\<close>; \<^verbatim>\<open>v->updateItem( i )\<close> makes item \<open>i\<close>
  the active item, which \<^verbatim>\<open>activeItemDataIndex()\<close> then returns. Both live in
  \<^verbatim>\<open>xeqvar.cpp\<close>; only their effect on the fields above is modelled.
\<close>

definition update :: "string \<Rightarrow> real \<Rightarrow> EqTree \<Rightarrow> EqTree" where
  "update v x t = t\<lparr>var := (var t)(v := (var t v)\<lparr>m_nativeValue := x\<rparr>)\<rparr>"

definition updateItem :: "string \<Rightarrow> int \<Rightarrow> EqTree \<Rightarrow> EqTree" where
  "updateItem v i t = t\<lparr>var := (var t)(v := (var t v)\<lparr>m_activeItem := i\<rparr>)\<rparr>"

definition set_isUserOutput :: "string \<Rightarrow> bool \<Rightarrow> EqTree \<Rightarrow> EqTree" where
  "set_isUserOutput v b t = t\<lparr>var := (var t)(v := (var t v)\<lparr>m_isUserOutput := b\<rparr>)\<rparr>"

definition set_isUserInput :: "string \<Rightarrow> bool \<Rightarrow> EqTree \<Rightarrow> EqTree" where
  "set_isUserInput v b t = t\<lparr>var := (var t)(v := (var t v)\<lparr>m_isUserInput := b\<rparr>)\<rparr>"

definition set_isConstant :: "string \<Rightarrow> bool \<Rightarrow> EqTree \<Rightarrow> EqTree" where
  "set_isConstant v b t = t\<lparr>var := (var t)(v := (var t v)\<lparr>m_isConstant := b\<rparr>)\<rparr>"

definition set_active :: "string \<Rightarrow> bool \<Rightarrow> EqTree \<Rightarrow> EqTree" where
  "set_active f b t = t\<lparr>m_active := (m_active t)(f := b)\<rparr>"

definition setLabel :: "string \<Rightarrow> string \<Rightarrow> EqTree \<Rightarrow> EqTree" where
  "setLabel v l t = t\<lparr>label := (label t)(v := l)\<rparr>"

section \<open>Double arithmetic\<close>

text \<open>
  The program computes in C++ \<^verbatim>\<open>double\<close>, IEEE 754 binary64 in the default rounding mode:
  the result of an arithmetic operation, and the value of a decimal constant, is the exact
  real number rounded to the nearest double, a tie going to the neighbour whose last
  binary digit is even. Between \<open>2 ^ e\<close> and \<open>2 ^ (e + 1)\<close> the doubles are the integer
  multiples of \<open>2 ^ (e - 52)\<close>, and below \<open>2 ^ - 1022\<close> they are the multiples of
  \<open>2 ^ - 1074\<close>; \<open>ulp_exponent x\<close> is the exponent of that spacing at \<open>x\<close>.
  \<open>roundToDouble\<close> is the rounding itself. Results that round beyond the largest double,
  which the program turns into an infinity, are outside the model.
\<close>

definition round_half_even :: "real \<Rightarrow> int" where
  "round_half_even x =
     (let n = \<lfloor>x\<rfloor>; r = x - of_int n
      in if r < 1 / 2 then n else if 1 / 2 < r then n + 1 else if even n then n else n + 1)"

definition twoTo :: "int \<Rightarrow> real" where
  "twoTo e = (if 0 \<le> e then 2 ^ nat e else 1 / 2 ^ nat (- e))"

definition ulp_exponent :: "real \<Rightarrow> int" where
  "ulp_exponent x = max \<lfloor>log 2 \<bar>x\<bar>\<rfloor> (- 1022) - 52"

definition roundToDouble :: "real \<Rightarrow> real" where
  "roundToDouble x =
     (if x = 0 then 0
      else of_int (round_half_even (x / twoTo (ulp_exponent x))) * twoTo (ulp_exponent x))"

text \<open>
  Where a property of a node depends on rounding, the node \<open>X\<close> is given a second time as
  \<open>X_rounded rnd\<close>: the same steps, with the result of every addition, subtraction,
  multiplication and division, and every decimal constant that is not itself a double,
  passed through the rounding function \<open>rnd\<close>. With \<open>roundToDouble\<close> for \<open>rnd\<close> this is
  the node as the program computes it; with the identity it is the node in exact
  arithmetic.
\<close>

section \<open>WindDirFromUpslope\<close>

text \<open>
  \<^verbatim>\<open>EqCalc::WindDirFromUpslope\<close> (xeqcalc.cpp, 6196-6234). The three steps of its body are
  named: the source direction turned into a vector, the angle from upslope before the
  tolerance test, and the tolerance test itself.
\<close>

definition windVector :: "real \<Rightarrow> real" where
  "windVector wd = (let wd = wd - 180 in if wd < 0 then wd + 360 else wd)"

definition angleFromUpslope :: "real \<Rightarrow> real \<Rightarrow> real" where
  "angleFromUpslope wd sd = (let dd = windVector wd - sd in if dd < 0 then dd + 360 else dd)"

definition snapToZero :: "real \<Rightarrow> real" where
  "snapToZero dd = (if \<bar>dd\<bar> < 0.5 then 0 else dd)"

definition WindDirFromUpslope :: "EqTree \<Rightarrow> EqTree" where
  "WindDirFromUpslope t =
     (let sd = nativeValue t ''vSiteUpslopeDirFromNorth'';
          wd = nativeValue t ''vWindDirFromNorth'';
          dd = snapToZero (angleFromUpslope wd sd)
      in update ''vWindDirFromUpslope'' dd t)"

text \<open>
  The node with its three arithmetic results rounded. The constants 180, 360 and 0.5 are
  doubles, and \<^verbatim>\<open>fabs\<close> and the comparisons are exact.
\<close>

definition windVector_rounded :: "(real \<Rightarrow> real) \<Rightarrow> real \<Rightarrow> real" where
  "windVector_rounded rnd wd =
     (let wd = rnd (wd - 180) in if wd < 0 then rnd (wd + 360) else wd)"

definition angleFromUpslope_rounded :: "(real \<Rightarrow> real) \<Rightarrow> real \<Rightarrow> real \<Rightarrow> real" where
  "angleFromUpslope_rounded rnd wd sd =
     (let dd = rnd (windVector_rounded rnd wd - sd) in if dd < 0 then rnd (dd + 360) else dd)"

definition WindDirFromUpslope_rounded :: "(real \<Rightarrow> real) \<Rightarrow> EqTree \<Rightarrow> EqTree" where
  "WindDirFromUpslope_rounded rnd t =
     (let sd = nativeValue t ''vSiteUpslopeDirFromNorth'';
          wd = nativeValue t ''vWindDirFromNorth'';
          dd = snapToZero (angleFromUpslope_rounded rnd wd sd)
      in update ''vWindDirFromUpslope'' dd t)"


section \<open>FuelBedIntermediates\<close>

text \<open>
  \<^verbatim>\<open>EqCalc::FuelBedIntermediates\<close> (xeqcalc.cpp, 3427-3550). The fuel particle variables are
  eight-element pointer arrays bound to the names \<^verbatim>\<open>vSurfaceFuelLoad0\<close> ...
  \<^verbatim>\<open>vSurfaceFuelLoad7\<close> and so on (xeqcalc.cpp, 6700-6800).
\<close>

definition MaxParts :: nat where
  "MaxParts = 8"

definition vSurfaceFuelDens :: "nat \<Rightarrow> string" where
  "vSurfaceFuelDens p = [''vSurfaceFuelDens0'', ''vSurfaceFuelDens1'', ''vSurfaceFuelDens2'',
     ''vSurfaceFuelDens3'', ''vSurfaceFuelDens4'', ''vSurfaceFuelDens5'', ''vSurfaceFuelDens6'',
     ''vSurfaceFuelDens7''] ! p"

definition vSurfaceFuelHeat :: "nat \<Rightarrow> string" where
  "vSurfaceFuelHeat p = [''vSurfaceFuelHeat0'', ''vSurfaceFuelHeat1'', ''vSurfaceFuelHeat2'',
     ''vSurfaceFuelHeat3'', ''vSurfaceFuelHeat4'', ''vSurfaceFuelHeat5'', ''vSurfaceFuelHeat6'',
     ''vSurfaceFuelHeat7''] ! p"

definition vSurfaceFuelLife :: "nat \<Rightarrow> string" where
  "vSurfaceFuelLife p = [''vSurfaceFuelLife0'', ''vSurfaceFuelLife1'', ''vSurfaceFuelLife2'',
     ''vSurfaceFuelLife3'', ''vSurfaceFuelLife4'', ''vSurfaceFuelLife5'', ''vSurfaceFuelLife6'',
     ''vSurfaceFuelLife7''] ! p"

definition vSurfaceFuelLoad :: "nat \<Rightarrow> string" where
  "vSurfaceFuelLoad p = [''vSurfaceFuelLoad0'', ''vSurfaceFuelLoad1'', ''vSurfaceFuelLoad2'',
     ''vSurfaceFuelLoad3'', ''vSurfaceFuelLoad4'', ''vSurfaceFuelLoad5'', ''vSurfaceFuelLoad6'',
     ''vSurfaceFuelLoad7''] ! p"

definition vSurfaceFuelMois :: "nat \<Rightarrow> string" where
  "vSurfaceFuelMois p = [''vSurfaceFuelMois0'', ''vSurfaceFuelMois1'', ''vSurfaceFuelMois2'',
     ''vSurfaceFuelMois3'', ''vSurfaceFuelMois4'', ''vSurfaceFuelMois5'', ''vSurfaceFuelMois6'',
     ''vSurfaceFuelMois7''] ! p"

definition vSurfaceFuelSavr :: "nat \<Rightarrow> string" where
  "vSurfaceFuelSavr p = [''vSurfaceFuelSavr0'', ''vSurfaceFuelSavr1'', ''vSurfaceFuelSavr2'',
     ''vSurfaceFuelSavr3'', ''vSurfaceFuelSavr4'', ''vSurfaceFuelSavr5'', ''vSurfaceFuelSavr6'',
     ''vSurfaceFuelSavr7''] ! p"

definition vSurfaceFuelSeff :: "nat \<Rightarrow> string" where
  "vSurfaceFuelSeff p = [''vSurfaceFuelSeff0'', ''vSurfaceFuelSeff1'', ''vSurfaceFuelSeff2'',
     ''vSurfaceFuelSeff3'', ''vSurfaceFuelSeff4'', ''vSurfaceFuelSeff5'', ''vSurfaceFuelSeff6'',
     ''vSurfaceFuelSeff7''] ! p"

definition vSurfaceFuelStot :: "nat \<Rightarrow> string" where
  "vSurfaceFuelStot p = [''vSurfaceFuelStot0'', ''vSurfaceFuelStot1'', ''vSurfaceFuelStot2'',
     ''vSurfaceFuelStot3'', ''vSurfaceFuelStot4'', ''vSurfaceFuelStot5'', ''vSurfaceFuelStot6'',
     ''vSurfaceFuelStot7''] ! p"

text \<open>The local arrays filled by the loop over the particles: one entry per slot.\<close>

definition particleValues :: "EqTree \<Rightarrow> (nat \<Rightarrow> string) \<Rightarrow> real list" where
  "particleValues t v = map (\<lambda>p. nativeValue t (v p)) [0..<MaxParts]"

definition particleLife :: "EqTree \<Rightarrow> int list" where
  "particleLife t = map (\<lambda>p. activeItemDataIndex t (vSurfaceFuelLife p)) [0..<MaxParts]"

text \<open>
  The accumulation of the loop: a particle whose life category is 0 (dead) or 3 (litter)
  adds its load to the dead total, any other to the live total.
\<close>

fun accumulateLoads :: "int list \<Rightarrow> real list \<Rightarrow> nat list \<Rightarrow> real \<times> real \<Rightarrow> real \<times> real" where
  "accumulateLoads life load [] (deadLoad, liveLoad) = (deadLoad, liveLoad)"
| "accumulateLoads life load (p # ps) (deadLoad, liveLoad) =
     (if life ! p = 0 \<or> life ! p = 3
      then accumulateLoads life load ps (deadLoad + load ! p, liveLoad)
      else accumulateLoads life load ps (deadLoad, liveLoad + load ! p))"

definition LiveHerb :: nat where
  "LiveHerb = 3"

definition DeadHerb :: nat where
  "DeadHerb = 5"

text \<open>
  The loads of the bed: the loop over the particles followed by the load transfer
  (\<open>bedLoads\<close>, lines 3433-3472), the dead load fraction (3474-3477), then the formula
  and the stores. The transfer fraction is read only when the load-transfer equation item is non-zero,
  and the transfer runs only when the fraction exceeds 0.00001.
\<close>

definition transferFraction :: "EqTree \<Rightarrow> real" where
  "transferFraction t =
     (let fraction = 0;
          transferEq = activeItemDataIndex t ''vSurfaceFuelLoadTransferEq''
      in if transferEq \<noteq> 0 then nativeValue t ''vSurfaceFuelLoadTransferFraction''
         else fraction)"

definition loadTransfer :: "real \<Rightarrow> real list \<times> real \<times> real \<Rightarrow> real list \<times> real \<times> real" where
  "loadTransfer fraction s =
     (case s of (load, deadLoad, liveLoad) \<Rightarrow>
        if fraction > 0.00001
        then (let load = load[DeadHerb := fraction * load ! LiveHerb];
                  load = load[LiveHerb := load ! LiveHerb - load ! DeadHerb];
                  deadLoad = deadLoad + load ! DeadHerb;
                  liveLoad = liveLoad - load ! DeadHerb
              in (load, deadLoad, liveLoad))
        else (load, deadLoad, liveLoad))"

text \<open>
  A division whose denominator is zero has no real value in the program; it is made a
  failure of the model, so that a node which can reach one returns \<open>None\<close>.
\<close>

definition divide_checked :: "real \<Rightarrow> real \<Rightarrow> real option" where
  "divide_checked a b = (if b = 0 then None else Some (a / b))"

definition deadLoadFraction :: "real \<Rightarrow> real \<Rightarrow> real \<Rightarrow> real option" where
  "deadLoadFraction SMIDGEN deadLoad liveLoad =
     (let totalLoad = deadLoad + liveLoad
      in if totalLoad < SMIDGEN then Some 0 else divide_checked deadLoad totalLoad)"

text \<open>
  The formula \<^verbatim>\<open>FBL_SurfaceFuelBedIntermediates\<close> belongs to the physics library
  (\<^verbatim>\<open>xfblib.h\<close>) and the constant \<^verbatim>\<open>SMIDGEN\<close> is defined there too; both are parameters of
  the node. The formula returns sigma and, through its three pointer arguments, the bulk
  density, the packing ratio and the beta ratio.
\<close>

type_synonym FBL_BedIntermediates =
  "real \<Rightarrow> real \<Rightarrow> nat \<Rightarrow> int list \<Rightarrow> real list \<Rightarrow> real list \<Rightarrow> real list \<Rightarrow> real list
     \<Rightarrow> real list \<Rightarrow> real list \<Rightarrow> real \<times> real \<times> real \<times> real"

definition bedLoads :: "EqTree \<Rightarrow> real list \<times> real \<times> real" where
  "bedLoads t =
     (let life = particleLife t;
          load = particleValues t vSurfaceFuelLoad;
          (deadLoad, liveLoad) = accumulateLoads life load [0..<MaxParts] (0, 0);
          fraction = transferFraction t
      in loadTransfer fraction (load, deadLoad, liveLoad))"

definition FuelBedIntermediates :: "FBL_BedIntermediates \<Rightarrow> real \<Rightarrow> EqTree \<Rightarrow> EqTree option" where
  "FuelBedIntermediates FBL_SurfaceFuelBedIntermediates SMIDGEN t =
     (let dens = particleValues t vSurfaceFuelDens;
          heat = particleValues t vSurfaceFuelHeat;
          life = particleLife t;
          savr = particleValues t vSurfaceFuelSavr;
          seff = particleValues t vSurfaceFuelSeff;
          stot = particleValues t vSurfaceFuelStot;
          mois = particleValues t vSurfaceFuelMois;
          (load, deadLoad, liveLoad) = bedLoads t
      in case deadLoadFraction SMIDGEN deadLoad liveLoad of
           None \<Rightarrow> None
         | Some deadFraction \<Rightarrow>
             (let depth = nativeValue t ''vSurfaceFuelBedDepth'';
                  deadMext = nativeValue t ''vSurfaceFuelBedMextDead'';
                  (sigma, bulkDensity, packingRatio, betaRatio) =
                     FBL_SurfaceFuelBedIntermediates depth deadMext MaxParts
                       life load savr heat dens stot seff;
                  t = update ''vSurfaceFuelBedSigma'' sigma t;
                  t = update ''vSurfaceFuelBedBulkDensity'' bulkDensity t;
                  t = update ''vSurfaceFuelBedPackingRatio'' packingRatio t;
                  t = update ''vSurfaceFuelBedBetaRatio'' betaRatio t;
                  t = update ''vSurfaceFuelBedDeadFraction'' deadFraction t;
                  t = update ''vSurfaceFuelBedLiveFraction'' (1 - deadFraction) t;
                  t = update ''vSurfaceFuelLoadDeadHerb'' (load ! DeadHerb) t;
                  t = update ''vSurfaceFuelLoadUndeadHerb'' (load ! LiveHerb) t;
                  t = update ''vSurfaceFuelLoadDead'' deadLoad t;
                  t = update ''vSurfaceFuelLoadLive'' liveLoad t
              in Some t))"

text \<open>
  The node with its arithmetic rounded (lines 3433-3477 and 3497): the additions of the
  loop, the product and the three updates of the transfer, the total, the quotient and
  the difference \<^verbatim>\<open>1. - deadFraction\<close>. The constant 0.00001 is not a double and is
  rounded; \<^verbatim>\<open>SMIDGEN\<close> is a double already.
\<close>

fun accumulateLoads_rounded ::
  "(real \<Rightarrow> real) \<Rightarrow> int list \<Rightarrow> real list \<Rightarrow> nat list \<Rightarrow> real \<times> real \<Rightarrow> real \<times> real" where
  "accumulateLoads_rounded rnd life load [] (deadLoad, liveLoad) = (deadLoad, liveLoad)"
| "accumulateLoads_rounded rnd life load (p # ps) (deadLoad, liveLoad) =
     (if life ! p = 0 \<or> life ! p = 3
      then accumulateLoads_rounded rnd life load ps (rnd (deadLoad + load ! p), liveLoad)
      else accumulateLoads_rounded rnd life load ps (deadLoad, rnd (liveLoad + load ! p)))"

definition loadTransfer_rounded ::
  "(real \<Rightarrow> real) \<Rightarrow> real \<Rightarrow> real list \<times> real \<times> real \<Rightarrow> real list \<times> real \<times> real" where
  "loadTransfer_rounded rnd fraction s =
     (case s of (load, deadLoad, liveLoad) \<Rightarrow>
        if fraction > rnd 0.00001
        then (let load = load[DeadHerb := rnd (fraction * load ! LiveHerb)];
                  load = load[LiveHerb := rnd (load ! LiveHerb - load ! DeadHerb)];
                  deadLoad = rnd (deadLoad + load ! DeadHerb);
                  liveLoad = rnd (liveLoad - load ! DeadHerb)
              in (load, deadLoad, liveLoad))
        else (load, deadLoad, liveLoad))"

definition deadLoadFraction_rounded :: "(real \<Rightarrow> real) \<Rightarrow> real \<Rightarrow> real \<Rightarrow> real \<Rightarrow> real option" where
  "deadLoadFraction_rounded rnd SMIDGEN deadLoad liveLoad =
     (let totalLoad = rnd (deadLoad + liveLoad)
      in if totalLoad < SMIDGEN then Some 0
         else map_option rnd (divide_checked deadLoad totalLoad))"

definition bedLoads_rounded :: "(real \<Rightarrow> real) \<Rightarrow> EqTree \<Rightarrow> real list \<times> real \<times> real" where
  "bedLoads_rounded rnd t =
     (let life = particleLife t;
          load = particleValues t vSurfaceFuelLoad;
          (deadLoad, liveLoad) = accumulateLoads_rounded rnd life load [0..<MaxParts] (0, 0);
          fraction = transferFraction t
      in loadTransfer_rounded rnd fraction (load, deadLoad, liveLoad))"

definition FuelBedIntermediates_rounded ::
  "(real \<Rightarrow> real) \<Rightarrow> FBL_BedIntermediates \<Rightarrow> real \<Rightarrow> EqTree \<Rightarrow> EqTree option" where
  "FuelBedIntermediates_rounded rnd FBL_SurfaceFuelBedIntermediates SMIDGEN t =
     (let dens = particleValues t vSurfaceFuelDens;
          heat = particleValues t vSurfaceFuelHeat;
          life = particleLife t;
          savr = particleValues t vSurfaceFuelSavr;
          seff = particleValues t vSurfaceFuelSeff;
          stot = particleValues t vSurfaceFuelStot;
          mois = particleValues t vSurfaceFuelMois;
          (load, deadLoad, liveLoad) = bedLoads_rounded rnd t
      in case deadLoadFraction_rounded rnd SMIDGEN deadLoad liveLoad of
           None \<Rightarrow> None
         | Some deadFraction \<Rightarrow>
             (let depth = nativeValue t ''vSurfaceFuelBedDepth'';
                  deadMext = nativeValue t ''vSurfaceFuelBedMextDead'';
                  (sigma, bulkDensity, packingRatio, betaRatio) =
                     FBL_SurfaceFuelBedIntermediates depth deadMext MaxParts
                       life load savr heat dens stot seff;
                  t = update ''vSurfaceFuelBedSigma'' sigma t;
                  t = update ''vSurfaceFuelBedBulkDensity'' bulkDensity t;
                  t = update ''vSurfaceFuelBedPackingRatio'' packingRatio t;
                  t = update ''vSurfaceFuelBedBetaRatio'' betaRatio t;
                  t = update ''vSurfaceFuelBedDeadFraction'' deadFraction t;
                  t = update ''vSurfaceFuelBedLiveFraction'' (rnd (1 - deadFraction)) t;
                  t = update ''vSurfaceFuelLoadDeadHerb'' (load ! DeadHerb) t;
                  t = update ''vSurfaceFuelLoadUndeadHerb'' (load ! LiveHerb) t;
                  t = update ''vSurfaceFuelLoadDead'' deadLoad t;
                  t = update ''vSurfaceFuelLoadLive'' liveLoad t
              in Some t))"

section \<open>FuelBedWeighted\<close>

text \<open>
  \<^verbatim>\<open>EqCalc::FuelBedWeighted\<close> (xeqcalc.cpp, 3798-4150). The two fuel models fetched by
  \<^verbatim>\<open>currentFuelModel\<close> are arguments of the model; of a \<^verbatim>\<open>FuelModel\<close> (fuelmodel.h) the
  fields the node reads are kept.
\<close>

record FuelModel =
  m_depth :: real
  m_mext :: real
  m_heatDead :: real
  m_heatLive :: real
  m_load1 :: real
  m_load10 :: real
  m_load100 :: real
  m_loadHerb :: real
  m_loadWood :: real
  m_savr1 :: real
  m_savrHerb :: real
  m_savrWood :: real
  m_transfer :: int

text \<open>The property dictionary (property.h) answers boolean and integer look-ups by name.\<close>

record PropertyDict =
  boolean :: "string \<Rightarrow> bool"
  integer :: "string \<Rightarrow> int"

text \<open>
  The nodes that the loop over the two fuel models calls. Each reads and writes the shared
  variable store; their bodies call the formulas of the physics library, so here each is
  an arbitrary transformer of the tree.
\<close>

record Nodes =
  FuelBedParms :: "EqTree \<Rightarrow> EqTree"
  FuelLoadTransferFraction :: "EqTree \<Rightarrow> EqTree"
  FuelBedIntermediatesNode :: "EqTree \<Rightarrow> EqTree"
  FireResidenceTime :: "EqTree \<Rightarrow> EqTree"
  FuelMoisLifeClass :: "EqTree \<Rightarrow> EqTree"
  FuelMoisScenarioModel :: "EqTree \<Rightarrow> EqTree"
  FuelMoisTimeLag :: "EqTree \<Rightarrow> EqTree"
  FuelBedHeatSink :: "EqTree \<Rightarrow> EqTree"
  FirePropagatingFlux :: "EqTree \<Rightarrow> EqTree"
  FireReactionInt :: "EqTree \<Rightarrow> EqTree"
  FireNoWindRate :: "EqTree \<Rightarrow> EqTree"
  WindAdjFactor :: "EqTree \<Rightarrow> EqTree"
  WindSpeedAt20Ft :: "EqTree \<Rightarrow> EqTree"
  WindSpeedAtMidflame :: "EqTree \<Rightarrow> EqTree"
  FireSpreadAtHead :: "EqTree \<Rightarrow> EqTree"
  FireLineIntAtHead :: "EqTree \<Rightarrow> EqTree"
  FireFlameLengAtHead :: "EqTree \<Rightarrow> EqTree"
  FireLengthToWidth :: "EqTree \<Rightarrow> EqTree"
  FireEccentricity :: "EqTree \<Rightarrow> EqTree"
  FireVectorBeta :: "EqTree \<Rightarrow> EqTree"
  FireSpreadAtBeta :: "EqTree \<Rightarrow> EqTree"
  FireLineIntAtVector :: "EqTree \<Rightarrow> EqTree"
  FireFlameLengAtVector :: "EqTree \<Rightarrow> EqTree"
  FireEffWindAtVector :: "EqTree \<Rightarrow> EqTree"
  FireHeatPerUnitArea :: "EqTree \<Rightarrow> EqTree"

text \<open>The scalars that one pass of the loop captures into the per-model arrays.\<close>

record Captured =
  rxi :: real
  waf :: real
  wmf :: real
  rosh :: real
  mxd :: real
  ewsh :: real
  wsl :: real
  wsf :: int
  flih :: real
  flh :: real
  flw :: real
  rosv :: real
  fliv :: real
  flv :: real
  ewsv :: real
  hua :: real

text \<open>
  One iteration of the loop \<^verbatim>\<open>for ( int i=0; i<2; i++ )\<close> (lines 3829-3957). A node that
  runs under a condition is chosen by the condition and then applied to the tree; where
  the condition fails the tree stays as it is.
\<close>

definition modelPass :: "Nodes \<Rightarrow> PropertyDict \<Rightarrow> FuelModel \<Rightarrow> EqTree \<Rightarrow> EqTree \<times> Captured" where
  "modelPass n prop fm t =
     (let t = update ''vSurfaceFuelBedDepth'' (m_depth fm) t;
          t = update ''vSurfaceFuelBedMextDead'' (m_mext fm) t;
          t = update ''vSurfaceFuelHeatDead'' (m_heatDead fm) t;
          t = update ''vSurfaceFuelHeatLive'' (m_heatLive fm) t;
          t = update ''vSurfaceFuelLoadDead1'' (m_load1 fm) t;
          t = update ''vSurfaceFuelLoadDead10'' (m_load10 fm) t;
          t = update ''vSurfaceFuelLoadDead100'' (m_load100 fm) t;
          t = update ''vSurfaceFuelLoadLiveHerb'' (m_loadHerb fm) t;
          t = update ''vSurfaceFuelLoadLiveWood'' (m_loadWood fm) t;
          t = update ''vSurfaceFuelSavrDead1'' (m_savr1 fm) t;
          t = update ''vSurfaceFuelSavrLiveHerb'' (m_savrHerb fm) t;
          t = update ''vSurfaceFuelSavrLiveWood'' (m_savrWood fm) t;
          t = updateItem ''vSurfaceFuelLoadTransferEq'' (m_transfer fm) t;
          t = FuelBedParms n t;
          t = FuelLoadTransferFraction n t;
          t = FuelBedIntermediatesNode n t;
          t = FireResidenceTime n t;
          t = (if boolean prop ''surfaceConfMoisLifeCat'' then FuelMoisLifeClass n
               else if boolean prop ''surfaceConfMoisScenario'' then FuelMoisScenarioModel n
               else (\<lambda>t. t)) t;
          t = FuelMoisTimeLag n t;
          t = FuelBedHeatSink n t;
          t = FirePropagatingFlux n t;
          t = FireReactionInt n t;
          rxi_i = nativeValue t ''vSurfaceFireReactionInt'';
          t = FireNoWindRate n t;
          t = (if boolean prop ''surfaceConfWindSpeedAt10MCalc''
                  \<or> boolean prop ''surfaceConfWindSpeedAt20FtCalc''
               then WindAdjFactor n else (\<lambda>t. t)) t;
          waf_i = nativeValue t ''vWindAdjFactor'';
          t = (if boolean prop ''surfaceConfWindSpeedAt10M''
                  \<or> boolean prop ''surfaceConfWindSpeedAt10MCalc''
               then WindSpeedAt20Ft n else (\<lambda>t. t)) t;
          t = (if \<not> boolean prop ''surfaceConfWindSpeedAtMidflame''
               then WindSpeedAtMidflame n else (\<lambda>t. t)) t;
          wmf_i = nativeValue t ''vWindSpeedAtMidflame'';
          t = FireSpreadAtHead n t;
          rosh_i = nativeValue t ''vSurfaceFireSpreadAtHead'';
          mxd_i = nativeValue t ''vSurfaceFireMaxDirFromUpslope'';
          ewsh_i = nativeValue t ''vSurfaceFireEffWindAtHead'';
          wsl_i = nativeValue t ''vSurfaceFireWindSpeedLimit'';
          wsf_i = (if wmf_i > wsl_i then 1 else 0);
          t = FireLineIntAtHead n t;
          flih_i = nativeValue t ''vSurfaceFireLineIntAtHead'';
          t = FireFlameLengAtHead n t;
          flh_i = nativeValue t ''vSurfaceFireFlameLengAtHead'';
          t = FireLengthToWidth n t;
          flw_i = nativeValue t ''vSurfaceFireLengthToWidth'';
          t = FireEccentricity n t;
          t = (if boolean prop ''surfaceConfSpreadDirMax''
               then update ''vSurfaceFireVectorBeta'' 0 else FireVectorBeta n) t;
          t = FireSpreadAtBeta n t;
          rosv_i = nativeValue t ''vSurfaceFireSpreadAtVector'';
          t = FireLineIntAtVector n t;
          fliv_i = nativeValue t ''vSurfaceFireLineIntAtVector'';
          t = FireFlameLengAtVector n t;
          flv_i = nativeValue t ''vSurfaceFireFlameLengAtVector'';
          t = FireEffWindAtVector n t;
          ewsv_i = nativeValue t ''vSurfaceFireEffWindAtVector'';
          t = FireHeatPerUnitArea n t;
          hua_i = nativeValue t ''vSurfaceFireHeatPerUnitArea''
      in (t, \<lparr>rxi = rxi_i, waf = waf_i, wmf = wmf_i, rosh = rosh_i, mxd = mxd_i,
               ewsh = ewsh_i, wsl = wsl_i, wsf = wsf_i, flih = flih_i, flh = flh_i,
               flw = flw_i, rosv = rosv_i, fliv = fliv_i, flv = flv_i, ewsv = ewsv_i,
               hua = hua_i\<rparr>))"

text \<open>
  The blended spread rates (lines 3964-3995): the first selected choice among area
  weighted, harmonic mean and two-dimensional decides; with none selected both stay 0.
  \<^verbatim>\<open>FBL_SurfaceFireExpectedSpreadRate\<close> belongs to the physics library and is a parameter;
  \<open>roshs\<close> and \<open>rosvs\<close> are the arrays \<^verbatim>\<open>rosh\<close> and \<^verbatim>\<open>rosv\<close>.
  A quotient of the program whose denominator is zero is an infinity or NaN there, which
  the real numbers do not have; the quotients below agree with the program wherever their
  denominators are non-zero.
\<close>

type_synonym FBL_ExpectedSpreadRate =
  "real list \<Rightarrow> real list \<Rightarrow> nat \<Rightarrow> real \<Rightarrow> int \<Rightarrow> int \<Rightarrow> int \<Rightarrow> real"

definition weightedSpread ::
  "FBL_ExpectedSpreadRate \<Rightarrow> PropertyDict \<Rightarrow> EqTree \<Rightarrow> real list \<Rightarrow> real list \<Rightarrow> real list
     \<Rightarrow> real \<times> real" where
  "weightedSpread FBL_SurfaceFireExpectedSpreadRate prop t cov roshs rosvs =
     (let wtdh = 0; wtdv = 0
      in if boolean prop ''surfaceConfFuelAreaWeighted''
         then (cov ! 0 * roshs ! 0 + cov ! 1 * roshs ! 1, cov ! 0 * rosvs ! 0 + cov ! 1 * rosvs ! 1)
         else if boolean prop ''surfaceConfFuelHarmonicMean''
         then (if roshs ! 0 > 0.000001 \<and> roshs ! 1 > 0.000001
               then (1 / (cov ! 0 / roshs ! 0 + cov ! 1 / roshs ! 1),
                     1 / (cov ! 0 / rosvs ! 0 + cov ! 1 / rosvs ! 1))
               else (0, 0))
         else if boolean prop ''surfaceConfFuel2Dimensional''
         then (let lbRatio = nativeValue t ''vSurfaceFireLengthToWidth'';
                   samples = integer prop ''surfaceConfFuel2DSamples'';
                   depth = integer prop ''surfaceConfFuel2DDepth'';
                   laterals = integer prop ''surfaceConfFuel2DLaterals''
               in (FBL_SurfaceFireExpectedSpreadRate roshs cov 2 lbRatio samples depth laterals,
                   FBL_SurfaceFireExpectedSpreadRate rosvs cov 2 lbRatio samples depth laterals))
         else (wtdh, wtdv))"

text \<open>The assignments under "Pat's rules" (lines 3999-4069).\<close>

definition blendOutputs :: "real list \<Rightarrow> FuelModel list \<Rightarrow> Captured list \<Rightarrow> EqTree \<Rightarrow> EqTree" where
  "blendOutputs cov fm c t =
     (if cov ! 0 > 0.999 \<or> cov ! 1 > 0.999
      then (let i = (if cov ! 0 > 0.999 then 0 else 1);
                t = update ''vSurfaceFireReactionInt'' (rxi (c ! i)) t;
                t = update ''vSurfaceFireMaxDirFromUpslope'' (mxd (c ! i)) t;
                t = update ''vWindAdjFactor'' (waf (c ! i)) t;
                t = update ''vWindSpeedAtMidflame'' (wmf (c ! i)) t;
                t = update ''vSurfaceFireEffWindAtHead'' (ewsh (c ! i)) t;
                t = update ''vSurfaceFireEffWindAtVector'' (ewsv (c ! i)) t;
                t = update ''vSurfaceFireWindSpeedLimit'' (wsl (c ! i)) t;
                t = updateItem ''vSurfaceFireWindSpeedFlag'' (wsf (c ! i)) t;
                t = update ''vSurfaceFireLengthToWidth'' (flw (c ! i)) t;
                t = update ''vSurfaceFireHeatPerUnitArea'' (hua (c ! i)) t;
                t = update ''vSurfaceFireLineIntAtHead'' (flih (c ! i)) t;
                t = update ''vSurfaceFireLineIntAtVector'' (fliv (c ! i)) t;
                t = update ''vSurfaceFireFlameLengAtHead'' (flh (c ! i)) t;
                t = update ''vSurfaceFireFlameLengAtVector'' (flv (c ! i)) t;
                t = update ''vSurfaceFuelBedDepth'' (m_depth (fm ! i)) t
            in t)
      else (let wtd = (if rxi (c ! 0) > rxi (c ! 1) then rxi (c ! 0) else rxi (c ! 1));
                t = update ''vSurfaceFireReactionInt'' wtd t;
                t = update ''vSurfaceFireMaxDirFromUpslope'' (mxd (c ! 0)) t;
                t = update ''vWindAdjFactor'' (waf (c ! 0)) t;
                t = update ''vWindSpeedAtMidflame'' (wmf (c ! 0)) t;
                t = update ''vSurfaceFireEffWindAtHead'' (ewsh (c ! 0)) t;
                t = update ''vSurfaceFireEffWindAtVector'' (ewsv (c ! 0)) t;
                wtd = (if wsl (c ! 0) < wsl (c ! 1) then wsl (c ! 0) else wsl (c ! 1));
                t = update ''vSurfaceFireWindSpeedLimit'' wtd t;
                t = updateItem ''vSurfaceFireWindSpeedFlag''
                      (if wsf (c ! 0) \<noteq> 0 \<or> wsf (c ! 1) \<noteq> 0 then 1 else 0) t;
                t = update ''vSurfaceFireLengthToWidth'' (flw (c ! 0)) t;
                wtd = (if hua (c ! 0) > hua (c ! 1) then hua (c ! 0) else hua (c ! 1));
                t = update ''vSurfaceFireHeatPerUnitArea'' wtd t;
                wtdh = (if flih (c ! 0) > flih (c ! 1) then flih (c ! 0) else flih (c ! 1));
                wtdv = (if fliv (c ! 0) > fliv (c ! 1) then fliv (c ! 0) else fliv (c ! 1));
                t = update ''vSurfaceFireLineIntAtHead'' wtdh t;
                t = update ''vSurfaceFireLineIntAtVector'' wtdv t;
                wtdh = (if flh (c ! 0) > flh (c ! 1) then flh (c ! 0) else flh (c ! 1));
                wtdv = (if flv (c ! 0) > flv (c ! 1) then flv (c ! 0) else flv (c ! 1));
                t = update ''vSurfaceFireFlameLengAtHead'' wtdh t;
                t = update ''vSurfaceFireFlameLengAtVector'' wtdv t;
                wtd = (if m_depth (fm ! 0) > m_depth (fm ! 1) then m_depth (fm ! 0)
                       else m_depth (fm ! 1));
                t = update ''vSurfaceFuelBedDepth'' wtd t
            in t))"

definition FuelBedWeighted ::
  "Nodes \<Rightarrow> FBL_ExpectedSpreadRate \<Rightarrow> PropertyDict \<Rightarrow> FuelModel \<Rightarrow> FuelModel \<Rightarrow> EqTree \<Rightarrow> EqTree" where
  "FuelBedWeighted n FBL_SurfaceFireExpectedSpreadRate prop fm0 fm1 t =
     (let fm = [fm0, fm1];
          cov0 = nativeValue t ''vSurfaceFuelBedCoverage1'';
          cov = [cov0, 1 - cov0];
          (t, c0) = modelPass n prop (fm ! 0) t;
          (t, c1) = modelPass n prop (fm ! 1) t;
          c = [c0, c1];
          (wtdh, wtdv) = weightedSpread FBL_SurfaceFireExpectedSpreadRate prop t cov
                           (map rosh c) (map rosv c);
          t = update ''vSurfaceFireSpreadAtHead'' wtdh t;
          t = update ''vSurfaceFireSpreadAtVector'' wtdv t
      in blendOutputs cov fm c t)"

text \<open>
  The node with its arithmetic rounded: the second coverage \<^verbatim>\<open>1. - cov[0]\<close> (line 3808),
  the products, quotients and sums of the blended spread rates (lines 3970-3981), and the
  constants 0.999 and 0.000001, which are not doubles. The loop over the two models
  (\<open>modelPass\<close>) does no arithmetic of its own. A quotient whose denominator is zero is
  an infinity or NaN in the program; the quotients below agree with it wherever their
  denominators are non-zero.
\<close>

definition weightedSpread_rounded ::
  "(real \<Rightarrow> real) \<Rightarrow> FBL_ExpectedSpreadRate \<Rightarrow> PropertyDict \<Rightarrow> EqTree \<Rightarrow> real list
     \<Rightarrow> real list \<Rightarrow> real list \<Rightarrow> real \<times> real" where
  "weightedSpread_rounded rnd FBL_SurfaceFireExpectedSpreadRate prop t cov roshs rosvs =
     (let wtdh = 0; wtdv = 0
      in if boolean prop ''surfaceConfFuelAreaWeighted''
         then (rnd (rnd (cov ! 0 * roshs ! 0) + rnd (cov ! 1 * roshs ! 1)),
               rnd (rnd (cov ! 0 * rosvs ! 0) + rnd (cov ! 1 * rosvs ! 1)))
         else if boolean prop ''surfaceConfFuelHarmonicMean''
         then (if roshs ! 0 > rnd 0.000001 \<and> roshs ! 1 > rnd 0.000001
               then (rnd (1 / rnd (rnd (cov ! 0 / roshs ! 0) + rnd (cov ! 1 / roshs ! 1))),
                     rnd (1 / rnd (rnd (cov ! 0 / rosvs ! 0) + rnd (cov ! 1 / rosvs ! 1))))
               else (0, 0))
         else if boolean prop ''surfaceConfFuel2Dimensional''
         then (let lbRatio = nativeValue t ''vSurfaceFireLengthToWidth'';
                   samples = integer prop ''surfaceConfFuel2DSamples'';
                   depth = integer prop ''surfaceConfFuel2DDepth'';
                   laterals = integer prop ''surfaceConfFuel2DLaterals''
               in (FBL_SurfaceFireExpectedSpreadRate roshs cov 2 lbRatio samples depth laterals,
                   FBL_SurfaceFireExpectedSpreadRate rosvs cov 2 lbRatio samples depth laterals))
         else (wtdh, wtdv))"

definition blendOutputs_rounded ::
  "(real \<Rightarrow> real) \<Rightarrow> real list \<Rightarrow> FuelModel list \<Rightarrow> Captured list \<Rightarrow> EqTree \<Rightarrow> EqTree" where
  "blendOutputs_rounded rnd cov fm c t =
     (if cov ! 0 > rnd 0.999 \<or> cov ! 1 > rnd 0.999
      then (let i = (if cov ! 0 > rnd 0.999 then 0 else 1);
                t = update ''vSurfaceFireReactionInt'' (rxi (c ! i)) t;
                t = update ''vSurfaceFireMaxDirFromUpslope'' (mxd (c ! i)) t;
                t = update ''vWindAdjFactor'' (waf (c ! i)) t;
                t = update ''vWindSpeedAtMidflame'' (wmf (c ! i)) t;
                t = update ''vSurfaceFireEffWindAtHead'' (ewsh (c ! i)) t;
                t = update ''vSurfaceFireEffWindAtVector'' (ewsv (c ! i)) t;
                t = update ''vSurfaceFireWindSpeedLimit'' (wsl (c ! i)) t;
                t = updateItem ''vSurfaceFireWindSpeedFlag'' (wsf (c ! i)) t;
                t = update ''vSurfaceFireLengthToWidth'' (flw (c ! i)) t;
                t = update ''vSurfaceFireHeatPerUnitArea'' (hua (c ! i)) t;
                t = update ''vSurfaceFireLineIntAtHead'' (flih (c ! i)) t;
                t = update ''vSurfaceFireLineIntAtVector'' (fliv (c ! i)) t;
                t = update ''vSurfaceFireFlameLengAtHead'' (flh (c ! i)) t;
                t = update ''vSurfaceFireFlameLengAtVector'' (flv (c ! i)) t;
                t = update ''vSurfaceFuelBedDepth'' (m_depth (fm ! i)) t
            in t)
      else (let wtd = (if rxi (c ! 0) > rxi (c ! 1) then rxi (c ! 0) else rxi (c ! 1));
                t = update ''vSurfaceFireReactionInt'' wtd t;
                t = update ''vSurfaceFireMaxDirFromUpslope'' (mxd (c ! 0)) t;
                t = update ''vWindAdjFactor'' (waf (c ! 0)) t;
                t = update ''vWindSpeedAtMidflame'' (wmf (c ! 0)) t;
                t = update ''vSurfaceFireEffWindAtHead'' (ewsh (c ! 0)) t;
                t = update ''vSurfaceFireEffWindAtVector'' (ewsv (c ! 0)) t;
                wtd = (if wsl (c ! 0) < wsl (c ! 1) then wsl (c ! 0) else wsl (c ! 1));
                t = update ''vSurfaceFireWindSpeedLimit'' wtd t;
                t = updateItem ''vSurfaceFireWindSpeedFlag''
                      (if wsf (c ! 0) \<noteq> 0 \<or> wsf (c ! 1) \<noteq> 0 then 1 else 0) t;
                t = update ''vSurfaceFireLengthToWidth'' (flw (c ! 0)) t;
                wtd = (if hua (c ! 0) > hua (c ! 1) then hua (c ! 0) else hua (c ! 1));
                t = update ''vSurfaceFireHeatPerUnitArea'' wtd t;
                wtdh = (if flih (c ! 0) > flih (c ! 1) then flih (c ! 0) else flih (c ! 1));
                wtdv = (if fliv (c ! 0) > fliv (c ! 1) then fliv (c ! 0) else fliv (c ! 1));
                t = update ''vSurfaceFireLineIntAtHead'' wtdh t;
                t = update ''vSurfaceFireLineIntAtVector'' wtdv t;
                wtdh = (if flh (c ! 0) > flh (c ! 1) then flh (c ! 0) else flh (c ! 1));
                wtdv = (if flv (c ! 0) > flv (c ! 1) then flv (c ! 0) else flv (c ! 1));
                t = update ''vSurfaceFireFlameLengAtHead'' wtdh t;
                t = update ''vSurfaceFireFlameLengAtVector'' wtdv t;
                wtd = (if m_depth (fm ! 0) > m_depth (fm ! 1) then m_depth (fm ! 0)
                       else m_depth (fm ! 1));
                t = update ''vSurfaceFuelBedDepth'' wtd t
            in t))"

definition FuelBedWeighted_rounded ::
  "(real \<Rightarrow> real) \<Rightarrow> Nodes \<Rightarrow> FBL_ExpectedSpreadRate \<Rightarrow> PropertyDict \<Rightarrow> FuelModel
     \<Rightarrow> FuelModel \<Rightarrow> EqTree \<Rightarrow> EqTree" where
  "FuelBedWeighted_rounded rnd n FBL_SurfaceFireExpectedSpreadRate prop fm0 fm1 t =
     (let fm = [fm0, fm1];
          cov0 = nativeValue t ''vSurfaceFuelBedCoverage1'';
          cov = [cov0, rnd (1 - cov0)];
          (t, c0) = modelPass n prop (fm ! 0) t;
          (t, c1) = modelPass n prop (fm ! 1) t;
          c = [c0, c1];
          (wtdh, wtdv) = weightedSpread_rounded rnd FBL_SurfaceFireExpectedSpreadRate prop t cov
                           (map rosh c) (map rosv c);
          t = update ''vSurfaceFireSpreadAtHead'' wtdh t;
          t = update ''vSurfaceFireSpreadAtVector'' wtdv t
      in blendOutputs_rounded rnd cov fm c t)"

section \<open>ContainFF and ContainFFSingle\<close>

text \<open>
  \<^verbatim>\<open>EqCalc::ContainFF\<close> (xeqcalc.cpp, 136-420) and \<^verbatim>\<open>EqCalc::ContainFFSingle\<close> (529-700).
  The containment simulator is the class \<^verbatim>\<open>ContainSim\<close> of \<^verbatim>\<open>contain.h\<close>. Its terminal
  status is an enumeration whose values the crosswalk table of both nodes lists in order;
  of the simulator the fields read after \<^verbatim>\<open>run()\<close> are kept, those reached through
  \<^verbatim>\<open>m_left\<close> included.
\<close>

datatype ContainStatus =
  Unreported | Reported | Attacked | Contained | Overrun | Exhausted | Overflow | DistLimit

fun statusIndex :: "ContainStatus \<Rightarrow> nat" where
  "statusIndex Unreported = 0"
| "statusIndex Reported = 1"
| "statusIndex Attacked = 2"
| "statusIndex Contained = 3"
| "statusIndex Overrun = 4"
| "statusIndex Exhausted = 5"
| "statusIndex Overflow = 6"
| "statusIndex DistLimit = 7"

record ContainSim =
  m_status :: ContainStatus
  m_finalSize :: real
  m_finalLine :: real
  m_finalCost :: real
  m_finalTime :: real
  m_attackBack :: real
  m_attackHead :: real
  m_initialAttackBack :: real
  m_initialAttackHead :: real
  m_reportBack :: real
  m_reportHead :: real
  m_step :: int
  m_used :: int
  m_xMax :: real
  m_xMin :: real
  m_yMax :: real

text \<open>A resource as passed to \<^verbatim>\<open>ContainForce::addResource\<close>; the flank is always the left one.\<close>

record ContainResource =
  res_arrival :: real
  res_production :: real
  res_duration :: real
  res_name :: string
  res_baseCost :: real
  res_hourCost :: real

text \<open>
  Constructing the simulator from its ten arguments and running it is one external
  function. So are the three fire shape formulas of the physics library, and, for the
  node with several resources, the loop that parses the token lists of the resource
  variables and converts each field to native units.
\<close>

type_synonym ContainSimRun =
  "real \<Rightarrow> real \<Rightarrow> real \<Rightarrow> ContainResource list \<Rightarrow> int \<Rightarrow> real \<Rightarrow> real \<Rightarrow> bool \<Rightarrow> int \<Rightarrow> int
     \<Rightarrow> ContainSim"

record FBL_Shape =
  FBL_SurfaceFireWidth :: "real \<Rightarrow> real \<Rightarrow> real"
  FBL_SurfaceFirePerimeter :: "real \<Rightarrow> real \<Rightarrow> real"
  FBL_SurfaceFireArea :: "real \<Rightarrow> real \<Rightarrow> real"

text \<open>
  The crosswalk from simulator status to the stored status: 0 is Contained, 1 is
  Withdrawn, 2 is Escaped.
\<close>

definition Status :: "int list" where
  "Status = [2, 2, 2, 0, 1, 2, 2, 2]"

text \<open>Lines 246-255 and 591-600, the same in both nodes.\<close>

definition containOutcome :: "ContainSim \<Rightarrow> int \<times> real" where
  "containOutcome sim =
     (let status = Status ! statusIndex (m_status sim);
          finalSize = m_finalSize sim
      in if status \<noteq> 0 \<and> status \<noteq> 3
         then (let finalSize = - 1;
                   status = (if m_finalLine sim > 0 then 1 else 2)
               in (status, finalSize))
         else (status, finalSize))"

definition containDistLimit :: "PropertyDict \<Rightarrow> EqTree \<Rightarrow> real" where
  "containDistLimit prop t =
     (let distLimit = nativeValue t ''vContainLimitDist''
      in if boolean prop ''containConfLimitDistOff'' then 1000000 else distLimit)"

definition ContainFF_run ::
  "(EqTree \<Rightarrow> bool \<Rightarrow> ContainResource list) \<Rightarrow> ContainSimRun \<Rightarrow> PropertyDict \<Rightarrow> EqTree
     \<Rightarrow> ContainSim" where
  "ContainFF_run parseResources runSim prop t =
     (let attackDist = nativeValue t ''vContainAttackDist'';
          tactic = activeItemDataIndex t ''vContainAttackTactic'';
          lwRatio = nativeValue t ''vContainReportRatio'';
          reportSize = nativeValue t ''vContainReportSize'';
          reportRate = nativeValue t ''vContainReportSpread'';
          distLimit = containDistLimit prop t;
          doCost = isUserOutput t ''vContainCost'';
          force = parseResources t doCost;
          maxSteps = integer prop ''containConfMaxSteps'';
          minSteps = integer prop ''containConfMinSteps'';
          retry = boolean prop ''containConfRetry''
      in runSim reportSize reportRate lwRatio force tactic attackDist distLimit
           retry minSteps maxSteps)"

definition ContainFF ::
  "(EqTree \<Rightarrow> bool \<Rightarrow> ContainResource list) \<Rightarrow> ContainSimRun \<Rightarrow> FBL_Shape \<Rightarrow> PropertyDict
     \<Rightarrow> EqTree \<Rightarrow> EqTree" where
  "ContainFF parseResources runSim fbl prop t =
     (let lwRatio = nativeValue t ''vContainReportRatio'';
          sim = ContainFF_run parseResources runSim prop t;
          (status, finalSize) = containOutcome sim;
          useFirstResourceArrivalTimeAsInitialAttack = True;
          length = m_attackBack sim + m_attackHead sim;
          length = (if useFirstResourceArrivalTimeAsInitialAttack
                    then m_initialAttackBack sim + m_initialAttackHead sim else length);
          width = FBL_SurfaceFireWidth fbl length lwRatio;
          perim = FBL_SurfaceFirePerimeter fbl length width;
          size = FBL_SurfaceFireArea fbl length width;
          size = size * 0.1;
          t = (if useFirstResourceArrivalTimeAsInitialAttack
               then update ''vContainAttackHead'' (m_initialAttackHead sim)
                      (update ''vContainAttackBack'' (m_initialAttackBack sim) t)
               else update ''vContainAttackHead'' (m_attackHead sim)
                      (update ''vContainAttackBack'' (m_attackBack sim) t));
          t = update ''vContainAttackPerimeter'' perim t;
          t = update ''vContainAttackSize'' size t;
          t = update ''vContainCost'' (m_finalCost sim) t;
          t = update ''vContainLine'' (m_finalLine sim) t;
          t = update ''vContainPoints'' (real_of_int (m_step sim + 1)) t;
          t = update ''vContainReportBack'' (m_reportBack sim) t;
          t = update ''vContainReportHead'' (m_reportHead sim) t;
          t = update ''vContainResourcesUsed'' (real_of_int (m_used sim)) t;
          t = update ''vContainSize'' finalSize t;
          t = updateItem ''vContainStatus'' status t;
          t = update ''vContainTime'' (m_finalTime sim) t;
          t = update ''vContainXMax'' (m_xMax sim) t;
          t = update ''vContainXMin'' (m_xMin sim) t;
          t = update ''vContainYMax'' (m_yMax sim) t
      in t)"

definition ContainFFSingle_run :: "ContainSimRun \<Rightarrow> PropertyDict \<Rightarrow> EqTree \<Rightarrow> ContainSim" where
  "ContainFFSingle_run runSim prop t =
     (let attackDist = nativeValue t ''vContainAttackDist'';
          tactic = activeItemDataIndex t ''vContainAttackTactic'';
          lwRatio = nativeValue t ''vContainReportRatio'';
          reportSize = nativeValue t ''vContainReportSize'';
          reportRate = nativeValue t ''vContainReportSpread'';
          distLimit = containDistLimit prop t;
          name = m_store (var t ''vContainResourceName'');
          arrival = nativeValue t ''vContainResourceArrival'';
          duration = nativeValue t ''vContainResourceDuration'';
          prod = nativeValue t ''vContainResourceProd'';
          doCost = isUserOutput t ''vContainCost'';
          baseCost = (if doCost then nativeValue t ''vContainResourceBaseCost'' else 0);
          hourCost = (if doCost then nativeValue t ''vContainResourceHourCost'' else 0);
          force = [\<lparr>res_arrival = arrival, res_production = prod, res_duration = duration,
                    res_name = name, res_baseCost = baseCost, res_hourCost = hourCost\<rparr>];
          maxSteps = integer prop ''containConfMaxSteps'';
          minSteps = integer prop ''containConfMinSteps'';
          retry = boolean prop ''containConfRetry''
      in runSim reportSize reportRate lwRatio force tactic attackDist distLimit
           retry minSteps maxSteps)"

definition ContainFFSingle :: "ContainSimRun \<Rightarrow> FBL_Shape \<Rightarrow> PropertyDict \<Rightarrow> EqTree \<Rightarrow> EqTree" where
  "ContainFFSingle runSim fbl prop t =
     (let lwRatio = nativeValue t ''vContainReportRatio'';
          sim = ContainFFSingle_run runSim prop t;
          (status, finalSize) = containOutcome sim;
          length = m_attackBack sim + m_attackHead sim;
          width = FBL_SurfaceFireWidth fbl length lwRatio;
          perim = FBL_SurfaceFirePerimeter fbl length width;
          size = FBL_SurfaceFireArea fbl length width;
          size = size * 0.1;
          t = update ''vContainAttackBack'' (m_attackBack sim) t;
          t = update ''vContainAttackHead'' (m_attackHead sim) t;
          t = update ''vContainAttackPerimeter'' perim t;
          t = update ''vContainAttackSize'' size t;
          t = update ''vContainCost'' (m_finalCost sim) t;
          t = update ''vContainLine'' (m_finalLine sim) t;
          t = update ''vContainPoints'' (real_of_int (m_step sim + 1)) t;
          t = update ''vContainReportBack'' (m_reportBack sim) t;
          t = update ''vContainReportHead'' (m_reportHead sim) t;
          t = update ''vContainResourcesUsed'' (real_of_int (m_used sim)) t;
          t = update ''vContainSize'' finalSize t;
          t = updateItem ''vContainStatus'' status t;
          t = update ''vContainTime'' (m_finalTime sim) t;
          t = update ''vContainXMax'' (m_xMax sim) t;
          t = update ''vContainXMin'' (m_xMin sim) t;
          t = update ''vContainYMax'' (m_yMax sim) t
      in t)"

section \<open>The reconfiguration procedures\<close>

text \<open>
  The procedures of \<^verbatim>\<open>xeqcalcreconfig.cpp\<close> are sequences of assignments to the flags of
  functions and variables under conditions on the property dictionary. A statement is a
  transformer of the tree; \<open>run\<close> executes a list of statements in order, \<open>cond\<close> is
  \<^verbatim>\<open>if ( c ) { ... } else { ... }\<close> for a condition that does not read the tree, and
  \<open>condT\<close> is the same for a condition that reads it. An \<^verbatim>\<open>else if\<close> is a \<open>cond\<close> that is
  the only statement of the else branch.
\<close>

fun run :: "(EqTree \<Rightarrow> EqTree) list \<Rightarrow> EqTree \<Rightarrow> EqTree" where
  "run [] t = t"
| "run (s # ss) t = run ss (s t)"

definition cond ::
  "bool \<Rightarrow> (EqTree \<Rightarrow> EqTree) list \<Rightarrow> (EqTree \<Rightarrow> EqTree) list \<Rightarrow> EqTree \<Rightarrow> EqTree" where
  "cond c a b t = (if c then run a t else run b t)"

definition condT ::
  "(EqTree \<Rightarrow> bool) \<Rightarrow> (EqTree \<Rightarrow> EqTree) list \<Rightarrow> (EqTree \<Rightarrow> EqTree) list \<Rightarrow> EqTree \<Rightarrow> EqTree" where
  "condT c a b t = (if c t then run a t else run b t)"

text \<open>
  \<^verbatim>\<open>EqCalc::reconfigureDocumentation\<close> (xeqcalcreconfig.cpp,
  283-318).
\<close>

definition reconfigureDocumentation :: "PropertyDict \<Rightarrow> int \<Rightarrow> EqTree \<Rightarrow> EqTree" where
  "reconfigureDocumentation prop release t =
     run
         [cond (boolean prop ''docDescriptionActive'')
           [set_isUserInput ''vDocDescription'' True,
            set_isUserOutput ''vDocDescription'' True]
           [],
          cond (boolean prop ''docRxActive'')
           [set_isUserInput ''vDocRxAdminUnit'' True,
            set_isUserOutput ''vDocRxAdminUnit'' True,
            set_isUserInput ''vDocRxName'' True,
            set_isUserOutput ''vDocRxName'' True,
            set_isUserInput ''vDocRxPreparedBy'' True,
            set_isUserOutput ''vDocRxPreparedBy'' True]
           [],
          cond (boolean prop ''docFireActive'')
           [set_isUserInput ''vDocFireAnalyst'' True,
            set_isUserOutput ''vDocFireAnalyst'' True,
            set_isUserInput ''vDocFireName'' True,
            set_isUserOutput ''vDocFireName'' True,
            set_isUserInput ''vDocFirePeriod'' True,
            set_isUserOutput ''vDocFirePeriod'' True]
           [],
          cond (boolean prop ''docTrainingActive'')
           [set_isUserInput ''vDocTrainingCourse'' True,
            set_isUserOutput ''vDocTrainingCourse'' True,
            set_isUserInput ''vDocTrainingExercise'' True,
            set_isUserOutput ''vDocTrainingExercise'' True,
            set_isUserInput ''vDocTrainingTrainee'' True,
            set_isUserOutput ''vDocTrainingTrainee'' True]
           []] t"

text \<open>
  Lines 748-784: the functions that are always on, and the dead herbaceous load.
\<close>

definition surfaceAlwaysOn :: "EqTree \<Rightarrow> EqTree" where
  "surfaceAlwaysOn =
     run
       [set_active ''fSurfaceFireCharacteristicsDiagram'' True,
        set_active ''fSurfaceFireDistAtHead'' True,
        set_active ''fSurfaceFireDistAtVector'' True,
        set_active ''fSurfaceFireEccentricity'' True,
        set_active ''fSurfaceFireEffWindAtVector'' True,
        set_active ''fSurfaceFireFlameLengAtHead'' True,
        set_active ''fSurfaceFireFlameLengAtVector'' True,
        set_active ''fSurfaceFireMaxDirFromNorth'' True,
        set_active ''fSurfaceFireHeatSource'' True,
        set_active ''fSurfaceFireMaxDirDiagram'' True,
        set_active ''fSurfaceFireMapDistAtHead'' True,
        set_active ''fSurfaceFireMapDistAtVector'' True,
        set_active ''fSurfaceFireSpreadAtBack'' True,
        set_active ''fSurfaceFireSpreadAtHead'' True,
        set_active ''fSurfaceFireVectorBeta'' True,
        set_active ''fSurfaceFireSpreadAtBeta'' True,
        set_active ''fSurfaceFireHeatPerUnitArea'' True,
        set_active ''fSurfaceFireLengthToWidth'' True,
        set_active ''fSurfaceFireLineIntAtHead'' True,
        set_active ''fSurfaceFireLineIntAtVector'' True,
        set_active ''fSurfaceFireNoWindRate'' True,
        set_active ''fSurfaceFirePropagatingFlux'' True,
        set_active ''fSurfaceFireReactionInt'' True,
        set_active ''fSurfaceFireResidenceTime'' True,
        set_active ''fSurfaceFuelBedIntermediates'' True,
        set_active ''fSurfaceFuelBedHeatSink'' True,
        set_active ''fSurfaceFuelMoisTimeLag'' True,
        set_active ''fTreeCrownRatio'' False,
        set_isConstant ''vSurfaceFuelLoadDeadHerb'' True]"

text \<open>
  Lines 789-920, option 1: how the fuel is entered. The branch of the two fuel model
  choices also sets the local variable \<^verbatim>\<open>weighted\<close>, whose value
  after the chain is \<open>surfaceWeighted\<close> below.
\<close>

definition surfaceFuelOption :: "PropertyDict \<Rightarrow> EqTree \<Rightarrow> EqTree" where
  "surfaceFuelOption prop =
     run
       [cond (boolean prop ''surfaceConfFuelModels'')
         [set_active ''fSurfaceFuelBedParms'' True,
          set_active ''fSurfaceFuelBedModel'' True]
         [cond (boolean prop ''surfaceConfFuelParms'')
               [set_active ''fSurfaceFuelBedParms'' True]
               [cond (boolean prop ''surfaceConfFuelAreaWeighted''
                   \<or> boolean prop ''surfaceConfFuelHarmonicMean''
                       \<or> boolean prop ''surfaceConfFuel2Dimensional'')
                     [set_active ''fSurfaceFuelBedWeighted'' True,
                      set_isUserInput ''vSurfaceFuelLoadTransferEq'' False,
                      set_isConstant ''vSurfaceFuelLoadTransferEq'' True,
                      set_active ''fSurfaceFuelBedModel'' False,
                      set_active ''fSurfaceFuelBedParms'' False,
                      set_active ''fSurfaceFuelLoadTransferFraction'' False,
                      set_active ''fSurfaceFuelBedIntermediates'' False,
                      set_active ''fSurfaceFireResidenceTime'' False,
                      set_active ''fSurfaceFuelMoisLifeClass'' False,
                      set_active ''fSurfaceFuelMoisScenarioModel'' False,
                      set_active ''fSurfaceFuelMoisTimeLag'' False,
                      set_active ''fSurfaceFuelBedHeatSink'' False,
                      set_active ''fSurfaceFirePropagatingFlux'' False,
                      set_active ''fSurfaceFireReactionInt'' False,
                      set_active ''fSurfaceFireNoWindRate'' False,
                      set_active ''fWindAdjFactor'' False,
                      set_active ''fWindSpeedAt20Ft'' False,
                      set_active ''fWindSpeedAtMidflame'' False,
                      set_active ''fSurfaceFireSpreadAtHead'' False,
                      set_active ''fSurfaceFireLineIntAtHead'' False,
                      set_active ''fSurfaceFireFlameLengAtHead'' False,
                      set_active ''fSurfaceFireLengthToWidth'' False,
                      set_active ''fSurfaceFireEccentricity'' False,
                      set_active ''fSurfaceFireVectorBeta'' False,
                      set_active ''fSurfaceFireSpreadAtBeta'' False,
                      set_active ''fSurfaceFireLineIntAtVector'' False,
                      set_active ''fSurfaceFireFlameLengAtVector'' False,
                      set_active ''fSurfaceFireEffWindAtVector'' False,
                      set_active ''fSurfaceFireHeatPerUnitArea'' False]
                     [cond (boolean prop ''surfaceConfFuelPalmettoGallberry'')
                           [set_active ''fSurfaceFuelPalmettoModel'' True,
                            set_active ''fSurfaceFuelPalmettoParms'' True,
                            set_isUserOutput ''vSurfaceFuelPalmettoLoadDead1''
                                (boolean prop ''surfaceCalcPalmettoLoadDead1''),
                            set_isUserOutput ''vSurfaceFuelPalmettoLoadDead10''
                                (boolean prop ''surfaceCalcPalmettoLoadDead10''),
                            set_isUserOutput ''vSurfaceFuelPalmettoLoadDeadFoliage''
                                (boolean prop ''surfaceCalcPalmettoLoadDeadFoliage''),
                            set_isUserOutput ''vSurfaceFuelPalmettoLoadLive1''
                                (boolean prop ''surfaceCalcPalmettoLoadLive1''),
                            set_isUserOutput ''vSurfaceFuelPalmettoLoadLive10''
                                (boolean prop ''surfaceCalcPalmettoLoadLive10''),
                            set_isUserOutput ''vSurfaceFuelPalmettoLoadLiveFoliage''
                                (boolean prop ''surfaceCalcPalmettoLoadLiveFoliage''),
                            set_isUserOutput ''vSurfaceFuelPalmettoLoadLitter''
                                (boolean prop ''surfaceCalcPalmettoLoadLitter''),
                            set_isUserOutput ''vSurfaceFuelBedDepth''
                                (boolean prop ''surfaceCalcPalmettoBedDepth'')]
                           [cond (boolean prop ''surfaceConfFuelAspen'')
                                 [set_active ''fSurfaceFuelAspenModel'' True,
                                  set_active ''fSurfaceFuelAspenParms'' True,
                                  set_active ''fTreeMortalityRateAspenAtVector'' True,
                                  set_isUserOutput ''vSurfaceFuelAspenLoadDead1''
                                      (boolean prop ''surfaceCalcAspenLoadDead1''),
                                  set_isUserOutput ''vSurfaceFuelAspenLoadDead10'' False,
                                  set_isUserOutput ''vSurfaceFuelAspenLoadLiveHerb''
                                      (boolean prop ''surfaceCalcAspenLoadLiveHerb''),
                                  set_isUserOutput ''vSurfaceFuelAspenLoadLiveWoody''
                                      (boolean prop ''surfaceCalcAspenLoadLiveWoody''),
                                  set_isUserOutput ''vSurfaceFuelAspenSavrDead1''
                                      (boolean prop ''surfaceCalcAspenSavrDead1''),
                                  set_isUserOutput ''vSurfaceFuelAspenSavrDead10'' False,
                                  set_isUserOutput ''vSurfaceFuelAspenSavrLiveHerb'' False,
                                  set_isUserOutput ''vSurfaceFuelAspenSavrLiveWoody''
                                      (boolean prop ''surfaceCalcAspenSavrLiveWoody''),
                                  set_isUserOutput ''vSurfaceFuelBedDepth'' False,
                                  set_isUserOutput ''vTreeMortalityRateAspenAtVector''
                                      (boolean prop ''surfaceCalcAspenMortality'')]
                                 []]]]]]"

definition surfaceWeighted :: "PropertyDict \<Rightarrow> bool" where
  "surfaceWeighted prop =
     (let weighted = False
      in if (boolean prop ''surfaceConfFuelModels'') then weighted
         else if (boolean prop ''surfaceConfFuelParms'') then weighted
         else if (boolean prop ''surfaceConfFuelAreaWeighted''
             \<or> boolean prop ''surfaceConfFuelHarmonicMean''
                 \<or> boolean prop ''surfaceConfFuel2Dimensional'') then True
         else if (boolean prop ''surfaceConfFuelPalmettoGallberry'') then weighted
         else if (boolean prop ''surfaceConfFuelAspen'') then weighted
         else weighted)"

text \<open>
  Lines 923-954, option 2: the dynamic load transfer, never done for palmetto-gallberry or
  aspen.
\<close>

definition surfaceLoadTransferOption :: "PropertyDict \<Rightarrow> EqTree \<Rightarrow> EqTree" where
  "surfaceLoadTransferOption prop =
     run
       [cond (boolean prop ''surfaceConfLoadTransferCalc'')
         [set_isUserInput ''vSurfaceFuelLoadTransferFraction'' False,
          set_active ''fSurfaceFuelLoadTransferFraction'' True]
         [cond (boolean prop ''surfaceConfLoadTransferInput'')
               [set_isUserInput ''vSurfaceFuelLoadTransferFraction'' True,
                set_active ''fSurfaceFuelLoadTransferFraction'' False]
               []],
        cond (boolean prop ''surfaceConfFuelPalmettoGallberry''
            \<or> boolean prop ''surfaceConfFuelAspen'')
         [set_isConstant ''vSurfaceFuelLoadTransferEq'' True,
          updateItem ''vSurfaceFuelLoadTransferEq'' 0,
          set_isUserInput ''vSurfaceFuelLoadTransferFraction'' False,
          set_active ''fSurfaceFuelLoadTransferFraction'' True,
          set_isConstant ''vSurfaceFuelLoadTransferFraction'' True,
          update ''vSurfaceFuelLoadTransferFraction'' 0]
         []]"

text \<open>Lines 957-982, option 3: how moisture is entered.\<close>

definition surfaceMoistureOption :: "PropertyDict \<Rightarrow> EqTree \<Rightarrow> EqTree" where
  "surfaceMoistureOption prop =
     run
       [cond (boolean prop ''surfaceConfMoisTimeLag'')
         []
         [cond (boolean prop ''surfaceConfMoisLifeCat'')
               [set_active ''fSurfaceFuelMoisLifeClass'' True]
               [cond (boolean prop ''surfaceConfMoisScenario'')
                     [set_active ''fSurfaceFuelMoisScenarioModel'' True]
                     []]]]"

text \<open>Lines 985-1101, option 4: how wind speed is entered.\<close>

definition surfaceWindSpeedOption :: "PropertyDict \<Rightarrow> bool \<Rightarrow> EqTree \<Rightarrow> EqTree" where
  "surfaceWindSpeedOption prop weighted =
     run
       [cond (boolean prop ''surfaceConfWindSpeedAtMidflame'')
         [set_isConstant ''vTreeCanopyCrownFraction'' True,
          update ''vTreeCanopyCrownFraction'' 0,
          set_isConstant ''vWindAdjFactor'' True,
          update ''vWindAdjFactor'' 1,
          set_isConstant ''vWindAdjMethod'' True,
          updateItem ''vWindAdjMethod'' 2]
         [cond (boolean prop ''surfaceConfWindSpeedAt20Ft'')
               [set_active ''fWindSpeedAtMidflame'' True,
                set_active ''fWindAdjFactor'' False,
                set_isUserOutput ''vWindSpeedAtMidflame''
                    (boolean prop ''surfaceCalcWindSpeedAtMidflame''),
                set_isConstant ''vTreeCanopyCrownFraction'' True,
                update ''vTreeCanopyCrownFraction'' 0,
                set_isConstant ''vWindAdjMethod'' True,
                updateItem ''vWindAdjMethod'' 2]
               [cond (boolean prop ''surfaceConfWindSpeedAt20FtCalc'')
                     [set_active ''fWindSpeedAtMidflame'' True,
                      set_active ''fWindAdjFactor'' True,
                      set_isUserOutput ''vWindSpeedAtMidflame''
                          (boolean prop ''surfaceCalcWindSpeedAtMidflame''),
                      cond weighted
                           [set_isConstant ''vSurfaceFuelBedDepth'' True]
                           [],
                      cond (boolean prop ''crownModuleActive'')
                           [set_active ''fTreeCrownRatio'' True,
                            set_isUserOutput ''vTreeCrownRatio''
                                (boolean prop ''surfaceCalcCrownRatio'')]
                           [],
                      set_isConstant ''vTreeCanopyCrownFraction'' False,
                      update ''vTreeCanopyCrownFraction'' 0,
                      set_isConstant ''vWindAdjMethod'' False,
                      updateItem ''vWindAdjMethod'' 2]
                     [cond (boolean prop ''surfaceConfWindSpeedAt10M'')
                           [set_active ''fWindSpeedAt20Ft'' True,
                            set_active ''fWindSpeedAtMidflame'' True,
                            set_active ''fWindAdjFactor'' False,
                            set_isConstant ''vTreeCanopyCrownFraction'' True,
                            set_isUserOutput ''vWindSpeedAtMidflame''
                                (boolean prop ''surfaceCalcWindSpeedAtMidflame''),
                            set_isConstant ''vTreeCanopyCrownFraction'' True,
                            update ''vTreeCanopyCrownFraction'' 0,
                            set_isConstant ''vWindAdjMethod'' True,
                            updateItem ''vWindAdjMethod'' 2]
                           [cond (boolean prop ''surfaceConfWindSpeedAt10MCalc'')
                                 [set_active ''fWindSpeedAt20Ft'' True,
                                  set_active ''fWindSpeedAtMidflame'' True,
                                  set_active ''fWindAdjFactor'' True,
                                  set_isUserOutput ''vWindSpeedAtMidflame''
                                      (boolean prop ''surfaceCalcWindSpeedAtMidflame''),
                                  cond weighted
                                       [set_isConstant ''vSurfaceFuelBedDepth'' True]
                                       [],
                                  cond (boolean prop ''crownModuleActive'')
                                       [set_active ''fTreeCrownRatio'' True,
                                        set_isUserOutput ''vTreeCrownRatio''
                                            (boolean prop ''surfaceCalcCrownRatio'')]
                                       [],
                                  set_isConstant ''vTreeCanopyCrownFraction'' False,
                                  update ''vTreeCanopyCrownFraction'' 0,
                                  set_isConstant ''vWindAdjMethod'' False,
                                  updateItem ''vWindAdjMethod'' 2]
                                 []]]]]]"

text \<open>Lines 1110-1176, option 6: the directions in which spread is calculated.\<close>

definition surfaceSpreadDirOption :: "PropertyDict \<Rightarrow> EqTree \<Rightarrow> EqTree" where
  "surfaceSpreadDirOption prop =
     run
       [cond (boolean prop ''surfaceConfSpreadDirMax'')
         [set_isConstant ''vSurfaceFireVectorDirFromUpslope'' True,
          update ''vSurfaceFireVectorDirFromUpslope'' 0,
          set_isConstant ''vSurfaceFireVectorBeta'' True,
          update ''vSurfaceFireVectorBeta'' 0,
          set_active ''fSurfaceFireVectorBeta'' False,
          set_isUserOutput ''vSurfaceFireDistAtHead'' False,
          set_isUserOutput ''vSurfaceFireDistAtVector'' (boolean prop ''surfaceCalcFireDist''),
          set_isUserOutput ''vSurfaceFireEffWindAtHead''
              (boolean prop ''surfaceCalcFireEffWind''),
          set_isUserOutput ''vSurfaceFireFlameLengAtHead''
              (boolean prop ''surfaceCalcFireFlameLeng''),
          set_isUserOutput ''vSurfaceFireLineIntAtHead''
              (boolean prop ''surfaceCalcFireLineInt''),
          set_isUserOutput ''vSurfaceFireSpreadAtHead'' (boolean prop ''surfaceCalcFireSpread''),
          cond (boolean prop ''mapCalcDist'')
               [set_active ''fMapScale'' True,
                set_isUserOutput ''vSurfaceFireMapDistAtVector''
                    (boolean prop ''surfaceCalcFireDist'')]
               []]
         [set_isConstant ''vSurfaceFireVectorDirFromUpslope'' False,
          cond (boolean prop ''surfaceConfDegreesWrtNorth'')
               [set_active ''fSurfaceFireVectorDirFromUpslope'' True]
               [],
          set_isUserOutput ''vSurfaceFireDistAtVector'' (boolean prop ''surfaceCalcFireDist''),
          set_isUserOutput ''vSurfaceFireEffWindAtVector''
              (boolean prop ''surfaceCalcFireEffWind''),
          set_isUserOutput ''vSurfaceFireFlameLengAtVector''
              (boolean prop ''surfaceCalcFireFlameLeng''),
          set_isUserOutput ''vSurfaceFireLineIntAtVector''
              (boolean prop ''surfaceCalcFireLineInt''),
          set_isUserOutput ''vSurfaceFireSpreadAtVector''
              (boolean prop ''surfaceCalcFireSpread''),
          cond (boolean prop ''mapCalcDist'')
               [set_active ''fMapScale'' True,
                set_isUserOutput ''vSurfaceFireMapDistAtVector''
                    (boolean prop ''surfaceCalcFireDist'')]
               []]]"

text \<open>Lines 1178-1215, the wind speed labels and option 7: the wind direction.\<close>

definition surfaceWindDirOption :: "PropertyDict \<Rightarrow> EqTree \<Rightarrow> EqTree" where
  "surfaceWindDirOption prop =
     run
       [setLabel ''vWindSpeedAtMidflame'' '''',
        setLabel ''vWindSpeedAt20Ft'' '''',
        setLabel ''vWindSpeedAt10M'' '''',
        set_isConstant ''vWindDirFromUpslope'' False,
        cond (boolean prop ''surfaceConfWindDirInput'')
         [cond (boolean prop ''surfaceConfDegreesWrtNorth'')
               [set_active ''fWindDirFromUpslope'' True]
               []]
         [set_isConstant ''vWindDirFromUpslope'' True,
          update ''vWindDirFromUpslope'' 0,
          setLabel ''vWindSpeedAtMidflame'' ''Upslope'',
          setLabel ''vWindSpeedAt20Ft'' ''Upslope'',
          setLabel ''vWindSpeedAt10M'' ''Upslope'']]"

text \<open>Lines 1218-1252, option 8: directions with respect to upslope or north.\<close>

definition surfaceDegreesOption :: "PropertyDict \<Rightarrow> EqTree \<Rightarrow> EqTree" where
  "surfaceDegreesOption prop =
     run
       [cond (boolean prop ''surfaceConfDegreesWrtUpslope'')
         [set_isUserOutput ''vSurfaceFireMaxDirFromUpslope''
             (boolean prop ''surfaceCalcFireMaxDirFromUpslope''
                 \<or> boolean prop ''surfaceCalcFireMaxDirDiagram'' \<or>
                     (boolean prop ''sizeModuleActive'' \<and> boolean prop ''sizeCalcFireShapeDiagram''))]
         [set_active ''fSiteUpslopeDirFromNorth'' True,
          set_isUserOutput ''vSurfaceFireMaxDirFromNorth''
              (boolean prop ''surfaceCalcFireMaxDirFromUpslope''
                  \<or> boolean prop ''surfaceCalcFireMaxDirDiagram'' \<or>
                      (boolean prop ''sizeModuleActive'' \<and> boolean prop ''sizeCalcFireShapeDiagram''))]]"

text \<open>Lines 1255-1316, options 9 and 10: the slope steepness.\<close>

definition surfaceSlopeOption :: "PropertyDict \<Rightarrow> EqTree \<Rightarrow> EqTree" where
  "surfaceSlopeOption prop =
     run
       [cond (boolean prop ''surfaceConfSlopeInput'')
         [cond (boolean prop ''surfaceConfSlopeFraction'')
               []
               [cond (boolean prop ''surfaceConfSlopeDegrees'')
                     [set_active ''fSiteSlopeFraction'' True]
                     []]]
         [set_active ''fMapSlope'' True,
          set_active ''fMapScale'' True,
          set_active ''fSiteSlopeFraction'' True,
          set_isUserOutput ''vSiteSlopeReach'' (boolean prop ''surfaceCalcSlopeReach''),
          set_isUserOutput ''vSiteSlopeRise'' (boolean prop ''surfaceCalcSlopeRise''),
          cond (boolean prop ''surfaceCalcSlopeSteepness'')
               [set_isUserOutput ''vSiteSlopeFraction''
                   (boolean prop ''surfaceConfSlopeFraction''),
                set_isUserOutput ''vSiteSlopeDegrees'' (boolean prop ''surfaceConfSlopeDegrees'')]
               []]]"

text \<open>Lines 1318-1333: output selections that no configuration option affects.\<close>

definition surfaceOutputs :: "PropertyDict \<Rightarrow> EqTree \<Rightarrow> EqTree" where
  "surfaceOutputs prop =
     run
       [set_isUserOutput ''vSurfaceFireHeatPerUnitArea''
           (boolean prop ''surfaceCalcFireHeatPerUnitArea''),
        set_isUserOutput ''vSurfaceFireReactionInt''
            (boolean prop ''surfaceCalcFireReactionInt''),
        set_isUserOutput ''vSurfaceFireWindSpeedFlag''
            (boolean prop ''surfaceCalcFireWindSpeedFlag''),
        set_isUserOutput ''vSurfaceFireWindSpeedLimit''
            (boolean prop ''surfaceCalcFireWindSpeedLimit''),
        set_isUserOutput ''vTreeCanopyCrownFraction''
            (boolean prop ''surfaceCalcCrownFillPortion''),
        set_isUserOutput ''vWindAdjFactor'' (boolean prop ''surfaceCalcWindAdjFactor''),
        set_isUserOutput ''vWindAdjMethod'' (boolean prop ''surfaceCalcWindAdjMethod'')]"

text \<open>
  Lines 1335-1384: outputs that are never shown when two fuel models are used.
\<close>

definition surfaceTwoFuelOutputs :: "PropertyDict \<Rightarrow> EqTree \<Rightarrow> EqTree" where
  "surfaceTwoFuelOutputs prop =
     (let twofuels = (boolean prop ''surfaceConfFuelAreaWeighted''
         \<or> boolean prop ''surfaceConfFuelHarmonicMean''
             \<or> boolean prop ''surfaceConfFuel2Dimensional'')
      in run
       [set_isUserOutput ''vSurfaceFireHeatSource''
           (if twofuels then False else boolean prop ''surfaceCalcFireHeatSource''),
        set_isUserOutput ''vSurfaceFireReactionIntDead''
            (if twofuels then False else boolean prop ''surfaceCalcFireReactionIntDead''),
        set_isUserOutput ''vSurfaceFireReactionIntLive''
            (if twofuels then False else boolean prop ''surfaceCalcFireReactionIntLive''),
        set_isUserOutput ''vSurfaceFireMaxDirDiagram''
            (if twofuels then False else boolean prop ''surfaceCalcFireMaxDirDiagram''),
        set_isUserOutput ''vSurfaceFireCharacteristicsDiagram''
            (if twofuels then False else boolean prop ''surfaceCalcFireCharacteristicsDiagram''),
        set_isUserOutput ''vSurfaceFuelLoadTransferFraction''
            (if twofuels then False else boolean prop ''surfaceCalcFuelLoadTransferFraction''),
        set_isUserOutput ''vSurfaceFuelLoadDead''
            (if twofuels then False else boolean prop ''surfaceCalcFuelLoadDead''),
        set_isUserOutput ''vSurfaceFuelLoadDeadHerb''
            (if twofuels then False else boolean prop ''surfaceCalcFuelLoadDeadHerb''),
        set_isUserOutput ''vSurfaceFuelLoadLive''
            (if twofuels then False else boolean prop ''surfaceCalcFuelLoadLive''),
        set_isUserOutput ''vSurfaceFuelLoadUndeadHerb''
            (if twofuels then False else boolean prop ''surfaceCalcFuelLoadUndeadHerb''),
        set_isUserOutput ''vSurfaceFuelBedSigma''
            (if twofuels then False else boolean prop ''surfaceCalcFuelBedSigma''),
        set_isUserOutput ''vSurfaceFuelBedPackingRatio''
            (if twofuels then False else boolean prop ''surfaceCalcFuelBedPackingRatio''),
        set_isUserOutput ''vSurfaceFuelBedBulkDensity''
            (if twofuels then False else boolean prop ''surfaceCalcFuelBedBulkDensity''),
        set_isUserOutput ''vSurfaceFuelBedBetaRatio''
            (if twofuels then False else boolean prop ''surfaceCalcFuelBedBetaRatio''),
        set_isUserOutput ''vSurfaceFuelBedDeadFraction''
            (if twofuels then False else boolean prop ''surfaceCalcFuelBedDeadFraction''),
        set_isUserOutput ''vSurfaceFuelBedLiveFraction''
            (if twofuels then False else boolean prop ''surfaceCalcFuelBedLiveFraction''),
        set_isUserOutput ''vSurfaceFuelBedHeatSink''
            (if twofuels then False else boolean prop ''surfaceCalcFuelBedHeatSink''),
        set_isUserOutput ''vSurfaceFuelBedMoisDead''
            (if twofuels then False else boolean prop ''surfaceCalcFuelBedMoisDead''),
        set_isUserOutput ''vSurfaceFuelBedMoisLive''
            (if twofuels then False else boolean prop ''surfaceCalcFuelBedMoisLive''),
        set_isUserOutput ''vSurfaceFuelBedMextLive''
            (if twofuels then False else boolean prop ''surfaceCalcFuelBedMextLive''),
        set_isUserOutput ''vSurfaceFireResidenceTime''
            (if twofuels then False else boolean prop ''surfaceCalcFireResidenceTime''),
        set_isUserOutput ''vSurfaceFireWindFactor''
            (if twofuels then False else boolean prop ''surfaceCalcFireWindFactor''),
        set_isUserOutput ''vSurfaceFireSlopeFactor''
            (if twofuels then False else boolean prop ''surfaceCalcFireSlopeFactor'')])"

text \<open>Lines 1386-1388: the 1000-h moisture is a constant.\<close>

definition surfaceMoisDead1000 :: "EqTree \<Rightarrow> EqTree" where
  "surfaceMoisDead1000 =
     run
       [update ''vSurfaceFuelMoisDead1000'' 0.2,
        set_isConstant ''vSurfaceFuelMoisDead1000'' True]"

text \<open>
  \<^verbatim>\<open>EqCalc::reconfigureSurfaceModule\<close> (xeqcalcreconfig.cpp,
  739-1390), its blocks in order.
\<close>

definition reconfigureSurfaceModule :: "PropertyDict \<Rightarrow> int \<Rightarrow> EqTree \<Rightarrow> EqTree" where
  "reconfigureSurfaceModule prop release t =
     (if \<not> (boolean prop ''surfaceModuleActive'') then t
      else run
         [surfaceAlwaysOn,
          surfaceFuelOption prop,
          surfaceLoadTransferOption prop,
          surfaceMoistureOption prop,
          surfaceWindSpeedOption prop (surfaceWeighted prop),
          surfaceSpreadDirOption prop,
          surfaceWindDirOption prop,
          surfaceDegreesOption prop,
          surfaceSlopeOption prop,
          surfaceOutputs prop,
          surfaceTwoFuelOutputs prop,
          surfaceMoisDead1000] t)"

text \<open>
  \<^verbatim>\<open>EqCalc::reconfigureCrownModule\<close> (xeqcalcreconfig.cpp,
  147-274).
\<close>

definition reconfigureCrownModule :: "PropertyDict \<Rightarrow> int \<Rightarrow> EqTree \<Rightarrow> EqTree" where
  "reconfigureCrownModule prop release t =
     (if \<not> (boolean prop ''crownModuleActive'') then t
      else run
         [set_active ''fCrownFireActiveCrown'' True,
          set_active ''fCrownFireActiveRatio'' True,
          set_active ''fCrownFireArea'' True,
          set_active ''fCrownFireCritCrownSpreadRate'' True,
          set_active ''fCrownFireCritSurfFireInt'' True,
          set_active ''fCrownFireCritSurfFlameLeng'' True,
          set_active ''fCrownFireLengthToWidth'' True,
          set_active ''fCrownFirePerimeter'' True,
          set_active ''fCrownFireSpreadDist'' True,
          set_active ''fCrownFireSpreadMapDist'' True,
          set_active ''fCrownFireSpreadRate'' True,
          set_active ''fCrownFireTransToCrown'' True,
          set_active ''fCrownFireTransRatioFromFireIntAtVector'' False,
          set_active ''fCrownFireTransRatioFromFireIntAtVector'' False,
          set_active ''fCrownFireType'' True,
          set_active ''fCrownFireFlameLeng'' True,
          set_active ''fCrownFireFuelLoad'' True,
          set_active ''fCrownFireHeatPerUnitArea'' True,
          set_active ''fCrownFireHeatPerUnitAreaCanopy'' True,
          set_active ''fCrownFireLineInt'' True,
          set_active ''fCrownFirePowerOfFire'' True,
          set_active ''fCrownFirePowerOfWind'' True,
          set_active ''fCrownFirePowerRatio'' True,
          set_active ''fCrownFireWindDriven'' True,
          cond (boolean prop ''surfaceModuleActive'')
           [cond (boolean prop ''surfaceConfSpreadDirInput'')
                 [set_active ''fCrownFireTransRatioFromFireIntAtVector'' True]
                 [set_active ''fCrownFireTransRatioFromFireIntAtVector'' True]]
           [cond (boolean prop ''crownConfUseFlameLeng'')
                 [set_active ''fCrownFireTransRatioFromFlameLengAtVector'' True]
                 [set_active ''fCrownFireTransRatioFromFireIntAtVector'' True],
            cond (boolean prop ''surfaceConfWindSpeedAt10M''
                \<or> boolean prop ''surfaceConfWindSpeedAt10MCalc'')
                 [set_active ''fWindSpeedAt20Ft'' True]
                 []],
          set_isUserOutput ''vCrownFireActiveCrown'' (boolean prop ''crownCalcActiveCrown''),
          set_isUserOutput ''vCrownFireActiveRatio'' (boolean prop ''crownCalcActiveRatio''),
          set_isUserOutput ''vCrownFireArea'' (boolean prop ''crownCalcFireArea''),
          set_isUserOutput ''vCrownFireCritCrownSpreadRate''
              (boolean prop ''crownCalcCriticalCrownSpreadRate''),
          set_isUserOutput ''vCrownFireCritSurfFireInt''
              (boolean prop ''crownCalcCriticalSurfaceIntensity''),
          set_isUserOutput ''vCrownFireCritSurfFlameLeng''
              (boolean prop ''crownCalcCriticalSurfaceFlameLeng''),
          set_isUserOutput ''vCrownFireFlameLeng'' (boolean prop ''crownCalcFlameLeng''),
          set_isUserOutput ''vCrownFireFuelLoad'' (boolean prop ''crownCalcFuelLoad''),
          set_isUserOutput ''vCrownFireHeatPerUnitArea''
              (boolean prop ''crownCalcHeatPerUnitArea''),
          set_isUserOutput ''vCrownFireHeatPerUnitAreaCanopy''
              (boolean prop ''crownCalcHeatPerUnitAreaCanopy''),
          set_isUserOutput ''vCrownFireLengthToWidth''
              (boolean prop ''crownCalcFireLengthToWidth''),
          set_isUserOutput ''vCrownFireLineInt'' (boolean prop ''crownCalcFireLineInt''),
          set_isUserOutput ''vCrownFirePerimeter'' (boolean prop ''crownCalcFirePerimeter''),
          set_isUserOutput ''vCrownFirePowerOfFire'' (boolean prop ''crownCalcPowerOfFire''),
          set_isUserOutput ''vCrownFirePowerOfWind'' (boolean prop ''crownCalcPowerOfWind''),
          set_isUserOutput ''vCrownFirePowerRatio'' (boolean prop ''crownCalcPowerRatio''),
          set_isUserOutput ''vCrownFireSpreadDist'' (boolean prop ''crownCalcCrownSpreadDist''),
          set_isUserOutput ''vCrownFireSpreadRate'' (boolean prop ''crownCalcCrownSpreadRate''),
          set_isUserOutput ''vCrownFireTransRatio'' (boolean prop ''crownCalcTransitionRatio''),
          set_isUserOutput ''vCrownFireTransToCrown''
              (boolean prop ''crownCalcTransitionToCrown''),
          set_isUserOutput ''vCrownFireType'' (boolean prop ''crownCalcCrownFireType''),
          set_isUserOutput ''vCrownFireWindDriven'' (boolean prop ''crownCalcWindDriven''),
          cond (boolean prop ''mapCalcDist'')
           [set_active ''fMapScale'' True,
            set_isUserOutput ''vCrownFireSpreadMapDist''
                (boolean prop ''crownCalcCrownSpreadDist'')]
           []] t)"

text \<open>
  \<^verbatim>\<open>EqCalc::reconfigureSizeModule\<close> (xeqcalcreconfig.cpp, 587-642).
\<close>

definition reconfigureSizeModule :: "PropertyDict \<Rightarrow> int \<Rightarrow> EqTree \<Rightarrow> EqTree" where
  "reconfigureSizeModule prop release t =
     (if \<not> (boolean prop ''sizeModuleActive'') then t
      else run
         [set_active ''fSurfaceFireArea'' True,
          set_active ''fSurfaceFireDistAtBack'' True,
          set_active ''fSurfaceFireDistAtHead'' True,
          set_active ''fSurfaceFireEccentricity'' True,
          set_active ''fSurfaceFireLengDist'' True,
          set_active ''fSurfaceFireLengMapDist'' True,
          set_active ''fSurfaceFireLengthToWidth'' True,
          set_active ''fSurfaceFireMapDistAtBack'' True,
          set_active ''fSurfaceFireMapDistAtHead'' True,
          set_active ''fSurfaceFirePerimeter'' True,
          set_active ''fSurfaceFireShapeDiagram'' True,
          set_active ''fSurfaceFireSpreadAtBack'' True,
          set_active ''fSurfaceFireWidthDist'' True,
          set_active ''fSurfaceFireWidthMapDist'' True,
          set_isUserOutput ''vSurfaceFireArea'' (boolean prop ''sizeCalcFireArea''),
          set_isUserOutput ''vSurfaceFireDistAtBack'' (boolean prop ''sizeCalcFireDistAtBack''),
          set_isUserOutput ''vSurfaceFireDistAtHead'' (boolean prop ''sizeCalcFireDistAtFront''),
          set_isUserOutput ''vSurfaceFireLengthToWidth''
              (boolean prop ''sizeCalcFireLengToWidth''),
          set_isUserOutput ''vSurfaceFireLengDist'' (boolean prop ''sizeCalcFireLengDist''),
          set_isUserOutput ''vSurfaceFirePerimeter'' (boolean prop ''sizeCalcFirePerimeter''),
          set_isUserOutput ''vSurfaceFireWidthDist'' (boolean prop ''sizeCalcFireWidthDist''),
          set_isUserOutput ''vSurfaceFireShapeDiagram''
              (boolean prop ''sizeCalcFireShapeDiagram''),
          cond (boolean prop ''mapCalcDist'')
           [set_active ''fMapScale'' True,
            set_isUserOutput ''vSurfaceFireMapDistAtBack''
                (boolean prop ''sizeCalcFireDistAtBack''),
            set_isUserOutput ''vSurfaceFireMapDistAtHead''
                (boolean prop ''sizeCalcFireDistAtFront''),
            set_isUserOutput ''vSurfaceFireLengMapDist'' (boolean prop ''sizeCalcFireLengDist''),
            set_isUserOutput ''vSurfaceFireWidthMapDist''
                (boolean prop ''sizeCalcFireWidthDist'')]
           []] t)"

text \<open>
  \<^verbatim>\<open>EqCalc::reconfigureContainModule\<close> (xeqcalcreconfig.cpp,
  53-138).
\<close>

definition reconfigureContainModule :: "PropertyDict \<Rightarrow> int \<Rightarrow> EqTree \<Rightarrow> EqTree" where
  "reconfigureContainModule prop release t =
     (if \<not> (boolean prop ''containModuleActive'') then t
      else run
         [set_active ''fContainFF'' (boolean prop ''containConfResourcesMultiple''),
          set_active ''fContainFFSingle'' (boolean prop ''containConfResourcesSingle''),
          cond (boolean prop ''containConfResourcesSingle'')
           [set_isConstant ''vContainResourceName'' True]
           [set_isConstant ''vContainResourceName'' False],
          cond (boolean prop ''containConfLimitDistOn'')
           [set_isConstant ''vContainLimitDist'' False,
            set_isUserInput ''vContainLimitDist'' True]
           [set_isConstant ''vContainLimitDist'' True,
            set_isUserInput ''vContainLimitDist'' False],
          set_isUserOutput ''vContainLine'' (boolean prop ''containCalcLine''),
          set_isUserOutput ''vContainResourcesUsed'' (boolean prop ''containCalcResourcesUsed''),
          set_isUserOutput ''vContainSize'' (boolean prop ''containCalcSize''),
          set_isUserOutput ''vContainStatus'' (boolean prop ''containCalcStatus''),
          set_isUserOutput ''vContainTime'' (boolean prop ''containCalcTime''),
          set_isUserOutput ''vContainCost'' (boolean prop ''containCalcCost''),
          set_isUserOutput ''vContainDiagram'' (boolean prop ''containCalcDiagram''),
          set_isUserOutput ''vContainAttackPerimeter''
              (boolean prop ''containCalcAttackPerimeter''),
          set_isUserOutput ''vContainAttackSize'' (boolean prop ''containCalcAttackSize''),
          set_isConstant ''vContainResourceBaseCost'' False,
          set_isConstant ''vContainResourceHourCost'' False,
          condT (\<lambda>t. \<not> isUserOutput t ''vContainCost'')
           [set_isConstant ''vContainResourceBaseCost'' True,
            set_isConstant ''vContainResourceHourCost'' True]
           [],
          cond (boolean prop ''surfaceModuleActive'')
           [set_active ''fContainFFReportSpread'' True,
            set_active ''fContainFFReportRatio'' True]
           [],
          cond (boolean prop ''sizeModuleActive'')
           [set_active ''fContainFFReportSpread'' True,
            set_active ''fContainFFReportRatio'' True,
            set_active ''fContainFFReportSize'' True]
           [],
          set_active ''fContainFFReportSpread'' True] t)"

text \<open>
  \<^verbatim>\<open>EqCalc::reconfigureSpotModule\<close> (xeqcalcreconfig.cpp, 651-730).
\<close>

definition reconfigureSpotModule :: "PropertyDict \<Rightarrow> int \<Rightarrow> EqTree \<Rightarrow> EqTree" where
  "reconfigureSpotModule prop release t =
     (if \<not> (boolean prop ''spotModuleActive'') then t
      else run
         [set_active ''fSpotDistBurningPile'' True,
          set_active ''fSpotDistSurfaceFire'' True,
          set_active ''fSpotDistTorchingTrees'' True,
          cond (\<not> (boolean prop ''surfaceModuleActive''))
           [cond (boolean prop ''surfaceConfWindSpeedAt10M''
               \<or> boolean prop ''surfaceConfWindSpeedAt10MCalc'')
                 [set_active ''fWindSpeedAt20Ft'' True]
                 []]
           [],
          set_isUserOutput ''vSpotDistBurningPile'' (boolean prop ''spotCalcDistBurningPile''),
          set_isUserOutput ''vSpotCoverHtBurningPile''
              (boolean prop ''spotCalcCoverHtBurningPile''),
          set_isUserOutput ''vSpotFirebrandHtBurningPile''
              (boolean prop ''spotCalcFirebrandHtBurningPile''),
          set_isUserOutput ''vSpotFlatDistBurningPile''
              (boolean prop ''spotCalcFlatDistBurningPile''),
          set_isUserOutput ''vSpotDistSurfaceFire'' (boolean prop ''spotCalcDistSurfaceFire''),
          set_isUserOutput ''vSpotCoverHtSurfaceFire''
              (boolean prop ''spotCalcCoverHtSurfaceFire''),
          set_isUserOutput ''vSpotFirebrandDriftSurfaceFire''
              (boolean prop ''spotCalcFirebrandDriftSurfaceFire''),
          set_isUserOutput ''vSpotFirebrandHtSurfaceFire''
              (boolean prop ''spotCalcFirebrandHtSurfaceFire''),
          set_isUserOutput ''vSpotFlatDistSurfaceFire''
              (boolean prop ''spotCalcFlatDistSurfaceFire''),
          set_isUserOutput ''vSpotDistTorchingTrees''
              (boolean prop ''spotCalcDistTorchingTrees''),
          set_isUserOutput ''vSpotCoverHtTorchingTrees''
              (boolean prop ''spotCalcCoverHtTorchingTrees''),
          set_isUserOutput ''vSpotFlameDurTorchingTrees''
              (boolean prop ''spotCalcFlameDurTorchingTrees''),
          set_isUserOutput ''vSpotFlameHtTorchingTrees''
              (boolean prop ''spotCalcFlameHtTorchingTrees''),
          set_isUserOutput ''vSpotFlameRatioTorchingTrees''
              (boolean prop ''spotCalcFlameRatioTorchingTrees''),
          set_isUserOutput ''vSpotFirebrandHtTorchingTrees''
              (boolean prop ''spotCalcFirebrandHtTorchingTrees''),
          set_isUserOutput ''vSpotFlatDistTorchingTrees''
              (boolean prop ''spotCalcFlatDistTorchingTrees''),
          cond (boolean prop ''mapCalcDist'')
           [set_active ''fMapScale'' True,
            set_active ''fSpotMapDistBurningPile'' True,
            set_active ''fSpotMapDistSurfaceFire'' True,
            set_active ''fSpotMapDistTorchingTrees'' True,
            set_isUserOutput ''vSpotMapDistBurningPile''
                (boolean prop ''spotCalcDistBurningPile''),
            set_isUserOutput ''vSpotMapDistSurfaceFire''
                (boolean prop ''spotCalcDistSurfaceFire''),
            set_isUserOutput ''vSpotMapDistTorchingTrees''
                (boolean prop ''spotCalcDistTorchingTrees'')]
           []] t)"

text \<open>
  \<^verbatim>\<open>EqCalc::reconfigureScorchModule\<close> (xeqcalcreconfig.cpp,
  480-578).
\<close>

definition reconfigureScorchModule :: "PropertyDict \<Rightarrow> int \<Rightarrow> EqTree \<Rightarrow> EqTree" where
  "reconfigureScorchModule prop release t =
     (if \<not> (boolean prop ''scorchModuleActive'') \<or> \<not>
         (boolean prop ''scorchCalcScorchHt'') then t
      else run
         [cond (boolean prop ''surfaceModuleActive'')
           [set_active ''fSurfaceFireScorchHtFromFliAtVector'' True,
            set_isUserOutput ''vSurfaceFireScorchHtAtVector'' True]
           [set_active ''fWindSpeedAt20Ft'' False,
            set_active ''fWindSpeedAtMidflame'' False,
            set_active ''fWindAdjFactor'' False,
            set_isUserOutput ''vSurfaceFireScorchHtAtVector'' True,
            cond (boolean prop ''scorchConfUseFlameLeng'')
                 [set_active ''fSurfaceFireScorchHtFromFlameLengAtVector'' True]
                 [set_active ''fSurfaceFireScorchHtFromFliAtVector'' True],
            cond (boolean prop ''surfaceConfWindSpeedAtMidflame'')
                 [set_isConstant ''vWindAdjFactor'' True,
                  update ''vWindAdjFactor'' 1,
                  set_isConstant ''vWindAdjMethod'' True,
                  updateItem ''vWindAdjMethod'' 2]
                 [cond (boolean prop ''surfaceConfWindSpeedAt20Ft'')
                       [set_active ''fWindSpeedAtMidflame'' True,
                        set_active ''fWindAdjFactor'' False,
                        set_isUserOutput ''vWindSpeedAtMidflame''
                            (boolean prop ''surfaceCalcWindSpeedAtMidflame''),
                        set_isConstant ''vWindAdjMethod'' True,
                        updateItem ''vWindAdjMethod'' 2]
                       [cond (boolean prop ''surfaceConfWindSpeedAt20FtCalc'')
                             [set_active ''fWindSpeedAtMidflame'' True,
                              set_active ''fWindAdjFactor'' True,
                              set_isUserOutput ''vWindSpeedAtMidflame''
                                  (boolean prop ''surfaceCalcWindSpeedAtMidflame''),
                              set_isConstant ''vWindAdjMethod'' False,
                              updateItem ''vWindAdjMethod'' 2]
                             [cond (boolean prop ''surfaceConfWindSpeedAt10M'')
                                   [set_active ''fWindSpeedAt20Ft'' True,
                                    set_active ''fWindSpeedAtMidflame'' True,
                                    set_active ''fWindAdjFactor'' False,
                                    set_isUserOutput ''vWindSpeedAtMidflame''
                                        (boolean prop ''surfaceCalcWindSpeedAtMidflame''),
                                    set_isConstant ''vWindAdjMethod'' True,
                                    updateItem ''vWindAdjMethod'' 2]
                                   [cond (boolean prop ''surfaceConfWindSpeedAt10MCalc'')
                                         [set_active ''fWindSpeedAt20Ft'' True,
                                          set_active ''fWindSpeedAtMidflame'' True,
                                          set_active ''fWindAdjFactor'' True,
                                          set_isUserOutput ''vWindSpeedAtMidflame''
                                              (boolean prop ''surfaceCalcWindSpeedAtMidflame''),
                                          set_isConstant ''vWindAdjMethod'' False,
                                          updateItem ''vWindAdjMethod'' 2]
                                         []]]]]]] t)"

text \<open>
  \<^verbatim>\<open>EqCalc::reconfigureMortalityModule\<close> (xeqcalcreconfig.cpp,
  366-425).
\<close>

definition reconfigureMortalityModule :: "PropertyDict \<Rightarrow> int \<Rightarrow> EqTree \<Rightarrow> EqTree" where
  "reconfigureMortalityModule prop release t =
     (if \<not> (boolean prop ''mortalityModuleActive'') then t
      else (let a = boolean prop ''crownModuleActive''
       in run
         [set_active ''fTreeCrownBaseHt'' False,
          set_active ''fTreeCrownVolScorchedAtVector'' True,
          set_active ''fTreeMortalityCountAtVector'' True,
          set_active ''fTreeMortalityRateFofemAtVector'' False,
          set_active ''fTreeMortalityRateFofem2AtVector'' False,
          set_active ''fTreeMortalityRateFofemHoodAtVector'' True,
          cond a
           [set_active ''fTreeCrownRatio'' True]
           [],
          set_active ''fTreeMortalityRateFofemHoodAtVector'' True,
          set_active ''fTreeBarkThicknessFofem'' True,
          set_isUserOutput ''vTreeBarkThickness'' (boolean prop ''mortalityCalcBarkThickness''),
          set_isUserOutput ''vTreeCrownLengScorchedAtVector''
              (boolean prop ''mortalityCalcTreeCrownLengScorched''),
          set_isUserOutput ''vTreeCrownVolScorchedAtVector''
              (boolean prop ''mortalityCalcTreeCrownVolScorched''),
          set_isUserOutput ''vTreeMortalityCountAtVector''
              (boolean prop ''mortalityCalcTreeMortalityCount''),
          set_isUserOutput ''vTreeMortalityRateAtVector''
              (boolean prop ''mortalityCalcTreeMortalityRate''),
          cond (boolean prop ''surfaceModuleActive'' \<and> \<not>
              (boolean prop ''scorchModuleActive''))
           [set_active ''fSurfaceFireScorchHtFromFliAtVector'' True]
           []] t))"

text \<open>
  \<^verbatim>\<open>EqCalc::reconfigureIgnitionModule\<close> (xeqcalcreconfig.cpp,
  327-357).
\<close>

definition reconfigureIgnitionModule :: "PropertyDict \<Rightarrow> int \<Rightarrow> EqTree \<Rightarrow> EqTree" where
  "reconfigureIgnitionModule prop release t =
     (if \<not> (boolean prop ''ignitionModuleActive'') then t
      else run
         [set_active ''fIgnitionFirebrandProb'' True,
          set_active ''fIgnitionLightningProb'' True,
          set_active ''fSurfaceFuelTemp'' True,
          set_isUserOutput ''vIgnitionFirebrandProb''
              (boolean prop ''ignitionCalcIgnitionFirebrandProb''),
          set_isUserOutput ''vIgnitionLightningProb''
              (boolean prop ''ignitionCalcIgnitionLightningProb''),
          set_isUserOutput ''vSurfaceFuelTemp'' (boolean prop ''ignitionCalcFuelTemp''),
          cond (boolean prop ''surfaceModuleActive'')
           [set_active ''fIgnitionFirebrandFuelMoisFromDead1Hr'' True,
            set_active ''fIgnitionLightningFuelMoisFromDead100Hr'' True]
           []] t)"

text \<open>
  \<^verbatim>\<open>EqCalc::reconfigureWeatherModule\<close> (xeqcalcreconfig.cpp,
  1399-1446).
\<close>

definition reconfigureWeatherModule :: "PropertyDict \<Rightarrow> int \<Rightarrow> EqTree \<Rightarrow> EqTree" where
  "reconfigureWeatherModule prop release t =
     (if \<not> (boolean prop ''weatherModuleActive'') then t
      else run
         [set_active ''fWthrRelativeHumidity'' True,
          set_active ''fWthrCumulusBaseHt'' True,
          set_active ''fWthrHeatIndex'' True,
          set_active ''fWthrSummerSimmerIndex'' True,
          set_active ''fWthrWindChillTemp'' True,
          cond (boolean prop ''weatherConfHumidityFromWetBulbElev'')
           [set_active ''fWthrDewPointTemp'' True,
            set_isUserOutput ''vWthrDewPointTemp'' (boolean prop ''weatherCalcWthrDewPointTemp'')]
           [],
          set_isUserOutput ''vWthrRelativeHumidity''
              (boolean prop ''weatherCalcWthrRelativeHumidity''),
          set_isUserOutput ''vWthrCumulusBaseHt'' (boolean prop ''weatherCalcWthrCumulusBaseHt''),
          set_isUserOutput ''vWthrHeatIndex'' (boolean prop ''weatherCalcWthrHeatIndex''),
          set_isUserOutput ''vWthrSummerSimmerIndex''
              (boolean prop ''weatherCalcWthrSummerSimmerIndex''),
          set_isUserOutput ''vWthrWindChillTemp''
              (boolean prop ''weatherCalcWthrWindChillTemp'')] t)"

text \<open>
  \<^verbatim>\<open>EqCalc::reconfigureSafetyModule\<close> (xeqcalcreconfig.cpp,
  434-471).
\<close>

definition reconfigureSafetyModule :: "PropertyDict \<Rightarrow> int \<Rightarrow> EqTree \<Rightarrow> EqTree" where
  "reconfigureSafetyModule prop release t =
     (if \<not> (boolean prop ''safetyModuleActive'') then t
      else run
         [set_isUserOutput ''vSafetyZoneRadius'' (boolean prop ''safetyCalcRadius''),
          cond (boolean prop ''safetyCalcRadius'')
           [set_active ''fSafetyZoneSepDist'' True,
            set_active ''fSafetyZoneRadius'' True]
           [],
          set_isUserOutput ''vSafetyZoneSepDist'' (boolean prop ''safetyCalcSepDist''),
          cond (boolean prop ''safetyCalcSepDist'')
           [set_active ''fSafetyZoneSepDist'' True]
           [],
          set_isUserOutput ''vSafetyZoneSize'' (boolean prop ''safetyCalcSize''),
          cond (boolean prop ''safetyCalcSize'')
           [set_active ''fSafetyZoneSepDist'' True,
            set_active ''fSafetyZoneRadius'' True]
           [],
          cond (boolean prop ''surfaceModuleActive'')
           [set_active ''fSurfaceFireFlameLengAtHead'' True,
            set_isUserInput ''vSurfaceFireFlameLengAtHead'' False]
           []] t)"

text \<open>\<^verbatim>\<open>EqCalc::reconfigure\<close> (xeqcalcreconfig.cpp, 30-44): the eleven procedures in order.\<close>

definition reconfigure :: "PropertyDict \<Rightarrow> int \<Rightarrow> EqTree \<Rightarrow> EqTree" where
  "reconfigure prop release =
     run
       [reconfigureDocumentation prop release,
        reconfigureSurfaceModule prop release,
        reconfigureCrownModule prop release,
        reconfigureSizeModule prop release,
        reconfigureContainModule prop release,
        reconfigureSpotModule prop release,
        reconfigureScorchModule prop release,
        reconfigureMortalityModule prop release,
        reconfigureIgnitionModule prop release,
        reconfigureWeatherModule prop release,
        reconfigureSafetyModule prop release]"


subsection \<open>The flags each procedure assigns\<close>

text \<open>
  For each procedure, the functions whose \<^verbatim>\<open>m_active\<close> and the variables whose
  \<^verbatim>\<open>m_isUserOutput\<close> it assigns, in the order of their first assignment in its body.
\<close>

definition activeWrites_Documentation :: "string list" where
  "activeWrites_Documentation =
     []"

definition outputWrites_Documentation :: "string list" where
  "outputWrites_Documentation =
     [''vDocDescription'', ''vDocRxAdminUnit'', ''vDocRxName'', ''vDocRxPreparedBy'',
      ''vDocFireAnalyst'', ''vDocFireName'', ''vDocFirePeriod'', ''vDocTrainingCourse'',
      ''vDocTrainingExercise'', ''vDocTrainingTrainee'']"

definition activeWrites_Surface :: "string list" where
  "activeWrites_Surface =
     [''fSurfaceFireCharacteristicsDiagram'', ''fSurfaceFireDistAtHead'',
      ''fSurfaceFireDistAtVector'', ''fSurfaceFireEccentricity'',
      ''fSurfaceFireEffWindAtVector'', ''fSurfaceFireFlameLengAtHead'',
      ''fSurfaceFireFlameLengAtVector'', ''fSurfaceFireMaxDirFromNorth'',
      ''fSurfaceFireHeatSource'', ''fSurfaceFireMaxDirDiagram'',
      ''fSurfaceFireMapDistAtHead'', ''fSurfaceFireMapDistAtVector'',
      ''fSurfaceFireSpreadAtBack'', ''fSurfaceFireSpreadAtHead'',
      ''fSurfaceFireVectorBeta'', ''fSurfaceFireSpreadAtBeta'',
      ''fSurfaceFireHeatPerUnitArea'', ''fSurfaceFireLengthToWidth'',
      ''fSurfaceFireLineIntAtHead'', ''fSurfaceFireLineIntAtVector'',
      ''fSurfaceFireNoWindRate'', ''fSurfaceFirePropagatingFlux'',
      ''fSurfaceFireReactionInt'', ''fSurfaceFireResidenceTime'',
      ''fSurfaceFuelBedIntermediates'', ''fSurfaceFuelBedHeatSink'',
      ''fSurfaceFuelMoisTimeLag'', ''fTreeCrownRatio'', ''fSurfaceFuelBedParms'',
      ''fSurfaceFuelBedModel'', ''fSurfaceFuelBedWeighted'',
      ''fSurfaceFuelLoadTransferFraction'', ''fSurfaceFuelMoisLifeClass'',
      ''fSurfaceFuelMoisScenarioModel'', ''fWindAdjFactor'', ''fWindSpeedAt20Ft'',
      ''fWindSpeedAtMidflame'', ''fSurfaceFuelPalmettoModel'',
      ''fSurfaceFuelPalmettoParms'', ''fSurfaceFuelAspenModel'',
      ''fSurfaceFuelAspenParms'', ''fTreeMortalityRateAspenAtVector'', ''fMapScale'',
      ''fSurfaceFireVectorDirFromUpslope'', ''fWindDirFromUpslope'',
      ''fSiteUpslopeDirFromNorth'', ''fSiteSlopeFraction'', ''fMapSlope'']"

definition outputWrites_Surface :: "string list" where
  "outputWrites_Surface =
     [''vSurfaceFuelPalmettoLoadDead1'', ''vSurfaceFuelPalmettoLoadDead10'',
      ''vSurfaceFuelPalmettoLoadDeadFoliage'', ''vSurfaceFuelPalmettoLoadLive1'',
      ''vSurfaceFuelPalmettoLoadLive10'', ''vSurfaceFuelPalmettoLoadLiveFoliage'',
      ''vSurfaceFuelPalmettoLoadLitter'', ''vSurfaceFuelBedDepth'',
      ''vSurfaceFuelAspenLoadDead1'', ''vSurfaceFuelAspenLoadDead10'',
      ''vSurfaceFuelAspenLoadLiveHerb'', ''vSurfaceFuelAspenLoadLiveWoody'',
      ''vSurfaceFuelAspenSavrDead1'', ''vSurfaceFuelAspenSavrDead10'',
      ''vSurfaceFuelAspenSavrLiveHerb'', ''vSurfaceFuelAspenSavrLiveWoody'',
      ''vTreeMortalityRateAspenAtVector'', ''vWindSpeedAtMidflame'', ''vTreeCrownRatio'',
      ''vSurfaceFireDistAtHead'', ''vSurfaceFireDistAtVector'',
      ''vSurfaceFireEffWindAtHead'', ''vSurfaceFireFlameLengAtHead'',
      ''vSurfaceFireLineIntAtHead'', ''vSurfaceFireSpreadAtHead'',
      ''vSurfaceFireMapDistAtVector'', ''vSurfaceFireEffWindAtVector'',
      ''vSurfaceFireFlameLengAtVector'', ''vSurfaceFireLineIntAtVector'',
      ''vSurfaceFireSpreadAtVector'', ''vSurfaceFireMaxDirFromUpslope'',
      ''vSurfaceFireMaxDirFromNorth'', ''vSiteSlopeReach'', ''vSiteSlopeRise'',
      ''vSiteSlopeFraction'', ''vSiteSlopeDegrees'', ''vSurfaceFireHeatPerUnitArea'',
      ''vSurfaceFireReactionInt'', ''vSurfaceFireWindSpeedFlag'',
      ''vSurfaceFireWindSpeedLimit'', ''vTreeCanopyCrownFraction'', ''vWindAdjFactor'',
      ''vWindAdjMethod'', ''vSurfaceFireHeatSource'', ''vSurfaceFireReactionIntDead'',
      ''vSurfaceFireReactionIntLive'', ''vSurfaceFireMaxDirDiagram'',
      ''vSurfaceFireCharacteristicsDiagram'', ''vSurfaceFuelLoadTransferFraction'',
      ''vSurfaceFuelLoadDead'', ''vSurfaceFuelLoadDeadHerb'', ''vSurfaceFuelLoadLive'',
      ''vSurfaceFuelLoadUndeadHerb'', ''vSurfaceFuelBedSigma'',
      ''vSurfaceFuelBedPackingRatio'', ''vSurfaceFuelBedBulkDensity'',
      ''vSurfaceFuelBedBetaRatio'', ''vSurfaceFuelBedDeadFraction'',
      ''vSurfaceFuelBedLiveFraction'', ''vSurfaceFuelBedHeatSink'',
      ''vSurfaceFuelBedMoisDead'', ''vSurfaceFuelBedMoisLive'',
      ''vSurfaceFuelBedMextLive'', ''vSurfaceFireResidenceTime'',
      ''vSurfaceFireWindFactor'', ''vSurfaceFireSlopeFactor'']"

definition activeWrites_Crown :: "string list" where
  "activeWrites_Crown =
     [''fCrownFireActiveCrown'', ''fCrownFireActiveRatio'', ''fCrownFireArea'',
      ''fCrownFireCritCrownSpreadRate'', ''fCrownFireCritSurfFireInt'',
      ''fCrownFireCritSurfFlameLeng'', ''fCrownFireLengthToWidth'',
      ''fCrownFirePerimeter'', ''fCrownFireSpreadDist'', ''fCrownFireSpreadMapDist'',
      ''fCrownFireSpreadRate'', ''fCrownFireTransToCrown'',
      ''fCrownFireTransRatioFromFireIntAtVector'', ''fCrownFireType'',
      ''fCrownFireFlameLeng'', ''fCrownFireFuelLoad'', ''fCrownFireHeatPerUnitArea'',
      ''fCrownFireHeatPerUnitAreaCanopy'', ''fCrownFireLineInt'',
      ''fCrownFirePowerOfFire'', ''fCrownFirePowerOfWind'', ''fCrownFirePowerRatio'',
      ''fCrownFireWindDriven'', ''fCrownFireTransRatioFromFlameLengAtVector'',
      ''fWindSpeedAt20Ft'', ''fMapScale'']"

definition outputWrites_Crown :: "string list" where
  "outputWrites_Crown =
     [''vCrownFireActiveCrown'', ''vCrownFireActiveRatio'', ''vCrownFireArea'',
      ''vCrownFireCritCrownSpreadRate'', ''vCrownFireCritSurfFireInt'',
      ''vCrownFireCritSurfFlameLeng'', ''vCrownFireFlameLeng'', ''vCrownFireFuelLoad'',
      ''vCrownFireHeatPerUnitArea'', ''vCrownFireHeatPerUnitAreaCanopy'',
      ''vCrownFireLengthToWidth'', ''vCrownFireLineInt'', ''vCrownFirePerimeter'',
      ''vCrownFirePowerOfFire'', ''vCrownFirePowerOfWind'', ''vCrownFirePowerRatio'',
      ''vCrownFireSpreadDist'', ''vCrownFireSpreadRate'', ''vCrownFireTransRatio'',
      ''vCrownFireTransToCrown'', ''vCrownFireType'', ''vCrownFireWindDriven'',
      ''vCrownFireSpreadMapDist'']"

definition activeWrites_Size :: "string list" where
  "activeWrites_Size =
     [''fSurfaceFireArea'', ''fSurfaceFireDistAtBack'', ''fSurfaceFireDistAtHead'',
      ''fSurfaceFireEccentricity'', ''fSurfaceFireLengDist'', ''fSurfaceFireLengMapDist'',
      ''fSurfaceFireLengthToWidth'', ''fSurfaceFireMapDistAtBack'',
      ''fSurfaceFireMapDistAtHead'', ''fSurfaceFirePerimeter'',
      ''fSurfaceFireShapeDiagram'', ''fSurfaceFireSpreadAtBack'',
      ''fSurfaceFireWidthDist'', ''fSurfaceFireWidthMapDist'', ''fMapScale'']"

definition outputWrites_Size :: "string list" where
  "outputWrites_Size =
     [''vSurfaceFireArea'', ''vSurfaceFireDistAtBack'', ''vSurfaceFireDistAtHead'',
      ''vSurfaceFireLengthToWidth'', ''vSurfaceFireLengDist'', ''vSurfaceFirePerimeter'',
      ''vSurfaceFireWidthDist'', ''vSurfaceFireShapeDiagram'',
      ''vSurfaceFireMapDistAtBack'', ''vSurfaceFireMapDistAtHead'',
      ''vSurfaceFireLengMapDist'', ''vSurfaceFireWidthMapDist'']"

definition activeWrites_Contain :: "string list" where
  "activeWrites_Contain =
     [''fContainFF'', ''fContainFFSingle'', ''fContainFFReportSpread'',
      ''fContainFFReportRatio'', ''fContainFFReportSize'']"

definition outputWrites_Contain :: "string list" where
  "outputWrites_Contain =
     [''vContainLine'', ''vContainResourcesUsed'', ''vContainSize'', ''vContainStatus'',
      ''vContainTime'', ''vContainCost'', ''vContainDiagram'',
      ''vContainAttackPerimeter'', ''vContainAttackSize'']"

definition activeWrites_Spot :: "string list" where
  "activeWrites_Spot =
     [''fSpotDistBurningPile'', ''fSpotDistSurfaceFire'', ''fSpotDistTorchingTrees'',
      ''fWindSpeedAt20Ft'', ''fMapScale'', ''fSpotMapDistBurningPile'',
      ''fSpotMapDistSurfaceFire'', ''fSpotMapDistTorchingTrees'']"

definition outputWrites_Spot :: "string list" where
  "outputWrites_Spot =
     [''vSpotDistBurningPile'', ''vSpotCoverHtBurningPile'',
      ''vSpotFirebrandHtBurningPile'', ''vSpotFlatDistBurningPile'',
      ''vSpotDistSurfaceFire'', ''vSpotCoverHtSurfaceFire'',
      ''vSpotFirebrandDriftSurfaceFire'', ''vSpotFirebrandHtSurfaceFire'',
      ''vSpotFlatDistSurfaceFire'', ''vSpotDistTorchingTrees'',
      ''vSpotCoverHtTorchingTrees'', ''vSpotFlameDurTorchingTrees'',
      ''vSpotFlameHtTorchingTrees'', ''vSpotFlameRatioTorchingTrees'',
      ''vSpotFirebrandHtTorchingTrees'', ''vSpotFlatDistTorchingTrees'',
      ''vSpotMapDistBurningPile'', ''vSpotMapDistSurfaceFire'',
      ''vSpotMapDistTorchingTrees'']"

definition activeWrites_Scorch :: "string list" where
  "activeWrites_Scorch =
     [''fSurfaceFireScorchHtFromFliAtVector'', ''fWindSpeedAt20Ft'',
      ''fWindSpeedAtMidflame'', ''fWindAdjFactor'',
      ''fSurfaceFireScorchHtFromFlameLengAtVector'']"

definition outputWrites_Scorch :: "string list" where
  "outputWrites_Scorch =
     [''vSurfaceFireScorchHtAtVector'', ''vWindSpeedAtMidflame'']"

definition activeWrites_Mortality :: "string list" where
  "activeWrites_Mortality =
     [''fTreeCrownBaseHt'', ''fTreeCrownVolScorchedAtVector'',
      ''fTreeMortalityCountAtVector'', ''fTreeMortalityRateFofemAtVector'',
      ''fTreeMortalityRateFofem2AtVector'', ''fTreeMortalityRateFofemHoodAtVector'',
      ''fTreeCrownRatio'', ''fTreeBarkThicknessFofem'',
      ''fSurfaceFireScorchHtFromFliAtVector'']"

definition outputWrites_Mortality :: "string list" where
  "outputWrites_Mortality =
     [''vTreeBarkThickness'', ''vTreeCrownLengScorchedAtVector'',
      ''vTreeCrownVolScorchedAtVector'', ''vTreeMortalityCountAtVector'',
      ''vTreeMortalityRateAtVector'']"

definition activeWrites_Ignition :: "string list" where
  "activeWrites_Ignition =
     [''fIgnitionFirebrandProb'', ''fIgnitionLightningProb'', ''fSurfaceFuelTemp'',
      ''fIgnitionFirebrandFuelMoisFromDead1Hr'',
      ''fIgnitionLightningFuelMoisFromDead100Hr'']"

definition outputWrites_Ignition :: "string list" where
  "outputWrites_Ignition =
     [''vIgnitionFirebrandProb'', ''vIgnitionLightningProb'', ''vSurfaceFuelTemp'']"

definition activeWrites_Weather :: "string list" where
  "activeWrites_Weather =
     [''fWthrRelativeHumidity'', ''fWthrCumulusBaseHt'', ''fWthrHeatIndex'',
      ''fWthrSummerSimmerIndex'', ''fWthrWindChillTemp'', ''fWthrDewPointTemp'']"

definition outputWrites_Weather :: "string list" where
  "outputWrites_Weather =
     [''vWthrDewPointTemp'', ''vWthrRelativeHumidity'', ''vWthrCumulusBaseHt'',
      ''vWthrHeatIndex'', ''vWthrSummerSimmerIndex'', ''vWthrWindChillTemp'']"

definition activeWrites_Safety :: "string list" where
  "activeWrites_Safety =
     [''fSafetyZoneSepDist'', ''fSafetyZoneRadius'', ''fSurfaceFireFlameLengAtHead'']"

definition outputWrites_Safety :: "string list" where
  "outputWrites_Safety =
     [''vSafetyZoneRadius'', ''vSafetyZoneSepDist'', ''vSafetyZoneSize'']"

text \<open>
  The ten modules that have a master property; the documentation procedure has none.
  \<open>moduleActive\<close> is the master property that the guard of the module's procedure tests,
  \<open>reconfigureModule\<close> the procedure itself, and \<open>activeWrites\<close> and \<open>outputWrites\<close> list
  the functions whose \<^verbatim>\<open>m_active\<close> and the variables whose \<^verbatim>\<open>m_isUserOutput\<close> the
  procedure assigns somewhere in its body.
\<close>

datatype Module =
  Surface | Crown | Size | Contain | Spot | Scorch | Mortality | Ignition | Weather | Safety

fun moduleActive :: "Module \<Rightarrow> string" where
  "moduleActive Surface = ''surfaceModuleActive''"
| "moduleActive Crown = ''crownModuleActive''"
| "moduleActive Size = ''sizeModuleActive''"
| "moduleActive Contain = ''containModuleActive''"
| "moduleActive Spot = ''spotModuleActive''"
| "moduleActive Scorch = ''scorchModuleActive''"
| "moduleActive Mortality = ''mortalityModuleActive''"
| "moduleActive Ignition = ''ignitionModuleActive''"
| "moduleActive Weather = ''weatherModuleActive''"
| "moduleActive Safety = ''safetyModuleActive''"

fun reconfigureModule :: "Module \<Rightarrow> PropertyDict \<Rightarrow> int \<Rightarrow> EqTree \<Rightarrow> EqTree" where
  "reconfigureModule Surface = reconfigureSurfaceModule"
| "reconfigureModule Crown = reconfigureCrownModule"
| "reconfigureModule Size = reconfigureSizeModule"
| "reconfigureModule Contain = reconfigureContainModule"
| "reconfigureModule Spot = reconfigureSpotModule"
| "reconfigureModule Scorch = reconfigureScorchModule"
| "reconfigureModule Mortality = reconfigureMortalityModule"
| "reconfigureModule Ignition = reconfigureIgnitionModule"
| "reconfigureModule Weather = reconfigureWeatherModule"
| "reconfigureModule Safety = reconfigureSafetyModule"

fun activeWrites :: "Module \<Rightarrow> string list" where
  "activeWrites Surface = activeWrites_Surface"
| "activeWrites Crown = activeWrites_Crown"
| "activeWrites Size = activeWrites_Size"
| "activeWrites Contain = activeWrites_Contain"
| "activeWrites Spot = activeWrites_Spot"
| "activeWrites Scorch = activeWrites_Scorch"
| "activeWrites Mortality = activeWrites_Mortality"
| "activeWrites Ignition = activeWrites_Ignition"
| "activeWrites Weather = activeWrites_Weather"
| "activeWrites Safety = activeWrites_Safety"

fun outputWrites :: "Module \<Rightarrow> string list" where
  "outputWrites Surface = outputWrites_Surface"
| "outputWrites Crown = outputWrites_Crown"
| "outputWrites Size = outputWrites_Size"
| "outputWrites Contain = outputWrites_Contain"
| "outputWrites Spot = outputWrites_Spot"
| "outputWrites Scorch = outputWrites_Scorch"
| "outputWrites Mortality = outputWrites_Mortality"
| "outputWrites Ignition = outputWrites_Ignition"
| "outputWrites Weather = outputWrites_Weather"
| "outputWrites Safety = outputWrites_Safety"

text \<open>
  The body of a module's procedure runs when the guard at its head lets it pass: the
  master property is true and, for the Scorch module, \<^verbatim>\<open>scorchCalcScorchHt\<close> is true as
  well (xeqcalcreconfig.cpp, 484-485); otherwise the procedure returns at once.
\<close>

fun procedureRuns :: "PropertyDict \<Rightarrow> Module \<Rightarrow> bool" where
  "procedureRuns pd Scorch
     \<longleftrightarrow> boolean pd ''scorchModuleActive'' \<and> boolean pd ''scorchCalcScorchHt''"
| "procedureRuns pd M \<longleftrightarrow> boolean pd (moduleActive M)"

section \<open>Which flags a procedure can change\<close>

text \<open>
  \<open>frames A V s\<close>: the statement \<open>s\<close> changes the active flag of no function outside
  \<open>A\<close> and the user output flag of no variable outside \<open>V\<close>.
\<close>

definition frames :: "string set \<Rightarrow> string set \<Rightarrow> (EqTree \<Rightarrow> EqTree) \<Rightarrow> bool" where
  "frames A V s \<longleftrightarrow>
     (\<forall>t f. f \<notin> A \<longrightarrow> m_active (s t) f = m_active t f)
   \<and> (\<forall>t v. v \<notin> V \<longrightarrow> isUserOutput (s t) v = isUserOutput t v)"

text \<open>A tree in which every function is inactive and every flag and value is clear.\<close>

definition clearVar :: EqVar where
  "clearVar = \<lparr>m_nativeValue = 0, m_activeItem = 0, m_isUserInput = False,
                m_isUserOutput = False, m_isConstant = False, m_store = []\<rparr>"

definition clearTree :: EqTree where
  "clearTree = \<lparr>var = (\<lambda>_. clearVar), m_active = (\<lambda>_. False), label = (\<lambda>_. [])\<rparr>"

section \<open>Example inputs\<close>

text \<open>
  A fuel bed with one live herbaceous particle of load 2 in slot 3, the load-transfer
  equation switched on and a transfer fraction of one half.
\<close>

definition herbTree :: EqTree where
  "herbTree =
     updateItem ''vSurfaceFuelLoadTransferEq'' 1
       (update ''vSurfaceFuelLoadTransferFraction'' 0.5
         (update ''vSurfaceFuelLoad3'' 2
           (updateItem ''vSurfaceFuelLife3'' 1 clearTree)))"

text \<open>
  Two more fuel beds. In the first the dead herbaceous slot (slot 5) already holds a load
  of one quarter when the node starts, next to a dead particle, a live herbaceous and a
  live woody one, and half of the live herbaceous load is transferred. In the second the
  loads and the transfer fraction are the doubles nearest to 0.035, 0.357 and 0.81.
\<close>

definition stockedHerbTree :: EqTree where
  "stockedHerbTree =
     updateItem ''vSurfaceFuelLoadTransferEq'' 1
       (update ''vSurfaceFuelLoadTransferFraction'' 0.5
         (update ''vSurfaceFuelLoad0'' 0.25
           (update ''vSurfaceFuelLoad3'' 1
             (updateItem ''vSurfaceFuelLife3'' 1
               (update ''vSurfaceFuelLoad4'' 8.5
                 (updateItem ''vSurfaceFuelLife4'' 2
                   (update ''vSurfaceFuelLoad5'' 0.25 clearTree)))))))"

definition decimalHerbTree :: EqTree where
  "decimalHerbTree =
     updateItem ''vSurfaceFuelLoadTransferEq'' 1
       (update ''vSurfaceFuelLoadTransferFraction'' (roundToDouble 0.81)
         (update ''vSurfaceFuelLoad0'' (roundToDouble 0.035)
           (update ''vSurfaceFuelLoad3'' (roundToDouble 0.357)
             (updateItem ''vSurfaceFuelLife3'' 1 clearTree))))"

text \<open>
  The sum of the eight particle loads of a tree, and the value that a node which can fail
  leaves in a variable.
\<close>

definition totalParticleLoad :: "EqTree \<Rightarrow> real" where
  "totalParticleLoad t = sum_list (particleValues t vSurfaceFuelLoad)"

definition storedValue :: "EqTree option \<Rightarrow> string \<Rightarrow> real option" where
  "storedValue r v = (case r of None \<Rightarrow> None | Some t \<Rightarrow> Some (nativeValue t v))"

definition zeroFormula :: FBL_BedIntermediates where
  "zeroFormula depth deadMext parts life load savr heat dens stot seff = (0, 0, 0, 0)"

text \<open>
  Nodes for the examples: the reaction intensity node stores the 1-h dead load of the
  fuel model in use, the head spread node stores its depth, and every other node leaves
  the tree as it is.
\<close>

definition exampleNodes :: Nodes where
  "exampleNodes =
     \<lparr>FuelBedParms = (\<lambda>t. t), FuelLoadTransferFraction = (\<lambda>t. t),
      FuelBedIntermediatesNode = (\<lambda>t. t), FireResidenceTime = (\<lambda>t. t),
      FuelMoisLifeClass = (\<lambda>t. t), FuelMoisScenarioModel = (\<lambda>t. t),
      FuelMoisTimeLag = (\<lambda>t. t), FuelBedHeatSink = (\<lambda>t. t),
      FirePropagatingFlux = (\<lambda>t. t),
      FireReactionInt =
        (\<lambda>t. update ''vSurfaceFireReactionInt'' (nativeValue t ''vSurfaceFuelLoadDead1'') t),
      FireNoWindRate = (\<lambda>t. t), WindAdjFactor = (\<lambda>t. t), WindSpeedAt20Ft = (\<lambda>t. t),
      WindSpeedAtMidflame = (\<lambda>t. t),
      FireSpreadAtHead =
        (\<lambda>t. update ''vSurfaceFireSpreadAtHead'' (nativeValue t ''vSurfaceFuelBedDepth'') t),
      FireLineIntAtHead = (\<lambda>t. t), FireFlameLengAtHead = (\<lambda>t. t),
      FireLengthToWidth = (\<lambda>t. t), FireEccentricity = (\<lambda>t. t),
      FireVectorBeta = (\<lambda>t. t), FireSpreadAtBeta = (\<lambda>t. t),
      FireLineIntAtVector = (\<lambda>t. t), FireFlameLengAtVector = (\<lambda>t. t),
      FireEffWindAtVector = (\<lambda>t. t), FireHeatPerUnitArea = (\<lambda>t. t)\<rparr>"

definition exampleModel :: "real \<Rightarrow> real \<Rightarrow> FuelModel" where
  "exampleModel depth load1 =
     \<lparr>m_depth = depth, m_mext = 0, m_heatDead = 0, m_heatLive = 0, m_load1 = load1,
      m_load10 = 0, m_load100 = 0, m_loadHerb = 0, m_loadWood = 0, m_savr1 = 0,
      m_savrHerb = 0, m_savrWood = 0, m_transfer = 0\<rparr>"

definition harmonicProps :: PropertyDict where
  "harmonicProps =
     \<lparr>boolean = (\<lambda>name. name = ''surfaceConfFuelHarmonicMean''), integer = (\<lambda>name. 0)\<rparr>"

definition noSampler :: FBL_ExpectedSpreadRate where
  "noSampler ros cov n lbRatio samples depth laterals = 0"

definition coverageTree :: "real \<Rightarrow> EqTree" where
  "coverageTree cov0 = update ''vSurfaceFuelBedCoverage1'' cov0 clearTree"

text \<open>
  A tree with a coverage and a vector spread rate, which the example nodes leave as it
  is; a tree with a wind and an upslope direction; and the largest double below the double
  nearest to 0.001.
\<close>

definition vectorRateTree :: "real \<Rightarrow> real \<Rightarrow> EqTree" where
  "vectorRateTree cov0 rate = update ''vSurfaceFireSpreadAtVector'' rate (coverageTree cov0)"

definition windTree :: "real \<Rightarrow> real \<Rightarrow> EqTree" where
  "windTree wd sd =
     update ''vWindDirFromNorth'' wd (update ''vSiteUpslopeDirFromNorth'' sd clearTree)"

definition justBelowOneThousandth :: real where
  "justBelowOneThousandth = 4611686018427387 / 2 ^ 62"

text \<open>
  The per-model intermediate variables of the Surface module, each with the property that
  selects it as an output.
\<close>

definition perModelIntermediates :: "(string \<times> string) list" where
  "perModelIntermediates =
     [(''vSurfaceFireHeatSource'', ''surfaceCalcFireHeatSource''),
      (''vSurfaceFireReactionIntDead'', ''surfaceCalcFireReactionIntDead''),
      (''vSurfaceFireReactionIntLive'', ''surfaceCalcFireReactionIntLive''),
      (''vSurfaceFireMaxDirDiagram'', ''surfaceCalcFireMaxDirDiagram''),
      (''vSurfaceFireCharacteristicsDiagram'', ''surfaceCalcFireCharacteristicsDiagram''),
      (''vSurfaceFuelLoadTransferFraction'', ''surfaceCalcFuelLoadTransferFraction''),
      (''vSurfaceFuelLoadDead'', ''surfaceCalcFuelLoadDead''),
      (''vSurfaceFuelLoadDeadHerb'', ''surfaceCalcFuelLoadDeadHerb''),
      (''vSurfaceFuelLoadLive'', ''surfaceCalcFuelLoadLive''),
      (''vSurfaceFuelLoadUndeadHerb'', ''surfaceCalcFuelLoadUndeadHerb''),
      (''vSurfaceFuelBedSigma'', ''surfaceCalcFuelBedSigma''),
      (''vSurfaceFuelBedPackingRatio'', ''surfaceCalcFuelBedPackingRatio''),
      (''vSurfaceFuelBedBulkDensity'', ''surfaceCalcFuelBedBulkDensity''),
      (''vSurfaceFuelBedBetaRatio'', ''surfaceCalcFuelBedBetaRatio''),
      (''vSurfaceFuelBedDeadFraction'', ''surfaceCalcFuelBedDeadFraction''),
      (''vSurfaceFuelBedLiveFraction'', ''surfaceCalcFuelBedLiveFraction''),
      (''vSurfaceFuelBedHeatSink'', ''surfaceCalcFuelBedHeatSink''),
      (''vSurfaceFuelBedMoisDead'', ''surfaceCalcFuelBedMoisDead''),
      (''vSurfaceFuelBedMoisLive'', ''surfaceCalcFuelBedMoisLive''),
      (''vSurfaceFuelBedMextLive'', ''surfaceCalcFuelBedMextLive''),
      (''vSurfaceFireResidenceTime'', ''surfaceCalcFireResidenceTime''),
      (''vSurfaceFireWindFactor'', ''surfaceCalcFireWindFactor''),
      (''vSurfaceFireSlopeFactor'', ''surfaceCalcFireSlopeFactor'')]"

text \<open>A property dictionary in which exactly the listed boolean properties are true.\<close>

definition propsOf :: "string list \<Rightarrow> PropertyDict" where
  "propsOf names = \<lparr>boolean = (\<lambda>name. name \<in> set names), integer = (\<lambda>name. 0)\<rparr>"

text \<open>The configuration in which only the area weighted choice is selected.\<close>

definition areaWeightedProps :: PropertyDict where
  "areaWeightedProps = propsOf [''surfaceConfFuelAreaWeighted'']"

text \<open>
  Two configurations for the examples. In the first the Surface module is off, the Size
  and Scorch modules are on, and the wind speed is entered at 20 ft. In the second the
  Surface module is on with the harmonic mean of two fuel models, and every output of the
  fuel bed is requested.
\<close>

definition sizeScorchProps :: PropertyDict where
  "sizeScorchProps =
     propsOf [''sizeModuleActive'', ''scorchModuleActive'', ''scorchCalcScorchHt'',
       ''surfaceConfWindSpeedAt20Ft'', ''surfaceCalcWindSpeedAtMidflame'']"

definition twoFuelProps :: PropertyDict where
  "twoFuelProps =
     propsOf [''surfaceModuleActive'', ''surfaceConfFuelHarmonicMean'',
       ''surfaceCalcFireHeatSource'', ''surfaceCalcFuelBedSigma'']"

definition oneFuelProps :: PropertyDict where
  "oneFuelProps =
     propsOf [''surfaceModuleActive'', ''surfaceConfFuelModels'',
       ''surfaceCalcFireHeatSource'', ''surfaceCalcFuelBedSigma'']"

section \<open>Basic facts about the store\<close>

lemma nativeValue_update [simp]:
  "nativeValue (update v x t) w = (if w = v then x else nativeValue t w)"
  by (simp add: nativeValue_def update_def)

lemma nativeValue_updateItem [simp]:
  "nativeValue (updateItem v i t) w = nativeValue t w"
  by (simp add: nativeValue_def updateItem_def)

lemma activeItemDataIndex_updateItem [simp]:
  "activeItemDataIndex (updateItem v i t) w = (if w = v then i else activeItemDataIndex t w)"
  by (simp add: activeItemDataIndex_def updateItem_def)

lemma activeItemDataIndex_update [simp]:
  "activeItemDataIndex (update v x t) w = activeItemDataIndex t w"
  by (simp add: activeItemDataIndex_def update_def)

section \<open>Properties of the rounding to doubles\<close>

text \<open>
  A real number that lies in the binade of exponent \<open>k\<close> and within half a unit in the
  last place of the multiple \<open>n * 2 ^ (k - 52)\<close> rounds to that multiple; at exactly half a
  unit it does so when \<open>n\<close> is even. These two facts evaluate \<open>roundToDouble\<close> on the
  numbers of the examples.
\<close>

lemma round_half_even_near:
  assumes "\<bar>x - of_int n\<bar> < 1 / 2"
  shows "round_half_even x = n"
proof -
  consider "of_int n \<le> x" | "x < of_int n" by linarith
  then show ?thesis
  proof cases
    case 1
    then have "\<lfloor>x\<rfloor> = n" using assms by (intro floor_unique) linarith+
    then show ?thesis using assms 1 by (simp add: round_half_even_def Let_def)
  next
    case 2
    then have "\<lfloor>x\<rfloor> = n - 1" using assms by (intro floor_unique) (simp, linarith+)
    then show ?thesis using assms 2 by (simp add: round_half_even_def Let_def)
  qed
qed

lemma round_half_even_tie:
  assumes "\<bar>x - of_int n\<bar> = 1 / 2" "even n"
  shows "round_half_even x = n"
proof -
  consider "x = of_int n + 1 / 2" | "x = of_int n - 1 / 2" using assms(1) by argo
  then show ?thesis
  proof cases
    case 1
    then have "\<lfloor>x\<rfloor> = n" by (intro floor_unique) simp_all
    then show ?thesis using assms(2) 1 by (simp add: round_half_even_def Let_def)
  next
    case 2
    then have "\<lfloor>x\<rfloor> = n - 1" by (intro floor_unique) simp_all
    then show ?thesis using assms(2) 2 by (simp add: round_half_even_def Let_def)
  qed
qed

lemma twoTo_powr: "twoTo e = 2 powr of_int e"
  by (simp add: twoTo_def powr_real_of_int divide_inverse)

lemma twoTo_pos: "0 < twoTo e"
  by (simp add: twoTo_def)

lemma floor_log2:
  assumes "twoTo k \<le> x" "x < twoTo (k + 1)"
  shows "\<lfloor>log 2 x\<rfloor> = k"
proof -
  have pos: "0 < x" using assms(1) twoTo_pos [of k] by linarith
  have "of_int k \<le> log 2 x" using assms(1) pos by (simp add: le_log_iff twoTo_powr)
  moreover have "log 2 x < of_int k + 1" using assms(2) pos by (simp add: log_less_iff twoTo_powr)
  ultimately show ?thesis by (intro floor_unique) simp_all
qed

lemma roundToDouble_eval:
  assumes "twoTo k \<le> \<bar>x\<bar>" "\<bar>x\<bar> < twoTo (k + 1)" "- 1022 \<le> k"
    and "\<bar>x / twoTo (k - 52) - of_int n\<bar> < 1 / 2"
  shows "roundToDouble x = of_int n * twoTo (k - 52)"
proof -
  have "x \<noteq> 0" using assms(1) twoTo_pos [of k] by auto
  moreover have "ulp_exponent x = k - 52"
    using floor_log2 [OF assms(1,2)] assms(3) by (simp add: ulp_exponent_def)
  ultimately show ?thesis
    using round_half_even_near [OF assms(4)] by (simp add: roundToDouble_def)
qed

lemma roundToDouble_eval_tie:
  assumes "twoTo k \<le> \<bar>x\<bar>" "\<bar>x\<bar> < twoTo (k + 1)" "- 1022 \<le> k"
    and "\<bar>x / twoTo (k - 52) - of_int n\<bar> = 1 / 2" "even n"
  shows "roundToDouble x = of_int n * twoTo (k - 52)"
proof -
  have "x \<noteq> 0" using assms(1) twoTo_pos [of k] by auto
  moreover have "ulp_exponent x = k - 52"
    using floor_log2 [OF assms(1,2)] assms(3) by (simp add: ulp_exponent_def)
  ultimately show ?thesis
    using round_half_even_tie [OF assms(4,5)] by (simp add: roundToDouble_def)
qed

text \<open>The rounded value lies within half a unit in the last place of the number.\<close>

lemma round_half_even_error: "\<bar>of_int (round_half_even x) - x\<bar> \<le> 1 / 2"
proof -
  have "of_int \<lfloor>x\<rfloor> \<le> x" "x < of_int \<lfloor>x\<rfloor> + 1" by linarith+
  then show ?thesis by (auto simp: round_half_even_def Let_def)
qed

lemma roundToDouble_nearest:
  "\<bar>roundToDouble x - x\<bar> \<le> twoTo (ulp_exponent x) / 2"
proof (cases "x = 0")
  case True
  then show ?thesis using twoTo_pos [of "ulp_exponent 0"] by (simp add: roundToDouble_def)
next
  case False
  define u where "u = twoTo (ulp_exponent x)"
  have u: "0 < u" unfolding u_def by (rule twoTo_pos)
  have "roundToDouble x - x = (of_int (round_half_even (x / u)) - x / u) * u"
    using False u by (simp add: roundToDouble_def u_def field_simps)
  then have "\<bar>roundToDouble x - x\<bar> = \<bar>of_int (round_half_even (x / u)) - x / u\<bar> * u"
    using u by (simp add: abs_mult)
  also have "\<dots> \<le> 1 / 2 * u"
    using round_half_even_error [of "x / u"] u by (intro mult_right_mono) simp_all
  finally show ?thesis by (simp add: u_def)
qed

lemma roundToDouble_zero: "roundToDouble 0 = 0"
  by (simp add: roundToDouble_def)

lemma roundToDouble_values:
  "roundToDouble (- (205 / 36028797018963968)) = - (205 / 36028797018963968)"
  "roundToDouble (1 / 10000000) = 944473296573929 / 9444732965739290427392"
  "roundToDouble (1 / 1000000) = 4722366482869645 / 4722366482869645213696"
  "roundToDouble (1 / 100000) = 5902958103587057 / 590295810358705651712"
  "roundToDouble (4611686018427387 / 4611686018427387904) = 4611686018427387 / 4611686018427387904"
  "roundToDouble (7 / 200) = 1261007895663739 / 36028797018963968"
  "roundToDouble (1261007895663739 / 36028797018963968) = 1261007895663739 / 36028797018963968"
  "roundToDouble (1221916650898163 / 18014398509481984) = 1221916650898163 / 18014398509481984"
  "roundToDouble (3518437208883 / 35184372088832) = 3518437208883 / 35184372088832"
  "roundToDouble (1 / 10) = 3602879701896397 / 36028797018963968"
  "roundToDouble (1558567156757861 / 9007199254740992) = 1558567156757861 / 9007199254740992"
  "roundToDouble (1 / 5) = 3602879701896397 / 18014398509481984"
  "roundToDouble (- (3602879701896397 / 18014398509481984)) = - (3602879701896397 / 18014398509481984)"
  "roundToDouble (1 / 4) = 1 / 4"
  "roundToDouble (2932532192543976829855656229617 / 10141204801825835211973625643008) = 5209223616986905 / 18014398509481984"
  "roundToDouble (11679455129637549 / 36028797018963968) = 2919863782409387 / 9007199254740992"
  "roundToDouble (1607785066971267 / 4503599627370496) = 1607785066971267 / 4503599627370496"
  "roundToDouble (357 / 1000) = 1607785066971267 / 4503599627370496"
  "roundToDouble (7061644215716937 / 18014398509481984) = 7061644215716937 / 18014398509481984"
  "roundToDouble (1 / 2) = 1 / 2"
  "roundToDouble (81 / 100) = 1823957849085051 / 2251799813685248"
  "roundToDouble (530884324074434 / 641967655974267) = 7448632097983131 / 9007199254740992"
  "roundToDouble (32425917317067571 / 36028797018963968) = 8106479329266893 / 9007199254740992"
  "roundToDouble (999 / 1000) = 8998192055486251 / 9007199254740992"
  "roundToDouble (4607074332408960517 / 4611686018427387904) = 8998192055486251 / 9007199254740992"
  "roundToDouble 1 = 1"
  "roundToDouble 2 = 2"
  "roundToDouble 4 = 4"
  "roundToDouble 7 = 7"
  "roundToDouble 9 = 9"
  "roundToDouble (19 / 2) = 19 / 2"
  "roundToDouble 10 = 10"
  "roundToDouble (1801 / 10) = 6336705413198643 / 35184372088832"
  "roundToDouble (6481580583711617843 / 18014398509481984) = 6329668538780877 / 17592186044416"
  "roundToDouble (1799 / 5) = 6329668538780877 / 17592186044416"
  "roundToDouble (12970366926827028275 / 36028797018963968) = 360"
proof -
  show "roundToDouble (- (205 / 36028797018963968)) = - (205 / 36028797018963968)"
    using roundToDouble_eval [of "- 48" "- (205 / 36028797018963968)" "- 7212796278210560"] by (simp add: twoTo_def)
  show "roundToDouble (1 / 10000000) = 944473296573929 / 9444732965739290427392"
    using roundToDouble_eval [of "- 24" "1 / 10000000" 7555786372591432] by (simp add: twoTo_def)
  show "roundToDouble (1 / 1000000) = 4722366482869645 / 4722366482869645213696"
    using roundToDouble_eval [of "- 20" "1 / 1000000" 4722366482869645] by (simp add: twoTo_def)
  show "roundToDouble (1 / 100000) = 5902958103587057 / 590295810358705651712"
    using roundToDouble_eval [of "- 17" "1 / 100000" 5902958103587057] by (simp add: twoTo_def)
  show "roundToDouble (4611686018427387 / 4611686018427387904) = 4611686018427387 / 4611686018427387904"
    using roundToDouble_eval [of "- 10" "4611686018427387 / 4611686018427387904" 4611686018427387] by (simp add: twoTo_def)
  show "roundToDouble (7 / 200) = 1261007895663739 / 36028797018963968"
    using roundToDouble_eval [of "- 5" "7 / 200" 5044031582654956] by (simp add: twoTo_def)
  show "roundToDouble (1261007895663739 / 36028797018963968) = 1261007895663739 / 36028797018963968"
    using roundToDouble_eval [of "- 5" "1261007895663739 / 36028797018963968" 5044031582654956] by (simp add: twoTo_def)
  show "roundToDouble (1221916650898163 / 18014398509481984) = 1221916650898163 / 18014398509481984"
    using roundToDouble_eval [of "- 4" "1221916650898163 / 18014398509481984" 4887666603592652] by (simp add: twoTo_def)
  show "roundToDouble (3518437208883 / 35184372088832) = 3518437208883 / 35184372088832"
    using roundToDouble_eval [of "- 4" "3518437208883 / 35184372088832" 7205759403792384] by (simp add: twoTo_def)
  show "roundToDouble (1 / 10) = 3602879701896397 / 36028797018963968"
    using roundToDouble_eval [of "- 4" "1 / 10" 7205759403792794] by (simp add: twoTo_def)
  show "roundToDouble (1558567156757861 / 9007199254740992) = 1558567156757861 / 9007199254740992"
    using roundToDouble_eval [of "- 3" "1558567156757861 / 9007199254740992" 6234268627031444] by (simp add: twoTo_def)
  show "roundToDouble (1 / 5) = 3602879701896397 / 18014398509481984"
    using roundToDouble_eval [of "- 3" "1 / 5" 7205759403792794] by (simp add: twoTo_def)
  show "roundToDouble (- (3602879701896397 / 18014398509481984)) = - (3602879701896397 / 18014398509481984)"
    using roundToDouble_eval [of "- 3" "- (3602879701896397 / 18014398509481984)" "- 7205759403792794"] by (simp add: twoTo_def)
  show "roundToDouble (1 / 4) = 1 / 4"
    using roundToDouble_eval [of "- 2" "1 / 4" 4503599627370496] by (simp add: twoTo_def)
  show "roundToDouble (2932532192543976829855656229617 / 10141204801825835211973625643008) = 5209223616986905 / 18014398509481984"
    using roundToDouble_eval [of "- 2" "2932532192543976829855656229617 / 10141204801825835211973625643008" 5209223616986905] by (simp add: twoTo_def)
  show "roundToDouble (11679455129637549 / 36028797018963968) = 2919863782409387 / 9007199254740992"
    using roundToDouble_eval_tie [of "- 2" "11679455129637549 / 36028797018963968" 5839727564818774] by (simp add: twoTo_def)
  show "roundToDouble (1607785066971267 / 4503599627370496) = 1607785066971267 / 4503599627370496"
    using roundToDouble_eval [of "- 2" "1607785066971267 / 4503599627370496" 6431140267885068] by (simp add: twoTo_def)
  show "roundToDouble (357 / 1000) = 1607785066971267 / 4503599627370496"
    using roundToDouble_eval [of "- 2" "357 / 1000" 6431140267885068] by (simp add: twoTo_def)
  show "roundToDouble (7061644215716937 / 18014398509481984) = 7061644215716937 / 18014398509481984"
    using roundToDouble_eval [of "- 2" "7061644215716937 / 18014398509481984" 7061644215716937] by (simp add: twoTo_def)
  show "roundToDouble (1 / 2) = 1 / 2"
    using roundToDouble_eval [of "- 1" "1 / 2" 4503599627370496] by (simp add: twoTo_def)
  show "roundToDouble (81 / 100) = 1823957849085051 / 2251799813685248"
    using roundToDouble_eval [of "- 1" "81 / 100" 7295831396340204] by (simp add: twoTo_def)
  show "roundToDouble (530884324074434 / 641967655974267) = 7448632097983131 / 9007199254740992"
    using roundToDouble_eval [of "- 1" "530884324074434 / 641967655974267" 7448632097983131] by (simp add: twoTo_def)
  show "roundToDouble (32425917317067571 / 36028797018963968) = 8106479329266893 / 9007199254740992"
    using roundToDouble_eval [of "- 1" "32425917317067571 / 36028797018963968" 8106479329266893] by (simp add: twoTo_def)
  show "roundToDouble (999 / 1000) = 8998192055486251 / 9007199254740992"
    using roundToDouble_eval [of "- 1" "999 / 1000" 8998192055486251] by (simp add: twoTo_def)
  show "roundToDouble (4607074332408960517 / 4611686018427387904) = 8998192055486251 / 9007199254740992"
    using roundToDouble_eval [of "- 1" "4607074332408960517 / 4611686018427387904" 8998192055486251] by (simp add: twoTo_def)
  show "roundToDouble 1 = 1"
    using roundToDouble_eval [of 0 "1" 4503599627370496] by (simp add: twoTo_def)
  show "roundToDouble 2 = 2"
    using roundToDouble_eval [of 1 "2" 4503599627370496] by (simp add: twoTo_def)
  show "roundToDouble 4 = 4"
    using roundToDouble_eval [of 2 "4" 4503599627370496] by (simp add: twoTo_def)
  show "roundToDouble 7 = 7"
    using roundToDouble_eval [of 2 "7" 7881299347898368] by (simp add: twoTo_def)
  show "roundToDouble 9 = 9"
    using roundToDouble_eval [of 3 "9" 5066549580791808] by (simp add: twoTo_def)
  show "roundToDouble (19 / 2) = 19 / 2"
    using roundToDouble_eval [of 3 "19 / 2" 5348024557502464] by (simp add: twoTo_def)
  show "roundToDouble 10 = 10"
    using roundToDouble_eval [of 3 "10" 5629499534213120] by (simp add: twoTo_def)
  show "roundToDouble (1801 / 10) = 6336705413198643 / 35184372088832"
    using roundToDouble_eval [of 7 "1801 / 10" 6336705413198643] by (simp add: twoTo_def)
  show "roundToDouble (6481580583711617843 / 18014398509481984) = 6329668538780877 / 17592186044416"
    using roundToDouble_eval [of 8 "6481580583711617843 / 18014398509481984" 6329668538780877] by (simp add: twoTo_def)
  show "roundToDouble (1799 / 5) = 6329668538780877 / 17592186044416"
    using roundToDouble_eval [of 8 "1799 / 5" 6329668538780877] by (simp add: twoTo_def)
  show "roundToDouble (12970366926827028275 / 36028797018963968) = 360"
    using roundToDouble_eval [of 8 "12970366926827028275 / 36028797018963968" 6333186975989760] by (simp add: twoTo_def)
qed

lemmas roundToDouble_evals = roundToDouble_zero roundToDouble_values

section \<open>Properties of WindDirFromUpslope\<close>


text \<open>With the identity for the rounding, the rounded node is the node in exact arithmetic.\<close>

lemma WindDirFromUpslope_rounded_exact:
  "WindDirFromUpslope_rounded (\<lambda>x. x) = WindDirFromUpslope"
  by (simp add: fun_eq_iff WindDirFromUpslope_rounded_def WindDirFromUpslope_def
      angleFromUpslope_rounded_def angleFromUpslope_def windVector_rounded_def windVector_def)

text \<open>
  In exact arithmetic, wind and upslope directions in [0, 360) give a result in [0, 360):
  it is 0 when the angle from upslope is below 0.5 and the angle itself otherwise, so an
  angle just below 360, such as 359.8 (wind from 180, upslope 0.2), is stored unchanged.
\<close>

lemma WindDirFromUpslope_exact_range:
  assumes "0 \<le> nativeValue t ''vWindDirFromNorth''" "nativeValue t ''vWindDirFromNorth'' < 360"
    and "0 \<le> nativeValue t ''vSiteUpslopeDirFromNorth''"
    and "nativeValue t ''vSiteUpslopeDirFromNorth'' < 360"
  defines "a \<equiv> angleFromUpslope (nativeValue t ''vWindDirFromNorth'')
                 (nativeValue t ''vSiteUpslopeDirFromNorth'')"
    and "r \<equiv> nativeValue (WindDirFromUpslope t) ''vWindDirFromUpslope''"
  shows "0 \<le> r \<and> r < 360 \<and> 0 \<le> a \<and> a < 360
         \<and> r = (if a < 0.5 then 0 else a)
         \<and> nativeValue (WindDirFromUpslope
               (update ''vWindDirFromNorth'' 180 (update ''vSiteUpslopeDirFromNorth'' 0.2 t)))
               ''vWindDirFromUpslope'' = 359.8"
  using assms(1-4) unfolding a_def r_def
  by (simp add: WindDirFromUpslope_def snapToZero_def angleFromUpslope_def windVector_def
      Let_def)

text \<open>
  In double arithmetic too a result just below 360 is not set to 0: a wind from 180 and
  an upslope direction of 0.2 store the double nearest to 359.8.
\<close>

lemma WindDirFromUpslope_rounded_unsnapped:
  "nativeValue (WindDirFromUpslope_rounded roundToDouble (windTree 180 (roundToDouble 0.2)))
     ''vWindDirFromUpslope'' = roundToDouble 359.8"
  by (simp add: WindDirFromUpslope_rounded_def angleFromUpslope_rounded_def
      windVector_rounded_def windTree_def snapToZero_def roundToDouble_evals)

text \<open>
  C10. The stored result does not always lie in [0, 360) for wind and upslope directions
  in [0, 360). For a wind direction of 180.1 and an upslope direction of 0.1 (the doubles
  nearest to them) the wind vector minus the upslope direction is \<open>- 205 / 2 ^ 55\<close>; it is
  negative, so 360 is added, and the sum, a real number below 360, rounds to the double
  360. Its absolute value is not below 0.5, so the node stores 360. In exact arithmetic
  the same inputs give \<open>360 - 205 / 2 ^ 55\<close>.
\<close>

theorem WindDirFromUpslope_rounded_stores_360:
  "0 \<le> roundToDouble 180.1 \<and> roundToDouble 180.1 < 360
   \<and> 0 \<le> roundToDouble 0.1 \<and> roundToDouble 0.1 < 360
   \<and> nativeValue (WindDirFromUpslope_rounded roundToDouble
        (windTree (roundToDouble 180.1) (roundToDouble 0.1))) ''vWindDirFromUpslope'' = 360
   \<and> nativeValue (WindDirFromUpslope
        (windTree (roundToDouble 180.1) (roundToDouble 0.1))) ''vWindDirFromUpslope''
       = 360 - 205 / 2 ^ 55"
  by (simp add: WindDirFromUpslope_rounded_def angleFromUpslope_rounded_def
      windVector_rounded_def WindDirFromUpslope_def angleFromUpslope_def windVector_def
      windTree_def snapToZero_def roundToDouble_evals)

section \<open>Properties of FuelBedIntermediates\<close>

lemma accumulateLoads_total:
  "fst (accumulateLoads life load ps (d, l)) + snd (accumulateLoads life load ps (d, l))
     = d + l + sum_list (map (\<lambda>p. load ! p) ps)"
  by (induction ps arbitrary: d l) auto

lemma length_particleValues [simp]: "length (particleValues t v) = 8"
  by (simp add: particleValues_def MaxParts_def)





lemma upt_MaxParts: "[0..<MaxParts] = [0, 1, 2, 3, 4, 5, 6, 7]"
  by (simp add: MaxParts_def upt_rec)

lemma herbTree_loads: "particleValues herbTree vSurfaceFuelLoad = [0, 0, 0, 2, 0, 0, 0, 0]"
  by (simp add: particleValues_def upt_MaxParts vSurfaceFuelLoad_def herbTree_def
      clearTree_def clearVar_def nativeValue_def update_def updateItem_def)

lemma herbTree_life: "particleLife herbTree = [0, 0, 0, 1, 0, 0, 0, 0]"
  by (simp add: particleLife_def upt_MaxParts vSurfaceFuelLife_def herbTree_def
      clearTree_def clearVar_def activeItemDataIndex_def update_def updateItem_def)

lemma herbTree_transfer:
  "nativeValue herbTree ''vSurfaceFuelLoadTransferFraction'' = 1 / 2"
  "activeItemDataIndex herbTree ''vSurfaceFuelLoadTransferEq'' = 1"
  by (simp_all add: herbTree_def)


text \<open>
  The rounded node: with the identity for the rounding it is the node in exact arithmetic;
  its loads in closed form; and what it stores.
\<close>

lemma accumulateLoads_rounded_exact:
  "accumulateLoads_rounded (\<lambda>x. x) life load ps s = accumulateLoads life load ps s"
  by (induction life load ps s rule: accumulateLoads.induct) simp_all

lemma loadTransfer_rounded_exact: "loadTransfer_rounded (\<lambda>x. x) = loadTransfer"
  by (simp add: fun_eq_iff loadTransfer_rounded_def loadTransfer_def)

lemma deadLoadFraction_rounded_exact:
  "deadLoadFraction_rounded (\<lambda>x. x) = deadLoadFraction"
  by (simp add: fun_eq_iff deadLoadFraction_rounded_def deadLoadFraction_def Let_def
      option.map_ident)

lemma bedLoads_rounded_exact: "bedLoads_rounded (\<lambda>x. x) = bedLoads"
  by (simp add: fun_eq_iff bedLoads_rounded_def bedLoads_def accumulateLoads_rounded_exact
      loadTransfer_rounded_exact)

lemma FuelBedIntermediates_rounded_exact:
  "FuelBedIntermediates_rounded (\<lambda>x. x) = FuelBedIntermediates"
  by (simp add: fun_eq_iff FuelBedIntermediates_rounded_def FuelBedIntermediates_def
      bedLoads_rounded_exact deadLoadFraction_rounded_exact)

lemma deadLoadFraction_rounded_total:
  assumes "0 < SMIDGEN"
  shows "deadLoadFraction_rounded rnd SMIDGEN d l =
      Some (if rnd (d + l) < SMIDGEN then 0 else rnd (d / rnd (d + l)))"
  using assms by (auto simp: deadLoadFraction_rounded_def divide_checked_def Let_def)

lemma bedLoads_rounded_eq:
  "bedLoads_rounded rnd t =
     (let load0 = particleValues t vSurfaceFuelLoad;
          acc = accumulateLoads_rounded rnd (particleLife t) load0 [0..<MaxParts] (0, 0);
          f = transferFraction t;
          m = rnd (f * load0 ! LiveHerb)
      in if f > rnd 0.00001
         then (load0[DeadHerb := m, LiveHerb := rnd (load0 ! LiveHerb - m)],
               rnd (fst acc + m), rnd (snd acc - m))
         else (load0, fst acc, snd acc))"
  by (simp add: bedLoads_rounded_def loadTransfer_rounded_def Let_def split_def
      LiveHerb_def DeadHerb_def)

lemma FuelBedIntermediates_rounded_stores:
  assumes bl: "bedLoads_rounded rnd t = (load, dl, ll)"
    and df: "deadLoadFraction_rounded rnd SMIDGEN dl ll = Some d"
  shows "\<exists>t'. FuelBedIntermediates_rounded rnd FBL SMIDGEN t = Some t'
     \<and> nativeValue t' ''vSurfaceFuelLoadDeadHerb'' = load ! DeadHerb
     \<and> nativeValue t' ''vSurfaceFuelLoadUndeadHerb'' = load ! LiveHerb
     \<and> nativeValue t' ''vSurfaceFuelLoadDead'' = dl
     \<and> nativeValue t' ''vSurfaceFuelLoadLive'' = ll
     \<and> nativeValue t' ''vSurfaceFuelBedDeadFraction'' = d
     \<and> nativeValue t' ''vSurfaceFuelBedLiveFraction'' = rnd (1 - d)"
  by (simp add: FuelBedIntermediates_rounded_def bl df Let_def split_def)

text \<open>
  C9 (as amended). With a positive small-number threshold the node completes, and for
  every rounding of its arithmetic: the live fraction is stored as the rounded difference
  of 1 and the stored dead fraction; when the transfer runs (the transfer fraction exceeds
  the constant 0.00001) the amount moved is the rounded product of the fraction and the
  live herbaceous load, it is stored in the dead herbaceous slot in place of what the slot
  held, and the live herbaceous slot, the dead total and the live total are the rounded
  results of subtracting it from, adding it to and subtracting it from their values
  before; when it does not run, slots and totals are those accumulated from the
  particles. In exact arithmetic the two fractions sum to 1 and the two totals sum to the
  sum of the eight particle loads read at entry. In double arithmetic the fractions sum
  to 1 up to half a unit in the last place of the difference.
\<close>

theorem FuelBedIntermediates_rounded_totals:
  fixes t :: EqTree and rnd :: "real \<Rightarrow> real"
  assumes "0 < SMIDGEN"
  defines "load0 \<equiv> particleValues t vSurfaceFuelLoad"
  defines "acc \<equiv> accumulateLoads_rounded rnd (particleLife t) load0 [0..<MaxParts] (0, 0)"
    and "applied \<equiv> transferFraction t > rnd 0.00001"
    and "moved \<equiv> rnd (transferFraction t * load0 ! LiveHerb)"
  shows "\<exists>t'. FuelBedIntermediates_rounded rnd FBL SMIDGEN t = Some t'
     \<and> nativeValue t' ''vSurfaceFuelBedLiveFraction''
         = rnd (1 - nativeValue t' ''vSurfaceFuelBedDeadFraction'')
     \<and> (if applied
         then nativeValue t' ''vSurfaceFuelLoadDeadHerb'' = moved
            \<and> nativeValue t' ''vSurfaceFuelLoadUndeadHerb'' = rnd (load0 ! LiveHerb - moved)
            \<and> nativeValue t' ''vSurfaceFuelLoadDead'' = rnd (fst acc + moved)
            \<and> nativeValue t' ''vSurfaceFuelLoadLive'' = rnd (snd acc - moved)
         else nativeValue t' ''vSurfaceFuelLoadDeadHerb'' = load0 ! DeadHerb
            \<and> nativeValue t' ''vSurfaceFuelLoadUndeadHerb'' = load0 ! LiveHerb
            \<and> nativeValue t' ''vSurfaceFuelLoadDead'' = fst acc
            \<and> nativeValue t' ''vSurfaceFuelLoadLive'' = snd acc)
     \<and> ((\<forall>x. rnd x = x)
          \<longrightarrow> nativeValue t' ''vSurfaceFuelBedDeadFraction''
                + nativeValue t' ''vSurfaceFuelBedLiveFraction'' = 1
            \<and> nativeValue t' ''vSurfaceFuelLoadDead'' + nativeValue t' ''vSurfaceFuelLoadLive''
                = (\<Sum>p<MaxParts. nativeValue t (vSurfaceFuelLoad p)))
     \<and> (rnd = roundToDouble
          \<longrightarrow> \<bar>nativeValue t' ''vSurfaceFuelBedDeadFraction''
                 + nativeValue t' ''vSurfaceFuelBedLiveFraction'' - 1\<bar>
               \<le> twoTo (ulp_exponent (1 - nativeValue t' ''vSurfaceFuelBedDeadFraction'')) / 2)"
proof -
  obtain load dl ll where bl: "bedLoads_rounded rnd t = (load, dl, ll)"
    by (cases "bedLoads_rounded rnd t") auto
  note df = deadLoadFraction_rounded_total [OF assms(1), of rnd dl ll]
  from FuelBedIntermediates_rounded_stores [OF bl df, of FBL] obtain t' where
    t': "FuelBedIntermediates_rounded rnd FBL SMIDGEN t = Some t'"
      "nativeValue t' ''vSurfaceFuelLoadDeadHerb'' = load ! DeadHerb"
      "nativeValue t' ''vSurfaceFuelLoadUndeadHerb'' = load ! LiveHerb"
      "nativeValue t' ''vSurfaceFuelLoadDead'' = dl"
      "nativeValue t' ''vSurfaceFuelLoadLive'' = ll"
      "nativeValue t' ''vSurfaceFuelBedLiveFraction''
         = rnd (1 - nativeValue t' ''vSurfaceFuelBedDeadFraction'')"
    by auto
  have vals: "load ! DeadHerb = (if applied then moved else load0 ! DeadHerb)"
    "load ! LiveHerb = (if applied then rnd (load0 ! LiveHerb - moved) else load0 ! LiveHerb)"
    "dl = (if applied then rnd (fst acc + moved) else fst acc)"
    "ll = (if applied then rnd (snd acc - moved) else snd acc)"
    using bl unfolding bedLoads_rounded_eq load0_def acc_def applied_def moved_def
    by (auto simp: Let_def LiveHerb_def DeadHerb_def split: if_splits)
  have exact: "dl + ll = (\<Sum>p<MaxParts. nativeValue t (vSurfaceFuelLoad p))"
    if ex: "\<forall>x. rnd x = x"
  proof -
    have r: "rnd = (\<lambda>x. x)" using ex by (simp add: fun_eq_iff)
    have "dl + ll = fst acc + snd acc"
      using vals(3,4) ex by (simp split: if_splits)
    also have "\<dots> = sum_list (map (\<lambda>p. load0 ! p) [0..<MaxParts])"
      using accumulateLoads_total [of "particleLife t" load0 "[0..<MaxParts]" 0 0]
      unfolding acc_def r accumulateLoads_rounded_exact by simp
    also have "\<dots> = sum_list (map (\<lambda>p. nativeValue t (vSurfaceFuelLoad p)) [0..<MaxParts])"
      unfolding load0_def by (rule arg_cong [where f = sum_list]) (simp add: particleValues_def)
    also have "\<dots> = (\<Sum>p<MaxParts. nativeValue t (vSurfaceFuelLoad p))"
      by (simp add: sum_list_sum_nth atLeast0LessThan)
    finally show ?thesis .
  qed
  have near: "\<bar>nativeValue t' ''vSurfaceFuelBedDeadFraction''
                 + nativeValue t' ''vSurfaceFuelBedLiveFraction'' - 1\<bar>
               \<le> twoTo (ulp_exponent (1 - nativeValue t' ''vSurfaceFuelBedDeadFraction'')) / 2"
    if "rnd = roundToDouble"
    using roundToDouble_nearest [of "1 - nativeValue t' ''vSurfaceFuelBedDeadFraction''"]
    unfolding t'(6) that by (simp add: algebra_simps)
  show ?thesis
    apply (rule exI [of _ t'])
    using t' vals exact near by simp
qed


lemma FuelBedIntermediates_rounded_stored:
  assumes bl: "bedLoads_rounded rnd t = (load, dl, ll)"
    and df: "deadLoadFraction_rounded rnd SMIDGEN dl ll = Some d"
  shows "storedValue (FuelBedIntermediates_rounded rnd FBL SMIDGEN t) ''vSurfaceFuelLoadDeadHerb''
           = Some (load ! DeadHerb)"
    "storedValue (FuelBedIntermediates_rounded rnd FBL SMIDGEN t) ''vSurfaceFuelLoadUndeadHerb''
           = Some (load ! LiveHerb)"
    "storedValue (FuelBedIntermediates_rounded rnd FBL SMIDGEN t) ''vSurfaceFuelLoadDead'' = Some dl"
    "storedValue (FuelBedIntermediates_rounded rnd FBL SMIDGEN t) ''vSurfaceFuelLoadLive'' = Some ll"
    "storedValue (FuelBedIntermediates_rounded rnd FBL SMIDGEN t) ''vSurfaceFuelBedDeadFraction'' = Some d"
    "storedValue (FuelBedIntermediates_rounded rnd FBL SMIDGEN t) ''vSurfaceFuelBedLiveFraction''
           = Some (rnd (1 - d))"
  by (simp_all add: storedValue_def FuelBedIntermediates_rounded_def bl df Let_def split_def)

lemma stockedHerbTree_loads:
  "particleValues stockedHerbTree vSurfaceFuelLoad = [1 / 4, 0, 0, 1, 17 / 2, 1 / 4, 0, 0]"
  by (simp add: particleValues_def upt_MaxParts vSurfaceFuelLoad_def stockedHerbTree_def
      clearTree_def clearVar_def nativeValue_def update_def updateItem_def)

lemma stockedHerbTree_life: "particleLife stockedHerbTree = [0, 0, 0, 1, 2, 0, 0, 0]"
  by (simp add: particleLife_def upt_MaxParts vSurfaceFuelLife_def stockedHerbTree_def
      clearTree_def clearVar_def activeItemDataIndex_def update_def updateItem_def)

lemma stockedHerbTree_transfer: "transferFraction stockedHerbTree = 1 / 2"
  by (simp add: transferFraction_def stockedHerbTree_def)

lemma stockedHerbTree_bedLoads:
  "bedLoads_rounded roundToDouble stockedHerbTree
     = ([1 / 4, 0, 0, 1 / 2, 17 / 2, 1 / 2, 0, 0], 1, 9)"
  unfolding bedLoads_rounded_eq stockedHerbTree_loads stockedHerbTree_life
    stockedHerbTree_transfer upt_MaxParts
  by (simp add: LiveHerb_def DeadHerb_def Let_def roundToDouble_evals)

lemma stockedHerbTree_fraction:
  "deadLoadFraction_rounded roundToDouble (roundToDouble (1 / 10000000)) 1 9
     = Some (3602879701896397 / 36028797018963968)"
  by (simp add: deadLoadFraction_rounded_def divide_checked_def roundToDouble_evals)

lemma decimalHerbTree_loads:
  "particleValues decimalHerbTree vSurfaceFuelLoad
     = [1261007895663739 / 36028797018963968, 0, 0, 1607785066971267 / 4503599627370496,
        0, 0, 0, 0]"
  by (simp add: particleValues_def upt_MaxParts vSurfaceFuelLoad_def decimalHerbTree_def
      clearTree_def clearVar_def nativeValue_def update_def updateItem_def roundToDouble_evals)

lemma decimalHerbTree_life: "particleLife decimalHerbTree = [0, 0, 0, 1, 0, 0, 0, 0]"
  by (simp add: particleLife_def upt_MaxParts vSurfaceFuelLife_def decimalHerbTree_def
      clearTree_def clearVar_def activeItemDataIndex_def update_def updateItem_def)

lemma decimalHerbTree_transfer:
  "transferFraction decimalHerbTree = 1823957849085051 / 2251799813685248"
  by (simp add: transferFraction_def decimalHerbTree_def roundToDouble_evals)

lemma decimalHerbTree_bedLoads:
  "bedLoads_rounded roundToDouble decimalHerbTree
     = ([1261007895663739 / 36028797018963968, 0, 0, 1221916650898163 / 18014398509481984,
         0, 5209223616986905 / 18014398509481984, 0, 0],
        2919863782409387 / 9007199254740992, 1221916650898163 / 18014398509481984)"
  unfolding bedLoads_rounded_eq decimalHerbTree_loads decimalHerbTree_life
    decimalHerbTree_transfer upt_MaxParts
  by (simp add: LiveHerb_def DeadHerb_def Let_def roundToDouble_evals)

lemma decimalHerbTree_fraction:
  "deadLoadFraction_rounded roundToDouble (roundToDouble (1 / 10000000))
     (2919863782409387 / 9007199254740992) (1221916650898163 / 18014398509481984)
     = Some (7448632097983131 / 9007199254740992)"
  by (simp add: deadLoadFraction_rounded_def divide_checked_def roundToDouble_evals)

text \<open>
  The amended statement on two beds: in exact arithmetic on the bed whose dead herbaceous
  slot is stocked, and in double arithmetic on the bed with one live herbaceous particle.
\<close>

lemma stockedHerbTree_sum:
  "(\<Sum>p<MaxParts. nativeValue stockedHerbTree (vSurfaceFuelLoad p)) = 10"
  by (simp add: MaxParts_def lessThan_nat_numeral lessThan_Suc vSurfaceFuelLoad_def
      stockedHerbTree_def clearTree_def clearVar_def nativeValue_def update_def updateItem_def)

theorem FuelBedIntermediates_rounded_totals_witness:
  "(\<exists>t'. FuelBedIntermediates_rounded (\<lambda>x. x) zeroFormula (1 / 10000000) stockedHerbTree = Some t'
      \<and> nativeValue t' ''vSurfaceFuelLoadDeadHerb'' = 1 / 2
      \<and> nativeValue t' ''vSurfaceFuelLoadUndeadHerb'' = 1 / 2
      \<and> nativeValue t' ''vSurfaceFuelLoadDead'' = 1
      \<and> nativeValue t' ''vSurfaceFuelLoadLive'' = 9
      \<and> nativeValue t' ''vSurfaceFuelBedDeadFraction''
          + nativeValue t' ''vSurfaceFuelBedLiveFraction'' = 1)
   \<and> (\<exists>t'. FuelBedIntermediates_rounded roundToDouble zeroFormula (1 / 10000000) herbTree = Some t'
      \<and> nativeValue t' ''vSurfaceFuelLoadDeadHerb'' = 1
      \<and> nativeValue t' ''vSurfaceFuelLoadUndeadHerb'' = 1
      \<and> nativeValue t' ''vSurfaceFuelLoadDead'' = 1
      \<and> nativeValue t' ''vSurfaceFuelLoadLive'' = 1
      \<and> nativeValue t' ''vSurfaceFuelBedLiveFraction''
          = roundToDouble (1 - nativeValue t' ''vSurfaceFuelBedDeadFraction''))"
proof -
  have p: "(0::real) < 1 / 10000000" by simp
  have h: "transferFraction herbTree = 1 / 2"
    by (simp add: transferFraction_def herbTree_transfer)
  from FuelBedIntermediates_rounded_totals [OF p, where rnd = "\<lambda>x. x" and t = stockedHerbTree and FBL = zeroFormula]
  have a: "\<exists>t'. FuelBedIntermediates_rounded (\<lambda>x. x) zeroFormula (1 / 10000000) stockedHerbTree = Some t'
      \<and> nativeValue t' ''vSurfaceFuelLoadDeadHerb'' = 1 / 2
      \<and> nativeValue t' ''vSurfaceFuelLoadUndeadHerb'' = 1 / 2
      \<and> nativeValue t' ''vSurfaceFuelLoadDead'' = 1
      \<and> nativeValue t' ''vSurfaceFuelLoadLive'' = 9
      \<and> nativeValue t' ''vSurfaceFuelBedDeadFraction''
          + nativeValue t' ''vSurfaceFuelBedLiveFraction'' = 1"
    unfolding stockedHerbTree_loads stockedHerbTree_life stockedHerbTree_transfer upt_MaxParts
      stockedHerbTree_sum
    by (auto simp add: LiveHerb_def DeadHerb_def)
  from FuelBedIntermediates_rounded_totals [OF p, where rnd = roundToDouble and t = herbTree and FBL = zeroFormula]
  have b: "\<exists>t'. FuelBedIntermediates_rounded roundToDouble zeroFormula (1 / 10000000) herbTree = Some t'
      \<and> nativeValue t' ''vSurfaceFuelLoadDeadHerb'' = 1
      \<and> nativeValue t' ''vSurfaceFuelLoadUndeadHerb'' = 1
      \<and> nativeValue t' ''vSurfaceFuelLoadDead'' = 1
      \<and> nativeValue t' ''vSurfaceFuelLoadLive'' = 1
      \<and> nativeValue t' ''vSurfaceFuelBedLiveFraction''
          = roundToDouble (1 - nativeValue t' ''vSurfaceFuelBedDeadFraction'')"
    unfolding herbTree_loads herbTree_life h upt_MaxParts
    by (auto simp add: LiveHerb_def DeadHerb_def roundToDouble_evals)
  from a b show ?thesis by blast
qed


text \<open>
  In double arithmetic the claim fails in each of its parts. On the stocked bed the stored
  dead fraction is the double nearest to 0.1 and the stored live fraction the double
  nearest to 0.9, which sum to \<open>1 + 1 / 2 ^ 55\<close>; and the dead herbaceous slot, which held
  one quarter, holds one half after one half was taken from the live herbaceous slot:
  what it held is overwritten, not added to. On the bed with the loads 0.035 and 0.357
  and the fraction 0.81 the stored dead and live totals sum to \<open>1 / 2 ^ 55\<close> less than the
  two loads read at entry.
\<close>

theorem FuelBedIntermediates_totals_counterexample:
  "storedValue (FuelBedIntermediates_rounded roundToDouble zeroFormula
      (roundToDouble (1 / 10000000)) stockedHerbTree) ''vSurfaceFuelBedDeadFraction''
     = Some (3602879701896397 / 2 ^ 55)
   \<and> storedValue (FuelBedIntermediates_rounded roundToDouble zeroFormula
      (roundToDouble (1 / 10000000)) stockedHerbTree) ''vSurfaceFuelBedLiveFraction''
     = Some (8106479329266893 / 2 ^ 53)
   \<and> 3602879701896397 / 2 ^ 55 + 8106479329266893 / 2 ^ 53 = (1 :: real) + 1 / 2 ^ 55
   \<and> nativeValue stockedHerbTree ''vSurfaceFuelLoad3'' = 1
   \<and> nativeValue stockedHerbTree ''vSurfaceFuelLoad5'' = 1 / 4
   \<and> storedValue (FuelBedIntermediates_rounded roundToDouble zeroFormula
      (roundToDouble (1 / 10000000)) stockedHerbTree) ''vSurfaceFuelLoadUndeadHerb'' = Some (1 / 2)
   \<and> storedValue (FuelBedIntermediates_rounded roundToDouble zeroFormula
      (roundToDouble (1 / 10000000)) stockedHerbTree) ''vSurfaceFuelLoadDeadHerb'' = Some (1 / 2)
   \<and> totalParticleLoad decimalHerbTree = 14123288431433875 / 2 ^ 55
   \<and> storedValue (FuelBedIntermediates_rounded roundToDouble zeroFormula
      (roundToDouble (1 / 10000000)) decimalHerbTree) ''vSurfaceFuelLoadDead''
     = Some (2919863782409387 / 2 ^ 53)
   \<and> storedValue (FuelBedIntermediates_rounded roundToDouble zeroFormula
      (roundToDouble (1 / 10000000)) decimalHerbTree) ''vSurfaceFuelLoadLive''
     = Some (1221916650898163 / 2 ^ 54)
   \<and> 2919863782409387 / 2 ^ 53 + 1221916650898163 / 2 ^ 54
       = (14123288431433875 / 2 ^ 55 - 1 / 2 ^ 55 :: real)"
  unfolding FuelBedIntermediates_rounded_stored [OF stockedHerbTree_bedLoads stockedHerbTree_fraction]
    FuelBedIntermediates_rounded_stored [OF decimalHerbTree_bedLoads decimalHerbTree_fraction]
  by (simp add: roundToDouble_evals LiveHerb_def DeadHerb_def totalParticleLoad_def decimalHerbTree_loads
      stockedHerbTree_def)

section \<open>Properties of FuelBedWeighted\<close>

lemma FuelBedWeighted_eq:
  "FuelBedWeighted n F prop fm0 fm1 t =
     (let cov0 = nativeValue t ''vSurfaceFuelBedCoverage1'';
          p0 = modelPass n prop fm0 t;
          p1 = modelPass n prop fm1 (fst p0);
          ws = weightedSpread F prop (fst p1) [cov0, 1 - cov0]
                 [rosh (snd p0), rosh (snd p1)] [rosv (snd p0), rosv (snd p1)]
      in blendOutputs [cov0, 1 - cov0] [fm0, fm1] [snd p0, snd p1]
           (update ''vSurfaceFireSpreadAtVector'' (snd ws)
             (update ''vSurfaceFireSpreadAtHead'' (fst ws) (fst p1))))"
  by (simp add: FuelBedWeighted_def Let_def split_def)

lemma blendOutputs_mixed:
  fixes t :: EqTree and c :: "Captured list" and fm :: "FuelModel list"
  assumes "\<not> (cov0 > 0.999 \<or> cov1 > 0.999)"
  defines "t' \<equiv> blendOutputs [cov0, cov1] fm c t"
  shows "nativeValue t' ''vSurfaceFireReactionInt'' = max (rxi (c ! 0)) (rxi (c ! 1))"
    "nativeValue t' ''vSurfaceFireMaxDirFromUpslope'' = mxd (c ! 0)"
    "nativeValue t' ''vWindAdjFactor'' = waf (c ! 0)"
    "nativeValue t' ''vWindSpeedAtMidflame'' = wmf (c ! 0)"
    "nativeValue t' ''vSurfaceFireEffWindAtHead'' = ewsh (c ! 0)"
    "nativeValue t' ''vSurfaceFireEffWindAtVector'' = ewsv (c ! 0)"
    "nativeValue t' ''vSurfaceFireWindSpeedLimit'' = min (wsl (c ! 0)) (wsl (c ! 1))"
    "activeItemDataIndex t' ''vSurfaceFireWindSpeedFlag''
       = (if wsf (c ! 0) \<noteq> 0 \<or> wsf (c ! 1) \<noteq> 0 then 1 else 0)"
    "nativeValue t' ''vSurfaceFireLengthToWidth'' = flw (c ! 0)"
    "nativeValue t' ''vSurfaceFireHeatPerUnitArea'' = max (hua (c ! 0)) (hua (c ! 1))"
    "nativeValue t' ''vSurfaceFireLineIntAtHead'' = max (flih (c ! 0)) (flih (c ! 1))"
    "nativeValue t' ''vSurfaceFireLineIntAtVector'' = max (fliv (c ! 0)) (fliv (c ! 1))"
    "nativeValue t' ''vSurfaceFireFlameLengAtHead'' = max (flh (c ! 0)) (flh (c ! 1))"
    "nativeValue t' ''vSurfaceFireFlameLengAtVector'' = max (flv (c ! 0)) (flv (c ! 1))"
    "nativeValue t' ''vSurfaceFuelBedDepth'' = max (m_depth (fm ! 0)) (m_depth (fm ! 1))"
    "nativeValue t' ''vSurfaceFireSpreadAtHead'' = nativeValue t ''vSurfaceFireSpreadAtHead''"
    "nativeValue t' ''vSurfaceFireSpreadAtVector'' = nativeValue t ''vSurfaceFireSpreadAtVector''"
  using assms(1) unfolding t'_def blendOutputs_def
  by (simp_all add: Let_def max_def min_def)

lemma wsf_modelPass: "wsf (snd (modelPass n prop fm t)) = 0 \<or> wsf (snd (modelPass n prop fm t)) = 1"
  by (simp add: modelPass_def Let_def)

text \<open>
  C2. When the primary coverage lies between 0.001 and 0.999, the blended reaction
  intensity, heat per unit area, fireline intensities and flame lengths are the maxima of
  the two captured values, the wind speed limit is the minimum, the wind limit flag is set
  when either model's flag is set, the fuel bed depth is the larger depth, and the
  direction of maximum spread, wind adjustment factor, midflame wind speed, effective wind
  speeds and length-to-width ratio are those captured for the first model.
\<close>

theorem FuelBedWeighted_mixed:
  fixes t :: EqTree and n :: Nodes and pd :: PropertyDict and fm0 fm1 :: FuelModel
    and F :: FBL_ExpectedSpreadRate
  defines "cov0 \<equiv> nativeValue t ''vSurfaceFuelBedCoverage1''"
    and "p0 \<equiv> modelPass n pd fm0 t"
  defines "p1 \<equiv> modelPass n pd fm1 (fst p0)"
    and "t' \<equiv> FuelBedWeighted n F pd fm0 fm1 t"
  defines "c0 \<equiv> snd p0" and "c1 \<equiv> snd p1"
  assumes mix: "0.001 \<le> cov0" "cov0 \<le> 0.999"
  shows "nativeValue t' ''vSurfaceFireReactionInt'' = max (rxi c0) (rxi c1)
       \<and> nativeValue t' ''vSurfaceFireMaxDirFromUpslope'' = mxd c0
       \<and> nativeValue t' ''vWindAdjFactor'' = waf c0
       \<and> nativeValue t' ''vWindSpeedAtMidflame'' = wmf c0
       \<and> nativeValue t' ''vSurfaceFireEffWindAtHead'' = ewsh c0
       \<and> nativeValue t' ''vSurfaceFireEffWindAtVector'' = ewsv c0
       \<and> nativeValue t' ''vSurfaceFireLengthToWidth'' = flw c0
       \<and> nativeValue t' ''vSurfaceFireWindSpeedLimit'' = min (wsl c0) (wsl c1)
       \<and> activeItemDataIndex t' ''vSurfaceFireWindSpeedFlag''
           = (if wsf c0 \<noteq> 0 \<or> wsf c1 \<noteq> 0 then 1 else 0)
       \<and> nativeValue t' ''vSurfaceFireHeatPerUnitArea'' = max (hua c0) (hua c1)
       \<and> nativeValue t' ''vSurfaceFireLineIntAtHead'' = max (flih c0) (flih c1)
       \<and> nativeValue t' ''vSurfaceFireLineIntAtVector'' = max (fliv c0) (fliv c1)
       \<and> nativeValue t' ''vSurfaceFireFlameLengAtHead'' = max (flh c0) (flh c1)
       \<and> nativeValue t' ''vSurfaceFireFlameLengAtVector'' = max (flv c0) (flv c1)
       \<and> nativeValue t' ''vSurfaceFuelBedDepth'' = max (m_depth fm0) (m_depth fm1)"
proof -
  define ws where "ws = weightedSpread F pd (fst p1) [cov0, 1 - cov0]
                 [rosh (snd p0), rosh (snd p1)] [rosv (snd p0), rosv (snd p1)]"
  let ?tb = "update ''vSurfaceFireSpreadAtVector'' (snd ws)
               (update ''vSurfaceFireSpreadAtHead'' (fst ws) (fst p1))"
  have eq: "t' = blendOutputs [cov0, 1 - cov0] [fm0, fm1] [snd p0, snd p1] ?tb"
    unfolding t'_def FuelBedWeighted_eq cov0_def p0_def p1_def ws_def by (simp add: Let_def)
  have nd: "\<not> (cov0 > 0.999 \<or> 1 - cov0 > 0.999)"
    using mix by simp
  note b = blendOutputs_mixed [OF nd, of "[fm0, fm1]" "[snd p0, snd p1]" ?tb,
      folded eq, simplified, folded c0_def c1_def]
  show ?thesis
    by (intro conjI) (simp_all add: b)
qed


lemma blendOutputs_spread:
  "nativeValue (blendOutputs cov fm c t) ''vSurfaceFireSpreadAtHead''
     = nativeValue t ''vSurfaceFireSpreadAtHead''"
  "nativeValue (blendOutputs cov fm c t) ''vSurfaceFireSpreadAtVector''
     = nativeValue t ''vSurfaceFireSpreadAtVector''"
  by (simp_all add: blendOutputs_def Let_def)

text \<open>
  C3. The choices of the fuel option group exclude one another, so when the harmonic
  mean is the selected choice the area weighted property is false. The blended head
  spread rate is then 1 / (cov0 / rosh0 + cov1 / rosh1) when both captured head rates
  exceed 0.000001 and 0 otherwise; for head rates 0 and 5 with coverages one half each it
  is 0. (\<open>harmonic_denominator\<close> below: for a coverage between 0 and 1 the denominator
  of the quotient is positive.)
\<close>

theorem FuelBedWeighted_harmonic:
  fixes t :: EqTree and n :: Nodes and pd :: PropertyDict and fm0 fm1 :: FuelModel
    and F :: FBL_ExpectedSpreadRate
  defines "cov0 \<equiv> nativeValue t ''vSurfaceFuelBedCoverage1''"
    and "p0 \<equiv> modelPass n pd fm0 t"
  defines "p1 \<equiv> modelPass n pd fm1 (fst p0)"
    and "t' \<equiv> FuelBedWeighted n F pd fm0 fm1 t"
  defines "rosh0 \<equiv> rosh (snd p0)" and "rosh1 \<equiv> rosh (snd p1)"
  assumes sel: "\<not> boolean pd ''surfaceConfFuelAreaWeighted''"
    "boolean pd ''surfaceConfFuelHarmonicMean''"
  shows "nativeValue t' ''vSurfaceFireSpreadAtHead''
           = (if rosh0 > 0.000001 \<and> rosh1 > 0.000001
              then 1 / (cov0 / rosh0 + (1 - cov0) / rosh1) else 0)
       \<and> (rosh0 = 0 \<and> rosh1 = 5 \<and> cov0 = 0.5
            \<longrightarrow> nativeValue t' ''vSurfaceFireSpreadAtHead'' = 0)"
proof -
  have "nativeValue t' ''vSurfaceFireSpreadAtHead''
          = fst (weightedSpread F pd (fst p1) [cov0, 1 - cov0]
                 [rosh (snd p0), rosh (snd p1)] [rosv (snd p0), rosv (snd p1)])"
    unfolding t'_def FuelBedWeighted_eq cov0_def p0_def p1_def
    by (simp add: Let_def blendOutputs_spread)
  also have "\<dots> = (if rosh0 > 0.000001 \<and> rosh1 > 0.000001
              then 1 / (cov0 / rosh0 + (1 - cov0) / rosh1) else 0)"
    using sel by (simp add: weightedSpread_def rosh0_def rosh1_def)
  finally show ?thesis by simp
qed

lemma harmonic_denominator:
  assumes "0 \<le> cov0" "cov0 \<le> 1" "rosh0 > 0.000001" "rosh1 > 0.000001"
  shows "(0::real) < cov0 / rosh0 + (1 - cov0) / rosh1"
proof (cases "cov0 = 0")
  case True
  then show ?thesis using assms by simp
next
  case False
  then have "0 < cov0 / rosh0" using assms by simp
  moreover have "0 \<le> (1 - cov0) / rosh1" using assms by simp
  ultimately show ?thesis by linarith
qed

lemma exampleNodes_sel:
  "FuelBedParms exampleNodes = (\<lambda>t. t)"
  "FuelLoadTransferFraction exampleNodes = (\<lambda>t. t)"
  "FuelBedIntermediatesNode exampleNodes = (\<lambda>t. t)"
  "FireResidenceTime exampleNodes = (\<lambda>t. t)"
  "FuelMoisLifeClass exampleNodes = (\<lambda>t. t)"
  "FuelMoisScenarioModel exampleNodes = (\<lambda>t. t)"
  "FuelMoisTimeLag exampleNodes = (\<lambda>t. t)"
  "FuelBedHeatSink exampleNodes = (\<lambda>t. t)"
  "FirePropagatingFlux exampleNodes = (\<lambda>t. t)"
  "FireReactionInt exampleNodes
     = (\<lambda>t. update ''vSurfaceFireReactionInt'' (nativeValue t ''vSurfaceFuelLoadDead1'') t)"
  "FireNoWindRate exampleNodes = (\<lambda>t. t)"
  "WindAdjFactor exampleNodes = (\<lambda>t. t)"
  "WindSpeedAt20Ft exampleNodes = (\<lambda>t. t)"
  "WindSpeedAtMidflame exampleNodes = (\<lambda>t. t)"
  "FireSpreadAtHead exampleNodes
     = (\<lambda>t. update ''vSurfaceFireSpreadAtHead'' (nativeValue t ''vSurfaceFuelBedDepth'') t)"
  "FireLineIntAtHead exampleNodes = (\<lambda>t. t)"
  "FireFlameLengAtHead exampleNodes = (\<lambda>t. t)"
  "FireLengthToWidth exampleNodes = (\<lambda>t. t)"
  "FireEccentricity exampleNodes = (\<lambda>t. t)"
  "FireVectorBeta exampleNodes = (\<lambda>t. t)"
  "FireSpreadAtBeta exampleNodes = (\<lambda>t. t)"
  "FireLineIntAtVector exampleNodes = (\<lambda>t. t)"
  "FireFlameLengAtVector exampleNodes = (\<lambda>t. t)"
  "FireEffWindAtVector exampleNodes = (\<lambda>t. t)"
  "FireHeatPerUnitArea exampleNodes = (\<lambda>t. t)"
  by (simp_all add: exampleNodes_def)

lemma exampleNodes_captured:
  "rxi (snd (modelPass exampleNodes pd fm t)) = m_load1 fm"
  "rosh (snd (modelPass exampleNodes pd fm t)) = m_depth fm"
  unfolding modelPass_def Let_def
  apply (simp_all only: snd_conv Captured.select_convs)
  apply (simp_all add: exampleNodes_sel)
  done

lemma coverageTree_cov [simp]:
  "nativeValue (coverageTree c) ''vSurfaceFuelBedCoverage1'' = c"
  by (simp add: coverageTree_def)

theorem FuelBedWeighted_mixed_witness:
  "nativeValue (FuelBedWeighted exampleNodes noSampler harmonicProps
      (exampleModel 2 3) (exampleModel 7 9) (coverageTree 0.5)) ''vSurfaceFireReactionInt'' = 9
   \<and> nativeValue (FuelBedWeighted exampleNodes noSampler harmonicProps
      (exampleModel 2 3) (exampleModel 7 9) (coverageTree 0.5)) ''vSurfaceFuelBedDepth'' = 7"
  using FuelBedWeighted_mixed [where t = "coverageTree 0.5" and n = exampleNodes
      and pd = harmonicProps and ?fm0.0 = "exampleModel 2 3" and ?fm1.0 = "exampleModel 7 9"
      and F = noSampler]
  by (simp add: exampleNodes_captured exampleModel_def)

theorem FuelBedWeighted_harmonic_witness:
  "nativeValue (FuelBedWeighted exampleNodes noSampler harmonicProps
      (exampleModel 0 3) (exampleModel 5 9) (coverageTree 0.5)) ''vSurfaceFireSpreadAtHead'' = 0
   \<and> nativeValue (FuelBedWeighted exampleNodes noSampler harmonicProps
      (exampleModel 4 3) (exampleModel 4 9) (coverageTree 0.5)) ''vSurfaceFireSpreadAtHead'' = 4"
  using FuelBedWeighted_harmonic [where t = "coverageTree 0.5" and n = exampleNodes
      and pd = harmonicProps and ?fm0.0 = "exampleModel 0 3" and ?fm1.0 = "exampleModel 5 9"
      and F = noSampler]
    FuelBedWeighted_harmonic [where t = "coverageTree 0.5" and n = exampleNodes
      and pd = harmonicProps and ?fm0.0 = "exampleModel 4 3" and ?fm1.0 = "exampleModel 4 9"
      and F = noSampler]
  by (simp add: exampleNodes_captured exampleModel_def harmonicProps_def)


text \<open>
  The rounded node: with the identity for the rounding it is the node in exact
  arithmetic; its closed form; and what the assignments under "Pat's rules" store.
\<close>

lemma weightedSpread_rounded_exact: "weightedSpread_rounded (\<lambda>x. x) = weightedSpread"
  by (simp add: fun_eq_iff weightedSpread_rounded_def weightedSpread_def)

lemma blendOutputs_rounded_exact: "blendOutputs_rounded (\<lambda>x. x) = blendOutputs"
  by (simp add: fun_eq_iff blendOutputs_rounded_def blendOutputs_def)

lemma FuelBedWeighted_rounded_exact: "FuelBedWeighted_rounded (\<lambda>x. x) = FuelBedWeighted"
  by (simp add: fun_eq_iff FuelBedWeighted_rounded_def FuelBedWeighted_def
      weightedSpread_rounded_exact blendOutputs_rounded_exact)

lemma FuelBedWeighted_rounded_eq:
  "FuelBedWeighted_rounded rnd n F prop fm0 fm1 t =
     (let cov0 = nativeValue t ''vSurfaceFuelBedCoverage1'';
          cov1 = rnd (1 - cov0);
          p0 = modelPass n prop fm0 t;
          p1 = modelPass n prop fm1 (fst p0);
          ws = weightedSpread_rounded rnd F prop (fst p1) [cov0, cov1]
                 [rosh (snd p0), rosh (snd p1)] [rosv (snd p0), rosv (snd p1)]
      in blendOutputs_rounded rnd [cov0, cov1] [fm0, fm1] [snd p0, snd p1]
           (update ''vSurfaceFireSpreadAtVector'' (snd ws)
             (update ''vSurfaceFireSpreadAtHead'' (fst ws) (fst p1))))"
  by (simp add: FuelBedWeighted_rounded_def Let_def split_def)

lemma blendOutputs_rounded_dominant:
  fixes t :: EqTree and c :: "Captured list" and fm :: "FuelModel list"
  assumes "cov0 > rnd 0.999 \<or> cov1 > rnd 0.999"
  defines "i \<equiv> (if cov0 > rnd 0.999 then 0 else 1 :: nat)"
    and "t' \<equiv> blendOutputs_rounded rnd [cov0, cov1] fm c t"
  shows "nativeValue t' ''vSurfaceFireReactionInt'' = rxi (c ! i)"
    "nativeValue t' ''vSurfaceFireMaxDirFromUpslope'' = mxd (c ! i)"
    "nativeValue t' ''vWindAdjFactor'' = waf (c ! i)"
    "nativeValue t' ''vWindSpeedAtMidflame'' = wmf (c ! i)"
    "nativeValue t' ''vSurfaceFireEffWindAtHead'' = ewsh (c ! i)"
    "nativeValue t' ''vSurfaceFireEffWindAtVector'' = ewsv (c ! i)"
    "nativeValue t' ''vSurfaceFireWindSpeedLimit'' = wsl (c ! i)"
    "activeItemDataIndex t' ''vSurfaceFireWindSpeedFlag'' = wsf (c ! i)"
    "nativeValue t' ''vSurfaceFireLengthToWidth'' = flw (c ! i)"
    "nativeValue t' ''vSurfaceFireHeatPerUnitArea'' = hua (c ! i)"
    "nativeValue t' ''vSurfaceFireLineIntAtHead'' = flih (c ! i)"
    "nativeValue t' ''vSurfaceFireLineIntAtVector'' = fliv (c ! i)"
    "nativeValue t' ''vSurfaceFireFlameLengAtHead'' = flh (c ! i)"
    "nativeValue t' ''vSurfaceFireFlameLengAtVector'' = flv (c ! i)"
    "nativeValue t' ''vSurfaceFuelBedDepth'' = m_depth (fm ! i)"
  using assms(1) unfolding i_def t'_def blendOutputs_rounded_def
  by (simp_all add: Let_def)

lemma blendOutputs_rounded_spread:
  "nativeValue (blendOutputs_rounded rnd cov fm c t) ''vSurfaceFireSpreadAtHead''
     = nativeValue t ''vSurfaceFireSpreadAtHead''"
  "nativeValue (blendOutputs_rounded rnd cov fm c t) ''vSurfaceFireSpreadAtVector''
     = nativeValue t ''vSurfaceFireSpreadAtVector''"
  by (simp_all add: blendOutputs_rounded_def Let_def)

lemma blendOutputs_rounded_mixed_rxi:
  assumes "\<not> (cov0 > rnd 0.999 \<or> cov1 > rnd 0.999)"
  shows "nativeValue (blendOutputs_rounded rnd [cov0, cov1] fm c t) ''vSurfaceFireReactionInt''
           = max (rxi (c ! 0)) (rxi (c ! 1))"
  using assms unfolding blendOutputs_rounded_def
  by (simp add: Let_def max_def)

text \<open>
  C1 (as amended). The program compares with the double nearest to 0.999 the primary
  coverage \<open>cov0\<close> and the second coverage \<open>cov1\<close>, which it computes as the rounded
  difference of 1 and \<open>cov0\<close>. For every rounding: when one of the two exceeds the
  threshold, every blended output other than the two spread rates is the value captured
  in the pass of that model (the first if \<open>cov0\<close> exceeds it, else the second; the wind
  limit flag being the item stored for that model, the fuel bed depth that model's
  depth), whatever the other model and the nodes produce. The head and vector spread
  rates are not copied but computed from both passes by the first selected choice: area
  weighted, the rounded sum of the rounded products of coverage and rate; harmonic mean, 0
  unless both captured head rates exceed the constant 0.000001 and else, wherever no
  denominator is zero, the rounded reciprocal of the rounded sum of the rounded quotients
  of coverage and rate; two-dimensional, the value of the sampler on the two rates, the
  two coverages and the length-to-width ratio left by the second pass; and 0 when no
  choice is selected.
\<close>

theorem FuelBedWeighted_rounded_dominance:
  fixes t :: EqTree and n :: Nodes and pd :: PropertyDict and fm0 fm1 :: FuelModel
    and F :: FBL_ExpectedSpreadRate and rnd :: "real \<Rightarrow> real"
  defines "cov0 \<equiv> nativeValue t ''vSurfaceFuelBedCoverage1''"
  defines "cov1 \<equiv> rnd (1 - cov0)"
    and "p0 \<equiv> modelPass n pd fm0 t"
  defines "p1 \<equiv> modelPass n pd fm1 (fst p0)"
    and "t' \<equiv> FuelBedWeighted_rounded rnd n F pd fm0 fm1 t"
  defines "c \<equiv> (if cov0 > rnd 0.999 then snd p0 else snd p1)"
    and "fmd \<equiv> (if cov0 > rnd 0.999 then fm0 else fm1)"
    and "rosh0 \<equiv> rosh (snd p0)" and "rosh1 \<equiv> rosh (snd p1)"
    and "rosv0 \<equiv> rosv (snd p0)" and "rosv1 \<equiv> rosv (snd p1)"
  defines "sumh \<equiv> rnd (rnd (cov0 / rosh0) + rnd (cov1 / rosh1))"
    and "sumv \<equiv> rnd (rnd (cov0 / rosv0) + rnd (cov1 / rosv1))"
    and "lbRatio \<equiv> nativeValue (fst p1) ''vSurfaceFireLengthToWidth''"
    and "samples \<equiv> integer pd ''surfaceConfFuel2DSamples''"
    and "depth \<equiv> integer pd ''surfaceConfFuel2DDepth''"
    and "laterals \<equiv> integer pd ''surfaceConfFuel2DLaterals''"
  assumes dom: "cov0 > rnd 0.999 \<or> cov1 > rnd 0.999"
  shows "nativeValue t' ''vSurfaceFireReactionInt'' = rxi c
       \<and> nativeValue t' ''vSurfaceFireMaxDirFromUpslope'' = mxd c
       \<and> nativeValue t' ''vWindAdjFactor'' = waf c
       \<and> nativeValue t' ''vWindSpeedAtMidflame'' = wmf c
       \<and> nativeValue t' ''vSurfaceFireEffWindAtHead'' = ewsh c
       \<and> nativeValue t' ''vSurfaceFireEffWindAtVector'' = ewsv c
       \<and> nativeValue t' ''vSurfaceFireWindSpeedLimit'' = wsl c
       \<and> activeItemDataIndex t' ''vSurfaceFireWindSpeedFlag'' = wsf c
       \<and> nativeValue t' ''vSurfaceFireLengthToWidth'' = flw c
       \<and> nativeValue t' ''vSurfaceFireHeatPerUnitArea'' = hua c
       \<and> nativeValue t' ''vSurfaceFireLineIntAtHead'' = flih c
       \<and> nativeValue t' ''vSurfaceFireLineIntAtVector'' = fliv c
       \<and> nativeValue t' ''vSurfaceFireFlameLengAtHead'' = flh c
       \<and> nativeValue t' ''vSurfaceFireFlameLengAtVector'' = flv c
       \<and> nativeValue t' ''vSurfaceFuelBedDepth'' = m_depth fmd
       \<and> (if boolean pd ''surfaceConfFuelAreaWeighted''
          then nativeValue t' ''vSurfaceFireSpreadAtHead''
                 = rnd (rnd (cov0 * rosh0) + rnd (cov1 * rosh1))
             \<and> nativeValue t' ''vSurfaceFireSpreadAtVector''
                 = rnd (rnd (cov0 * rosv0) + rnd (cov1 * rosv1))
          else if boolean pd ''surfaceConfFuelHarmonicMean''
          then (if rosh0 > rnd 0.000001 \<and> rosh1 > rnd 0.000001
                then (rosh0 \<noteq> 0 \<and> rosh1 \<noteq> 0 \<and> sumh \<noteq> 0
                        \<longrightarrow> nativeValue t' ''vSurfaceFireSpreadAtHead'' = rnd (1 / sumh))
                   \<and> (rosv0 \<noteq> 0 \<and> rosv1 \<noteq> 0 \<and> sumv \<noteq> 0
                        \<longrightarrow> nativeValue t' ''vSurfaceFireSpreadAtVector'' = rnd (1 / sumv))
                else nativeValue t' ''vSurfaceFireSpreadAtHead'' = 0
                   \<and> nativeValue t' ''vSurfaceFireSpreadAtVector'' = 0)
          else if boolean pd ''surfaceConfFuel2Dimensional''
          then nativeValue t' ''vSurfaceFireSpreadAtHead''
                 = F [rosh0, rosh1] [cov0, cov1] 2 lbRatio samples depth laterals
             \<and> nativeValue t' ''vSurfaceFireSpreadAtVector''
                 = F [rosv0, rosv1] [cov0, cov1] 2 lbRatio samples depth laterals
          else nativeValue t' ''vSurfaceFireSpreadAtHead'' = 0
             \<and> nativeValue t' ''vSurfaceFireSpreadAtVector'' = 0)"
proof -
  define ws where "ws = weightedSpread_rounded rnd F pd (fst p1) [cov0, cov1]
                 [rosh0, rosh1] [rosv0, rosv1]"
  let ?tb = "update ''vSurfaceFireSpreadAtVector'' (snd ws)
               (update ''vSurfaceFireSpreadAtHead'' (fst ws) (fst p1))"
  have eq: "t' = blendOutputs_rounded rnd [cov0, cov1] [fm0, fm1] [snd p0, snd p1] ?tb"
    unfolding t'_def FuelBedWeighted_rounded_eq cov0_def cov1_def p0_def p1_def ws_def
      rosh0_def rosh1_def rosv0_def rosv1_def
    by (simp add: Let_def)
  have sel: "[snd p0, snd p1] ! (if cov0 > rnd 0.999 then 0 else 1) = c"
    "[fm0, fm1] ! (if cov0 > rnd 0.999 then 0 else 1) = fmd"
    by (simp_all add: c_def fmd_def)
  note b = blendOutputs_rounded_dominant [where rnd = rnd and ?cov0.0 = cov0
      and ?cov1.0 = cov1 and fm = "[fm0, fm1]" and c = "[snd p0, snd p1]" and t = ?tb,
      OF dom, folded eq, unfolded sel]
  have sp: "nativeValue t' ''vSurfaceFireSpreadAtHead'' = fst ws"
    "nativeValue t' ''vSurfaceFireSpreadAtVector'' = snd ws"
    unfolding eq by (simp_all add: blendOutputs_rounded_spread)
  have spread: "(if boolean pd ''surfaceConfFuelAreaWeighted''
          then fst ws = rnd (rnd (cov0 * rosh0) + rnd (cov1 * rosh1))
             \<and> snd ws = rnd (rnd (cov0 * rosv0) + rnd (cov1 * rosv1))
          else if boolean pd ''surfaceConfFuelHarmonicMean''
          then (if rosh0 > rnd 0.000001 \<and> rosh1 > rnd 0.000001
                then fst ws = rnd (1 / sumh) \<and> snd ws = rnd (1 / sumv)
                else fst ws = 0 \<and> snd ws = 0)
          else if boolean pd ''surfaceConfFuel2Dimensional''
          then fst ws = F [rosh0, rosh1] [cov0, cov1] 2 lbRatio samples depth laterals
             \<and> snd ws = F [rosv0, rosv1] [cov0, cov1] 2 lbRatio samples depth laterals
          else fst ws = 0 \<and> snd ws = 0)"
    unfolding ws_def weightedSpread_rounded_def sumh_def sumv_def lbRatio_def samples_def
      depth_def laterals_def
    by (simp add: Let_def)
  show ?thesis
    unfolding sp using spread by (intro conjI) (simp_all add: b)
qed

lemma exampleNodes_vector:
  "rosv (snd (modelPass exampleNodes pd fm t)) = nativeValue t ''vSurfaceFireSpreadAtVector''"
  "nativeValue (fst (modelPass exampleNodes pd fm t)) ''vSurfaceFireSpreadAtVector''
     = nativeValue t ''vSurfaceFireSpreadAtVector''"
  unfolding modelPass_def Let_def
  apply (simp_all only: snd_conv fst_conv Captured.select_convs)
  apply (simp_all add: exampleNodes_sel)
  done

lemma vectorRateTree_values [simp]:
  "nativeValue (vectorRateTree c r) ''vSurfaceFuelBedCoverage1'' = c"
  "nativeValue (vectorRateTree c r) ''vSurfaceFireSpreadAtVector'' = r"
  by (simp_all add: vectorRateTree_def coverageTree_def)

text \<open>
  The amended statement in double arithmetic, with a coverage of 1 for the first model:
  under the area weighted choice, and under the harmonic mean with head rates 2 and 7 and
  vector rates 4 and 4.
\<close>

theorem FuelBedWeighted_rounded_dominance_witness:
  "nativeValue (FuelBedWeighted_rounded roundToDouble exampleNodes noSampler areaWeightedProps
      (exampleModel 2 3) (exampleModel 7 9) (coverageTree 1)) ''vSurfaceFireReactionInt'' = 3
   \<and> nativeValue (FuelBedWeighted_rounded roundToDouble exampleNodes noSampler areaWeightedProps
      (exampleModel 2 3) (exampleModel 7 9) (coverageTree 1)) ''vSurfaceFuelBedDepth'' = 2
   \<and> nativeValue (FuelBedWeighted_rounded roundToDouble exampleNodes noSampler areaWeightedProps
      (exampleModel 2 3) (exampleModel 7 9) (coverageTree 1)) ''vSurfaceFireSpreadAtHead'' = 2
   \<and> nativeValue (FuelBedWeighted_rounded roundToDouble exampleNodes noSampler harmonicProps
      (exampleModel 2 3) (exampleModel 7 9) (vectorRateTree 1 4)) ''vSurfaceFireSpreadAtHead'' = 2
   \<and> nativeValue (FuelBedWeighted_rounded roundToDouble exampleNodes noSampler harmonicProps
      (exampleModel 2 3) (exampleModel 7 9) (vectorRateTree 1 4)) ''vSurfaceFireSpreadAtVector'' = 4"
  using FuelBedWeighted_rounded_dominance [where rnd = roundToDouble and t = "coverageTree 1"
      and n = exampleNodes and pd = areaWeightedProps and ?fm0.0 = "exampleModel 2 3"
      and ?fm1.0 = "exampleModel 7 9" and F = noSampler]
    FuelBedWeighted_rounded_dominance [where rnd = roundToDouble and t = "vectorRateTree 1 4"
      and n = exampleNodes and pd = harmonicProps and ?fm0.0 = "exampleModel 2 3"
      and ?fm1.0 = "exampleModel 7 9" and F = noSampler]
  by (simp add: exampleNodes_captured exampleNodes_vector exampleModel_def
      areaWeightedProps_def propsOf_def harmonicProps_def roundToDouble_evals)

text \<open>
  The claim as it is stated fails in double arithmetic for a primary coverage just below
  0.001: one minus the coverage exceeds 0.999, but the second coverage that the program
  computes is the double nearest to 0.999, which does not exceed the threshold, so the
  rules for two fuels apply and the blended reaction intensity is the larger one, 9, of
  the first model, where the pass of the second model captured 3.
\<close>

theorem FuelBedWeighted_dominance_counterexample:
  "roundToDouble justBelowOneThousandth = justBelowOneThousandth
   \<and> 1 - justBelowOneThousandth > 0.999
   \<and> rxi (snd (modelPass exampleNodes areaWeightedProps (exampleModel 7 3)
         (fst (modelPass exampleNodes areaWeightedProps (exampleModel 2 9)
            (coverageTree justBelowOneThousandth))))) = 3
   \<and> nativeValue (FuelBedWeighted_rounded roundToDouble exampleNodes noSampler
        areaWeightedProps (exampleModel 2 9) (exampleModel 7 3)
        (coverageTree justBelowOneThousandth)) ''vSurfaceFireReactionInt'' = 9"
proof -
  have c: "roundToDouble justBelowOneThousandth = justBelowOneThousandth"
    "1 - justBelowOneThousandth > 0.999"
    "\<not> (justBelowOneThousandth > roundToDouble 0.999
        \<or> roundToDouble (1 - justBelowOneThousandth) > roundToDouble 0.999)"
    by (simp_all add: justBelowOneThousandth_def roundToDouble_evals)
  note m = blendOutputs_rounded_mixed_rxi [where rnd = roundToDouble, OF c(3)]
  have r: "rxi (snd (modelPass exampleNodes areaWeightedProps (exampleModel 7 3)
         (fst (modelPass exampleNodes areaWeightedProps (exampleModel 2 9)
            (coverageTree justBelowOneThousandth))))) = 3"
    by (simp add: exampleNodes_captured exampleModel_def)
  have s: "nativeValue (FuelBedWeighted_rounded roundToDouble exampleNodes noSampler
        areaWeightedProps (exampleModel 2 9) (exampleModel 7 3)
        (coverageTree justBelowOneThousandth)) ''vSurfaceFireReactionInt'' = 9"
    unfolding FuelBedWeighted_rounded_eq Let_def coverageTree_cov m
    by (simp add: exampleNodes_captured exampleModel_def)
  from c(1,2) r s show ?thesis by blast
qed

section \<open>Properties of ContainFF and ContainFFSingle\<close>

lemma containOutcome_cases:
  "containOutcome sim =
     (if m_status sim = Contained then (0, m_finalSize sim)
      else (if m_finalLine sim > 0 then 1 else 2, - 1))"
  by (cases "m_status sim") (simp_all add: containOutcome_def Status_def Let_def)

lemma ContainFF_stores:
  "activeItemDataIndex (ContainFF parseResources runSim fbl pd t) ''vContainStatus''
     = fst (containOutcome (ContainFF_run parseResources runSim pd t))"
  "nativeValue (ContainFF parseResources runSim fbl pd t) ''vContainSize''
     = snd (containOutcome (ContainFF_run parseResources runSim pd t))"
  by (simp_all add: ContainFF_def Let_def split_def)

lemma ContainFFSingle_stores:
  "activeItemDataIndex (ContainFFSingle runSim fbl pd t) ''vContainStatus''
     = fst (containOutcome (ContainFFSingle_run runSim pd t))"
  "nativeValue (ContainFFSingle runSim fbl pd t) ''vContainSize''
     = snd (containOutcome (ContainFFSingle_run runSim pd t))"
  by (simp_all add: ContainFFSingle_def Let_def split_def)

lemma ContainFF_run_any:
  "ContainFF_run parseResources (\<lambda>_ _ _ _ _ _ _ _ _ _. sim) pd t = sim"
  "ContainFFSingle_run (\<lambda>_ _ _ _ _ _ _ _ _ _. sim) pd t = sim"
  by (simp_all add: ContainFF_run_def ContainFFSingle_run_def Let_def)

text \<open>
  C4. For both containment nodes and whatever the simulator returns: when its terminal
  status is Contained the stored status is 0 (Contained) and the stored size is the
  simulator's final size; for each of the seven other statuses the stored size is -1 and
  the stored status is 1 (Withdrawn) when the fireline built is positive and 2 (Escaped)
  otherwise.
\<close>

theorem Contain_status_mapping:
  fixes t :: EqTree and pd :: PropertyDict and runSim :: ContainSimRun and fbl :: FBL_Shape
    and parseResources :: "EqTree \<Rightarrow> bool \<Rightarrow> ContainResource list"
  defines "sim \<equiv> ContainFF_run parseResources runSim pd t"
    and "t' \<equiv> ContainFF parseResources runSim fbl pd t"
    and "sim1 \<equiv> ContainFFSingle_run runSim pd t"
    and "t1 \<equiv> ContainFFSingle runSim fbl pd t"
  shows "(if m_status sim = Contained
          then activeItemDataIndex t' ''vContainStatus'' = 0
               \<and> nativeValue t' ''vContainSize'' = m_finalSize sim
          else nativeValue t' ''vContainSize'' = - 1
               \<and> activeItemDataIndex t' ''vContainStatus''
                   = (if m_finalLine sim > 0 then 1 else 2))
       \<and> (if m_status sim1 = Contained
          then activeItemDataIndex t1 ''vContainStatus'' = 0
               \<and> nativeValue t1 ''vContainSize'' = m_finalSize sim1
          else nativeValue t1 ''vContainSize'' = - 1
               \<and> activeItemDataIndex t1 ''vContainStatus''
                   = (if m_finalLine sim1 > 0 then 1 else 2))"
  unfolding sim_def t'_def sim1_def t1_def
  by (simp add: ContainFF_stores ContainFFSingle_stores containOutcome_cases)

section \<open>Properties of the reconfiguration procedures\<close>

lemma frames_set_active: "f \<in> A \<Longrightarrow> frames A V (set_active f b)"
  by (auto simp: frames_def set_active_def isUserOutput_def)

lemma frames_set_isUserOutput: "v \<in> V \<Longrightarrow> frames A V (set_isUserOutput v b)"
  by (auto simp: frames_def set_isUserOutput_def isUserOutput_def)

lemma frames_other:
  "frames A V (set_isUserInput v b)"
  "frames A V (set_isConstant v b)"
  "frames A V (update v x)"
  "frames A V (updateItem v i)"
  "frames A V (setLabel v l)"
  by (auto simp: frames_def set_isUserInput_def set_isConstant_def update_def updateItem_def
      setLabel_def isUserOutput_def)

lemma frames_run_Nil: "frames A V (run [])"
  by (simp add: frames_def)

lemma frames_run_Cons: "frames A V s \<Longrightarrow> frames A V (run ss) \<Longrightarrow> frames A V (run (s # ss))"
  by (simp add: frames_def)

lemma frames_cond: "frames A V (run a) \<Longrightarrow> frames A V (run b) \<Longrightarrow> frames A V (cond c a b)"
  by (simp add: frames_def cond_def)

lemma frames_condT: "frames A V (run a) \<Longrightarrow> frames A V (run b) \<Longrightarrow> frames A V (condT c a b)"
  by (simp add: frames_def condT_def)

lemma frames_guard: "frames A V (run ss) \<Longrightarrow> frames A V (\<lambda>t. if g then t else run ss t)"
  by (simp add: frames_def)

lemmas frames_intros = frames_run_Nil frames_run_Cons frames_cond frames_condT frames_other
  frames_set_active frames_set_isUserOutput

lemma frames_Documentation:
  "frames (set activeWrites_Documentation) (set outputWrites_Documentation)
     (reconfigureDocumentation pd r)"
  unfolding reconfigureDocumentation_def [abs_def]
  apply (intro frames_intros)
  apply (simp_all add: activeWrites_Documentation_def outputWrites_Documentation_def)
  done

lemma frames_Surface:
  "frames (set activeWrites_Surface) (set outputWrites_Surface) (reconfigureSurfaceModule pd r)"
  unfolding reconfigureSurfaceModule_def [abs_def] Let_def
    surfaceAlwaysOn_def surfaceFuelOption_def surfaceLoadTransferOption_def surfaceMoistureOption_def surfaceWindSpeedOption_def surfaceSpreadDirOption_def
    surfaceWindDirOption_def surfaceDegreesOption_def surfaceSlopeOption_def surfaceOutputs_def surfaceTwoFuelOutputs_def surfaceMoisDead1000_def
  apply (rule frames_guard)
  apply (intro frames_intros)
  apply (simp_all add: activeWrites_Surface_def outputWrites_Surface_def)
  done

lemma frames_Crown:
  "frames (set activeWrites_Crown) (set outputWrites_Crown) (reconfigureCrownModule pd r)"
  unfolding reconfigureCrownModule_def [abs_def] Let_def
  apply (rule frames_guard)
  apply (intro frames_intros)
  apply (simp_all add: activeWrites_Crown_def outputWrites_Crown_def)
  done

lemma frames_Size:
  "frames (set activeWrites_Size) (set outputWrites_Size) (reconfigureSizeModule pd r)"
  unfolding reconfigureSizeModule_def [abs_def] Let_def
  apply (rule frames_guard)
  apply (intro frames_intros)
  apply (simp_all add: activeWrites_Size_def outputWrites_Size_def)
  done

lemma frames_Contain:
  "frames (set activeWrites_Contain) (set outputWrites_Contain) (reconfigureContainModule pd r)"
  unfolding reconfigureContainModule_def [abs_def] Let_def
  apply (rule frames_guard)
  apply (intro frames_intros)
  apply (simp_all add: activeWrites_Contain_def outputWrites_Contain_def)
  done

lemma frames_Spot:
  "frames (set activeWrites_Spot) (set outputWrites_Spot) (reconfigureSpotModule pd r)"
  unfolding reconfigureSpotModule_def [abs_def] Let_def
  apply (rule frames_guard)
  apply (intro frames_intros)
  apply (simp_all add: activeWrites_Spot_def outputWrites_Spot_def)
  done

lemma frames_Scorch:
  "frames (set activeWrites_Scorch) (set outputWrites_Scorch) (reconfigureScorchModule pd r)"
  unfolding reconfigureScorchModule_def [abs_def] Let_def
  apply (rule frames_guard)
  apply (intro frames_intros)
  apply (simp_all add: activeWrites_Scorch_def outputWrites_Scorch_def)
  done

lemma frames_Mortality:
  "frames (set activeWrites_Mortality) (set outputWrites_Mortality) (reconfigureMortalityModule pd r)"
  unfolding reconfigureMortalityModule_def [abs_def] Let_def
  apply (rule frames_guard)
  apply (intro frames_intros)
  apply (simp_all add: activeWrites_Mortality_def outputWrites_Mortality_def)
  done

lemma frames_Ignition:
  "frames (set activeWrites_Ignition) (set outputWrites_Ignition) (reconfigureIgnitionModule pd r)"
  unfolding reconfigureIgnitionModule_def [abs_def] Let_def
  apply (rule frames_guard)
  apply (intro frames_intros)
  apply (simp_all add: activeWrites_Ignition_def outputWrites_Ignition_def)
  done

lemma frames_Weather:
  "frames (set activeWrites_Weather) (set outputWrites_Weather) (reconfigureWeatherModule pd r)"
  unfolding reconfigureWeatherModule_def [abs_def] Let_def
  apply (rule frames_guard)
  apply (intro frames_intros)
  apply (simp_all add: activeWrites_Weather_def outputWrites_Weather_def)
  done

lemma frames_Safety:
  "frames (set activeWrites_Safety) (set outputWrites_Safety) (reconfigureSafetyModule pd r)"
  unfolding reconfigureSafetyModule_def [abs_def] Let_def
  apply (rule frames_guard)
  apply (intro frames_intros)
  apply (simp_all add: activeWrites_Safety_def outputWrites_Safety_def)
  done

lemma frames_module:
  "frames (set (activeWrites M)) (set (outputWrites M)) (reconfigureModule M pd r)"
  by (cases M)
    (simp_all add: frames_Surface frames_Crown frames_Size frames_Contain frames_Spot
      frames_Scorch frames_Mortality frames_Ignition frames_Weather frames_Safety)

lemma reconfigureModule_off:
  "\<not> boolean pd (moduleActive M) \<Longrightarrow> reconfigureModule M pd r t = t"
  by (cases M)
    (simp_all add: reconfigureSurfaceModule_def reconfigureCrownModule_def
      reconfigureSizeModule_def reconfigureContainModule_def reconfigureSpotModule_def
      reconfigureScorchModule_def reconfigureMortalityModule_def
      reconfigureIgnitionModule_def reconfigureWeatherModule_def reconfigureSafetyModule_def)

lemma store_flags [simp]:
  "m_active (set_active f b t) g = (if g = f then b else m_active t g)"
  "m_active (set_isUserOutput v b t) g = m_active t g"
  "m_active (set_isUserInput v b t) g = m_active t g"
  "m_active (set_isConstant v b t) g = m_active t g"
  "m_active (update v x t) g = m_active t g"
  "m_active (updateItem v i t) g = m_active t g"
  "m_active (setLabel v l t) g = m_active t g"
  "isUserOutput (set_isUserOutput v b t) w = (if w = v then b else isUserOutput t w)"
  "isUserOutput (set_active f b t) w = isUserOutput t w"
  "isUserOutput (set_isUserInput v b t) w = isUserOutput t w"
  "isUserOutput (set_isConstant v b t) w = isUserOutput t w"
  "isUserOutput (update v x t) w = isUserOutput t w"
  "isUserOutput (updateItem v i t) w = isUserOutput t w"
  "isUserOutput (setLabel v l t) w = isUserOutput t w"
  by (simp_all add: set_active_def set_isUserOutput_def set_isUserInput_def set_isConstant_def
      update_def updateItem_def setLabel_def isUserOutput_def)

lemma run_keeps_active:
  "(\<And>s t. s \<in> set ss \<Longrightarrow> m_active (s t) f = m_active t f)
     \<Longrightarrow> m_active (run ss t) f = m_active t f"
  by (induction ss arbitrary: t) simp_all

lemma run_keeps_output:
  "(\<And>s t. s \<in> set ss \<Longrightarrow> isUserOutput (s t) v = isUserOutput t v)
     \<Longrightarrow> isUserOutput (run ss t) v = isUserOutput t v"
  by (induction ss arbitrary: t) simp_all

lemma reconfigure_eq:
  "reconfigure pd r =
     run (reconfigureDocumentation pd r
          # map (\<lambda>M. reconfigureModule M pd r)
              [Surface, Crown, Size, Contain, Spot, Scorch, Mortality, Ignition, Weather,
               Safety])"
  by (simp add: reconfigure_def)

lemma procedureRuns_master: "procedureRuns pd M \<Longrightarrow> boolean pd (moduleActive M)"
  by (cases M) simp_all

lemma reconfigureModule_skipped:
  "\<not> procedureRuns pd M \<Longrightarrow> reconfigureModule M pd r t = t"
  by (cases M)
    (simp_all add: reconfigureSurfaceModule_def reconfigureCrownModule_def
      reconfigureSizeModule_def reconfigureContainModule_def reconfigureSpotModule_def
      reconfigureScorchModule_def reconfigureMortalityModule_def
      reconfigureIgnitionModule_def reconfigureWeatherModule_def reconfigureSafetyModule_def)

lemma running_keeps_active:
  assumes "\<forall>M'. procedureRuns pd M' \<longrightarrow> f \<notin> set (activeWrites M')"
  shows "m_active (reconfigureModule M' pd r t) f = m_active t f"
proof (cases "procedureRuns pd M'")
  case True
  then have "f \<notin> set (activeWrites M')" using assms by simp
  then show ?thesis using frames_module [of M' pd r] by (simp add: frames_def)
next
  case False
  then show ?thesis by (simp add: reconfigureModule_skipped)
qed

lemma running_keeps_output:
  assumes "\<forall>M'. procedureRuns pd M' \<longrightarrow> v \<notin> set (outputWrites M')"
  shows "isUserOutput (reconfigureModule M' pd r t) v = isUserOutput t v"
proof (cases "procedureRuns pd M'")
  case True
  then have "v \<notin> set (outputWrites M')" using assms by simp
  then show ?thesis using frames_module [of M' pd r] by (simp add: frames_def)
next
  case False
  then show ?thesis by (simp add: reconfigureModule_skipped)
qed

lemma reconfigure_keeps_active:
  assumes "\<forall>M'. procedureRuns pd M' \<longrightarrow> f \<notin> set (activeWrites M')"
  shows "m_active (reconfigure pd r t) f = m_active t f"
  unfolding reconfigure_eq
proof (rule run_keeps_active)
  fix s u
  assume "s \<in> set (reconfigureDocumentation pd r
        # map (\<lambda>M. reconfigureModule M pd r)
            [Surface, Crown, Size, Contain, Spot, Scorch, Mortality, Ignition, Weather,
             Safety])"
  then consider "s = reconfigureDocumentation pd r"
    | M' where "s = reconfigureModule M' pd r"
    by (auto simp del: reconfigureModule.simps)
  then show "m_active (s u) f = m_active u f"
  proof cases
    case 1
    then show ?thesis
      using frames_Documentation [of pd r]
      by (simp add: frames_def activeWrites_Documentation_def)
  next
    case 2
    then show ?thesis using running_keeps_active [OF assms] by simp
  qed
qed

lemma reconfigure_keeps_output:
  assumes "v \<notin> set outputWrites_Documentation"
    and "\<forall>M'. procedureRuns pd M' \<longrightarrow> v \<notin> set (outputWrites M')"
  shows "isUserOutput (reconfigure pd r t) v = isUserOutput t v"
  unfolding reconfigure_eq
proof (rule run_keeps_output)
  fix s u
  assume "s \<in> set (reconfigureDocumentation pd r
        # map (\<lambda>M. reconfigureModule M pd r)
            [Surface, Crown, Size, Contain, Spot, Scorch, Mortality, Ignition, Weather,
             Safety])"
  then consider "s = reconfigureDocumentation pd r"
    | M' where "s = reconfigureModule M' pd r"
    by (auto simp del: reconfigureModule.simps)
  then show "isUserOutput (s u) v = isUserOutput u v"
  proof cases
    case 1
    then show ?thesis
      using frames_Documentation [of pd r] assms(1)
      by (simp add: frames_def)
  next
    case 2
    then show ?thesis using running_keeps_output [OF assms(2)] by simp
  qed
qed

text \<open>
  The ten documentation variables are variables of no module: no procedure of a module
  assigns the user output flag of one of them.
\<close>

lemma documentation_variables_separate:
  "v \<in> set (outputWrites M) \<Longrightarrow> v \<notin> set outputWrites_Documentation"
proof -
  have "list_all (\<lambda>v. v \<notin> set outputWrites_Documentation) (outputWrites M)"
    by (cases M)
      (simp_all add: outputWrites_Documentation_def outputWrites_Surface_def
        outputWrites_Crown_def outputWrites_Size_def outputWrites_Contain_def
        outputWrites_Spot_def outputWrites_Scorch_def outputWrites_Mortality_def
        outputWrites_Ignition_def outputWrites_Weather_def outputWrites_Safety_def)
  then show "v \<in> set (outputWrites M) \<Longrightarrow> v \<notin> set outputWrites_Documentation"
    by (simp add: list_all_iff)
qed


text \<open>
  C5 (as amended). Start from a tree in which every function is inactive and no variable is
  a user output, and let the master property of a module be false. Then the procedure of
  that module returns its tree unchanged and is not among the procedures that run, and
  after all eleven procedures every function, of that module or of another, whose active
  flag no running procedure assigns is inactive, and every variable other than the ten
  documentation variables whose user output flag no running procedure assigns is not a
  user output. A function or variable of the module that a running procedure of another
  module assigns gets the flag that procedure gives it, as the example after the theorem
  shows.
\<close>

theorem reconfigure_module_off:
  assumes init: "\<forall>f. \<not> m_active t f" "\<forall>v. \<not> isUserOutput t v"
    and off: "\<not> boolean pd (moduleActive M)"
  shows "(\<forall>u. reconfigureModule M pd release u = u)
       \<and> \<not> procedureRuns pd M
       \<and> (\<forall>f. (\<forall>M'. procedureRuns pd M' \<longrightarrow> f \<notin> set (activeWrites M'))
              \<longrightarrow> \<not> m_active (reconfigure pd release t) f)
       \<and> (\<forall>v. v \<notin> set outputWrites_Documentation
                \<and> (\<forall>M'. procedureRuns pd M' \<longrightarrow> v \<notin> set (outputWrites M'))
              \<longrightarrow> \<not> isUserOutput (reconfigure pd release t) v)"
  using init off reconfigureModule_off [OF off] procedureRuns_master [of pd M]
    reconfigure_keeps_active [of pd _ release t] reconfigure_keeps_output [of _ pd release t]
  by auto


lemma clearTree_flags [simp]:
  "m_active clearTree f = False"
  "isUserOutput clearTree v = False"
  by (simp_all add: clearTree_def clearVar_def isUserOutput_def)

lemma boolean_propsOf [simp]: "boolean (propsOf names) name \<longleftrightarrow> name \<in> set names"
  by (simp add: propsOf_def)

text \<open>
  With the Surface module off and the Size and Scorch modules on, the engine activates
  \<open>fSurfaceFireLengthToWidth\<close>, one of the functions that the Surface procedure
  switches on unconditionally, and makes \<open>vWindSpeedAtMidflame\<close> a user output from the
  Surface property \<open>surfaceCalcWindSpeedAtMidflame\<close>.
\<close>

theorem reconfigure_module_off_counterexample:
  "\<not> boolean sizeScorchProps (moduleActive Surface)
   \<and> ''fSurfaceFireLengthToWidth'' \<in> set (activeWrites Surface)
   \<and> m_active (reconfigure sizeScorchProps 0 clearTree) ''fSurfaceFireLengthToWidth''
   \<and> ''vWindSpeedAtMidflame'' \<in> set (outputWrites Surface)
   \<and> isUserOutput (reconfigure sizeScorchProps 0 clearTree) ''vWindSpeedAtMidflame''"
proof -
  have off: "reconfigureDocumentation sizeScorchProps 0 t = t"
    "reconfigureSurfaceModule sizeScorchProps 0 t = t"
    "reconfigureCrownModule sizeScorchProps 0 t = t"
    "reconfigureContainModule sizeScorchProps 0 t = t"
    "reconfigureSpotModule sizeScorchProps 0 t = t"
    "reconfigureMortalityModule sizeScorchProps 0 t = t"
    "reconfigureIgnitionModule sizeScorchProps 0 t = t"
    "reconfigureWeatherModule sizeScorchProps 0 t = t"
    "reconfigureSafetyModule sizeScorchProps 0 t = t" for t
    by (simp_all add: reconfigureDocumentation_def reconfigureSurfaceModule_def
        reconfigureCrownModule_def reconfigureContainModule_def reconfigureSpotModule_def
        reconfigureMortalityModule_def reconfigureIgnitionModule_def
        reconfigureWeatherModule_def reconfigureSafetyModule_def cond_def sizeScorchProps_def)
  have eq: "reconfigure sizeScorchProps 0 clearTree
      = reconfigureScorchModule sizeScorchProps 0
          (reconfigureSizeModule sizeScorchProps 0 clearTree)"
    by (simp add: reconfigure_def off)
  have size: "m_active (reconfigureSizeModule sizeScorchProps 0 t) ''fSurfaceFireLengthToWidth''" for t
    by (simp add: reconfigureSizeModule_def cond_def sizeScorchProps_def)
  have "m_active (reconfigureScorchModule sizeScorchProps 0 t) ''fSurfaceFireLengthToWidth''
          = m_active t ''fSurfaceFireLengthToWidth''" for t
    using frames_Scorch [of sizeScorchProps 0]
    by (simp add: frames_def activeWrites_Scorch_def)
  moreover have "isUserOutput (reconfigureScorchModule sizeScorchProps 0 t) ''vWindSpeedAtMidflame''" for t
    by (simp add: reconfigureScorchModule_def cond_def sizeScorchProps_def)
  ultimately show ?thesis
    by (simp add: eq size) (simp add: sizeScorchProps_def activeWrites_Surface_def outputWrites_Surface_def)
qed

text \<open>
  In the same configuration \<open>fSurfaceFuelBedParms\<close>, which only the Surface procedure
  assigns, and \<open>fSurfaceFireFlameLengAtHead\<close>, which the Surface and the Safety procedures
  assign, stay inactive: neither of the two procedures that run, Size and Scorch, assigns
  them.
\<close>

lemma sizeScorchProps_runs:
  "procedureRuns sizeScorchProps M \<longleftrightarrow> M = Size \<or> M = Scorch"
  by (cases M) (simp_all add: sizeScorchProps_def)

theorem reconfigure_module_off_witness:
  "\<not> m_active (reconfigure sizeScorchProps 0 clearTree) ''fSurfaceFuelBedParms''
   \<and> \<not> m_active (reconfigure sizeScorchProps 0 clearTree) ''fSurfaceFireFlameLengAtHead''
   \<and> \<not> isUserOutput (reconfigure sizeScorchProps 0 clearTree) ''vSurfaceFireReactionInt''
   \<and> reconfigureModule Surface sizeScorchProps 0 clearTree = clearTree"
proof -
  have f: "\<forall>M'. procedureRuns sizeScorchProps M'
             \<longrightarrow> ''fSurfaceFuelBedParms'' \<notin> set (activeWrites M')"
    "\<forall>M'. procedureRuns sizeScorchProps M'
             \<longrightarrow> ''fSurfaceFireFlameLengAtHead'' \<notin> set (activeWrites M')"
    unfolding sizeScorchProps_runs
    by (auto simp: activeWrites_Size_def activeWrites_Scorch_def)
  have v: "\<forall>M'. procedureRuns sizeScorchProps M'
             \<longrightarrow> ''vSurfaceFireReactionInt'' \<notin> set (outputWrites M')"
    unfolding sizeScorchProps_runs
    by (auto simp: outputWrites_Size_def outputWrites_Scorch_def)
  have d: "''vSurfaceFireReactionInt'' \<notin> set outputWrites_Documentation"
    by (simp add: outputWrites_Documentation_def)
  have i: "\<forall>f. \<not> m_active clearTree f" "\<forall>v. \<not> isUserOutput clearTree v"
    by simp_all
  have o: "\<not> boolean sizeScorchProps (moduleActive Surface)"
    by (simp add: sizeScorchProps_def)
  from reconfigure_module_off [OF i o, of 0] f v d show ?thesis
    by blast
qed


lemma surfaceTwoFuelOutputs_output:
  assumes "(v, calc) \<in> set perModelIntermediates"
  shows "isUserOutput (surfaceTwoFuelOutputs pd t) v
           = (if boolean pd ''surfaceConfFuelAreaWeighted''
                 \<or> boolean pd ''surfaceConfFuelHarmonicMean''
                 \<or> boolean pd ''surfaceConfFuel2Dimensional''
              then False else boolean pd calc)"
  using assms unfolding perModelIntermediates_def surfaceTwoFuelOutputs_def Let_def
  by (elim disjE conjE |simp)+

lemma surfaceMoisDead1000_output [simp]:
  "isUserOutput (surfaceMoisDead1000 t) v = isUserOutput t v"
  by (simp add: surfaceMoisDead1000_def)

text \<open>
  C6. When the Surface module is active, its procedure leaves the user output flag of each
  of the 23 per-model intermediate variables false if any of the three two fuel model
  choices is selected, whatever the variable's own property says, and equal to that
  property if none is selected.
\<close>

theorem reconfigureSurfaceModule_two_fuel_outputs:
  assumes "boolean pd ''surfaceModuleActive''"
  shows "list_all
           (\<lambda>(v, calc). isUserOutput (reconfigureSurfaceModule pd release t) v
              = (if boolean pd ''surfaceConfFuelAreaWeighted''
                    \<or> boolean pd ''surfaceConfFuelHarmonicMean''
                    \<or> boolean pd ''surfaceConfFuel2Dimensional''
                 then False else boolean pd calc))
           perModelIntermediates"
proof -
  obtain u where u: "reconfigureSurfaceModule pd release t
                       = surfaceMoisDead1000 (surfaceTwoFuelOutputs pd u)"
    using assms by (simp add: reconfigureSurfaceModule_def)
  show ?thesis
    unfolding list_all_iff u
    by (auto simp add: surfaceTwoFuelOutputs_output)
qed

theorem reconfigureSurfaceModule_two_fuel_outputs_witness:
  "boolean twoFuelProps ''surfaceCalcFireHeatSource''
   \<and> \<not> isUserOutput (reconfigureSurfaceModule twoFuelProps 0 clearTree) ''vSurfaceFireHeatSource''
   \<and> \<not> isUserOutput (reconfigureSurfaceModule twoFuelProps 0 clearTree) ''vSurfaceFuelBedSigma''
   \<and> isUserOutput (reconfigureSurfaceModule oneFuelProps 0 clearTree) ''vSurfaceFireHeatSource''
   \<and> isUserOutput (reconfigureSurfaceModule oneFuelProps 0 clearTree) ''vSurfaceFuelBedSigma''
   \<and> \<not> isUserOutput (reconfigureSurfaceModule oneFuelProps 0 clearTree) ''vSurfaceFuelLoadDead''"
proof -
  have a: "boolean twoFuelProps ''surfaceModuleActive''" "boolean oneFuelProps ''surfaceModuleActive''"
    by (simp_all add: twoFuelProps_def oneFuelProps_def)
  have m: "(''vSurfaceFireHeatSource'', ''surfaceCalcFireHeatSource'') \<in> set perModelIntermediates"
    "(''vSurfaceFuelBedSigma'', ''surfaceCalcFuelBedSigma'') \<in> set perModelIntermediates"
    "(''vSurfaceFuelLoadDead'', ''surfaceCalcFuelLoadDead'') \<in> set perModelIntermediates"
    by (simp_all add: perModelIntermediates_def)
  from reconfigureSurfaceModule_two_fuel_outputs [OF a(1), of 0 clearTree]
    reconfigureSurfaceModule_two_fuel_outputs [OF a(2), of 0 clearTree]
  have "\<forall>(v, calc) \<in> set perModelIntermediates.
          isUserOutput (reconfigureSurfaceModule twoFuelProps 0 clearTree) v
            = (if boolean twoFuelProps ''surfaceConfFuelAreaWeighted''
                  \<or> boolean twoFuelProps ''surfaceConfFuelHarmonicMean''
                  \<or> boolean twoFuelProps ''surfaceConfFuel2Dimensional''
               then False else boolean twoFuelProps calc)"
    "\<forall>(v, calc) \<in> set perModelIntermediates.
          isUserOutput (reconfigureSurfaceModule oneFuelProps 0 clearTree) v
            = (if boolean oneFuelProps ''surfaceConfFuelAreaWeighted''
                  \<or> boolean oneFuelProps ''surfaceConfFuelHarmonicMean''
                  \<or> boolean oneFuelProps ''surfaceConfFuel2Dimensional''
               then False else boolean oneFuelProps calc)"
    unfolding list_all_iff by blast+
  from this [THEN bspec, OF m(1)] this [THEN bspec, OF m(2)] this(2) [THEN bspec, OF m(3)]
  show ?thesis
    by (simp add: twoFuelProps_def oneFuelProps_def)
qed

end
